(* ===== verification/Py_Prelude.thy ===== *)
theory Py_Prelude
  imports Complex_Main
begin

text \<open>
  Shared vocabulary of the development: the exceptions of the Python run time that
  the program can meet, results of fallible operations as sums over them, the
  sequencing operator of such results, and generic facts on lists and rational
  numbers that several components use.

  The collection \<open>py_defs\<close> holds the unfolding equations of the non-recursive
  operations of every component, so that a proof that wants to compute through a
  component says \<open>simp add: py_defs\<close>; \<open>py_intros\<close> holds the well-formedness
  facts that are proved once per operation and chained in invariants.
\<close>

named_theorems py_defs "unfolding equations of the modelled operations"
named_theorems py_intros "well-formedness facts of the modelled operations"

section \<open>Exceptions and results\<close>

text \<open>
  An exception is its class, with its message where the class is one whose
  message the program builds or shows. The text that the interpreter composes for
  an error of its own is not modelled: such an exception carries the empty
  message. \<open>SystemExit n\<close> is what \<open>sys.exit(n)\<close> raises; it is no \<open>Exception\<close>,
  so no \<open>except Exception\<close> clause catches it.
\<close>

datatype exn =
    ValueError string
  | ZeroDivisionError
  | OverflowError
  | TypeError
  | AttributeError
  | KeyError
  | IndexError
  | OSError string
  | SystemExit int

type_synonym 'a result = "exn + 'a"

abbreviation Raise :: "exn \<Rightarrow> 'a result" where
  "Raise e \<equiv> Inl e"

abbreviation Return :: "'a \<Rightarrow> 'a result" where
  "Return x \<equiv> Inr x"

definition rbind :: "'a result \<Rightarrow> ('a \<Rightarrow> 'b result) \<Rightarrow> 'b result" where
  "rbind m f = (case m of Inl e \<Rightarrow> Inl e | Inr x \<Rightarrow> f x)"

definition is_ValueError :: "exn \<Rightarrow> bool" where
  "is_ValueError e = (case e of ValueError _ \<Rightarrow> True | _ \<Rightarrow> False)"

lemma rbind_Raise [simp]: "rbind (Raise e) f = Raise e"
  by (simp add: rbind_def)

lemma rbind_Return [simp]: "rbind (Return x) f = f x"
  by (simp add: rbind_def)

lemma rbind_eq_Return_iff:
  "rbind m f = Return y \<longleftrightarrow> (\<exists>x. m = Return x \<and> f x = Return y)"
  by (cases m) simp_all

lemma rbind_eq_Raise_iff:
  "rbind m f = Raise e \<longleftrightarrow> m = Raise e \<or> (\<exists>x. m = Return x \<and> f x = Raise e)"
  by (cases m) simp_all

lemma rbind_assoc: "rbind (rbind m f) g = rbind m (\<lambda>x. rbind (f x) g)"
  by (cases m) simp_all

lemma is_ValueError_simps [simp]:
  "is_ValueError (ValueError m)"
  "\<not> is_ValueError ZeroDivisionError"
  "\<not> is_ValueError OverflowError"
  "\<not> is_ValueError TypeError"
  "\<not> is_ValueError AttributeError"
  "\<not> is_ValueError KeyError"
  "\<not> is_ValueError IndexError"
  "\<not> is_ValueError (OSError m)"
  "\<not> is_ValueError (SystemExit n)"
  by (simp_all add: is_ValueError_def)

text \<open>\<open>str(e)\<close> of an exception: the message it carries.\<close>

definition exn_message :: "exn \<Rightarrow> string" where
  "exn_message e = (case e of ValueError m \<Rightarrow> m | OSError m \<Rightarrow> m | _ \<Rightarrow> [])"

section \<open>Lists\<close>

lemma map_of_eq_Some_in_set: "map_of ps k = Some v \<Longrightarrow> (k, v) \<in> set ps"
  by (rule map_of_SomeD)

lemma map_of_map_key_None:
  "k \<notin> fst ` set ps \<Longrightarrow> map_of ps k = None"
  by (simp add: map_of_eq_None_iff)

lemma takeWhile_dropWhile_not_hd:
  "dropWhile P xs = y # ys \<Longrightarrow> \<not> P y"
  using hd_dropWhile [of P xs] by auto

lemma dropWhile_none: "\<forall>x \<in> set xs. \<not> P x \<Longrightarrow> dropWhile P xs = xs"
  by (cases xs) auto

lemma dropWhile_length_le: "length (dropWhile P xs) \<le> length xs"
  by (induction xs) auto

lemma rev_dropWhile_rev_length_le: "length (rev (dropWhile P (rev xs))) \<le> length xs"
  using dropWhile_length_le [of P "rev xs"] by simp

section \<open>Integers and rationals\<close>

text \<open>
  Python's \<open>//\<close> on integers is the floor division of HOL's \<open>div\<close> on \<open>int\<close>, and
  \<open>int()\<close> of a float truncates towards zero.
\<close>

definition trunc :: "rat \<Rightarrow> int" where
  "trunc x = (if 0 \<le> x then \<lfloor>x\<rfloor> else \<lceil>x\<rceil>)"

lemma trunc_of_int [simp]: "trunc (of_int n) = n"
  by (simp add: trunc_def)

lemma trunc_zero [simp]: "trunc 0 = 0"
  by (simp add: trunc_def)

lemma trunc_nonneg: "0 \<le> x \<Longrightarrow> 0 \<le> trunc x"
  by (simp add: trunc_def)

lemma trunc_nonpos: "x \<le> 0 \<Longrightarrow> trunc x \<le> 0"
  by (auto simp: trunc_def ceiling_le_iff)

lemma trunc_le_self: "0 \<le> x \<Longrightarrow> of_int (trunc x) \<le> x"
  by (simp add: trunc_def)

lemma trunc_gt_self_minus_one: "0 \<le> x \<Longrightarrow> x - 1 < of_int (trunc x)"
  by (simp add: trunc_def) linarith

lemma trunc_abs_le: "\<bar>of_int (trunc x)\<bar> \<le> \<bar>x\<bar>"
proof (cases "0 \<le> x")
  case True
  then show ?thesis by (simp add: trunc_def)
next
  case False
  then have "\<lceil>x\<rceil> \<le> 0" and "x \<le> of_int \<lceil>x\<rceil>"
    by (simp_all add: ceiling_le_iff)
  with False show ?thesis by (simp add: trunc_def)
qed

lemma trunc_mono_nonneg: "0 \<le> x \<Longrightarrow> x \<le> y \<Longrightarrow> trunc x \<le> trunc y"
  by (simp add: trunc_def floor_mono)

lemma trunc_eq_iff_nonneg:
  "0 \<le> x \<Longrightarrow> trunc x = n \<longleftrightarrow> of_int n \<le> x \<and> x < of_int n + 1"
  by (simp add: trunc_def floor_eq_iff)

lemma floor_rat_divide_numeral [simp]:
  "\<lfloor>(numeral a :: rat) / numeral b\<rfloor> = numeral a div numeral b"
  by (metis floor_divide_of_int_eq of_int_numeral)

end
