(* ===== verification/Py_String.thy ===== *)
theory Py_String
  imports Py_Prelude
begin

text \<open>
  The operations of Python's \<open>str\<close> that the program calls, on strings of
  8-bit characters: \<open>lower\<close>, \<open>split\<close> on a one-character separator, the
  whitespace stripping that \<open>float\<close> applies to its argument, and the decimal
  text of a non-negative integer as an f-string prints it. Characters above 127
  have no case, are no digits and are no whitespace here, which is what the
  interpreter does with the bytes of an ASCII string; the one non-ASCII code point
  whose lower case is an ASCII letter (the Kelvin sign, lower case \<open>k\<close>) cannot
  produce a key of the preset table, which holds no \<open>k\<close>.
\<close>

section \<open>Character classes\<close>

definition upper_letters :: string where
  "upper_letters = ''ABCDEFGHIJKLMNOPQRSTUVWXYZ''"

definition lower_letters :: string where
  "lower_letters = ''abcdefghijklmnopqrstuvwxyz''"

definition lower_char :: "char \<Rightarrow> char" where
  "lower_char c = (case map_of (zip upper_letters lower_letters) c of Some l \<Rightarrow> l | None \<Rightarrow> c)"

definition str_lower :: "string \<Rightarrow> string" where
  "str_lower s = map lower_char s"

definition is_digit :: "char \<Rightarrow> bool" where
  "is_digit c \<longleftrightarrow> c \<in> set ''0123456789''"

definition is_space :: "char \<Rightarrow> bool" where
  "is_space c \<longleftrightarrow> c \<in> set [CHR 0x09, CHR 0x0A, CHR 0x0B, CHR 0x0C, CHR 0x0D, CHR '' '']"

definition digit_val :: "char \<Rightarrow> nat" where
  "digit_val c = of_char c - 48"

definition digit_char :: "nat \<Rightarrow> char" where
  "digit_char n = ''0123456789'' ! n"

section \<open>Decimal text of a natural number\<close>

fun str_nat :: "nat \<Rightarrow> string" where
  "str_nat n = (if n < 10 then [digit_char n] else str_nat (n div 10) @ [digit_char (n mod 10)])"

declare str_nat.simps [simp del]

definition dec_val :: "string \<Rightarrow> nat" where
  "dec_val s = foldl (\<lambda>a c. 10 * a + digit_val c) 0 s"

section \<open>Splitting and stripping\<close>

primrec str_split :: "char \<Rightarrow> string \<Rightarrow> string list" where
  "str_split sep [] = [[]]"
| "str_split sep (c # cs) =
     (if c = sep then [] # str_split sep cs
      else (case str_split sep cs of p # ps \<Rightarrow> (c # p) # ps | [] \<Rightarrow> [[c]]))"

primrec str_join :: "char \<Rightarrow> string list \<Rightarrow> string" where
  "str_join sep [] = []"
| "str_join sep (p # ps) = (if ps = [] then p else p @ sep # str_join sep ps)"

definition str_strip :: "string \<Rightarrow> string" where
  "str_strip s = rev (dropWhile is_space (rev (dropWhile is_space s)))"

section \<open>Lower case\<close>

lemma lower_char_upper:
  "c \<in> set upper_letters \<Longrightarrow> lower_char c \<in> set lower_letters"
  by (auto simp: lower_char_def upper_letters_def lower_letters_def)

lemma lower_char_not_upper [simp]:
  "c \<notin> set upper_letters \<Longrightarrow> lower_char c = c"
  by (auto simp: lower_char_def upper_letters_def lower_letters_def)

lemma lower_letters_not_upper: "c \<in> set lower_letters \<Longrightarrow> c \<notin> set upper_letters"
  by (auto simp: upper_letters_def lower_letters_def)

lemma lower_char_result_not_upper: "lower_char c \<notin> set upper_letters"
  by (cases "c \<in> set upper_letters")
    (auto dest: lower_char_upper lower_letters_not_upper)

lemma lower_char_idem [simp]: "lower_char (lower_char c) = lower_char c"
  by (simp add: lower_char_result_not_upper)

lemma str_lower_idem [simp]: "str_lower (str_lower s) = str_lower s"
  by (simp add: str_lower_def)

lemma length_str_lower [simp]: "length (str_lower s) = length s"
  by (simp add: str_lower_def)

lemma str_lower_Nil [simp]: "str_lower [] = []"
  by (simp add: str_lower_def)

lemma str_lower_Cons [simp]: "str_lower (c # cs) = lower_char c # str_lower cs"
  by (simp add: str_lower_def)

lemma str_lower_append [simp]: "str_lower (s @ t) = str_lower s @ str_lower t"
  by (simp add: str_lower_def)

lemma str_lower_no_upper: "set s \<inter> set upper_letters = {} \<Longrightarrow> str_lower s = s"
  by (induction s) auto

lemma lower_char_eq_iff_not_letter:
  "x \<notin> set lower_letters \<Longrightarrow> lower_char c = x \<longleftrightarrow> c = x \<and> c \<notin> set upper_letters"
  by (cases "c \<in> set upper_letters") (auto dest: lower_char_upper)

lemma lower_char_colon [simp]: "lower_char c = CHR '':'' \<longleftrightarrow> c = CHR '':''"
  by (subst lower_char_eq_iff_not_letter) (auto simp: lower_letters_def upper_letters_def)

lemma colon_lower_char [simp]: "CHR '':'' = lower_char c \<longleftrightarrow> c = CHR '':''"
  by (metis lower_char_colon)

lemma colon_in_str_lower [simp]: "CHR '':'' \<in> set (str_lower s) \<longleftrightarrow> CHR '':'' \<in> set s"
  by (induction s) auto

section \<open>Digits\<close>

lemma digit_val_digit_char [simp]: "n < 10 \<Longrightarrow> digit_val (digit_char n) = n"
proof -
  assume "n < 10"
  then have "n \<in> {0, 1, 2, 3, 4, 5, 6, 7, 8, 9}" by auto
  then show ?thesis by (auto simp: digit_val_def digit_char_def)
qed

lemma is_digit_digit_char [simp]: "n < 10 \<Longrightarrow> is_digit (digit_char n)"
proof -
  assume "n < 10"
  then have "n \<in> {0, 1, 2, 3, 4, 5, 6, 7, 8, 9}" by auto
  then show ?thesis by (auto simp: is_digit_def digit_char_def)
qed

lemma digit_char_digit_val [simp]: "is_digit c \<Longrightarrow> digit_char (digit_val c) = c"
  by (auto simp: is_digit_def digit_val_def digit_char_def)

lemma digit_val_less_10: "is_digit c \<Longrightarrow> digit_val c < 10"
  by (auto simp: is_digit_def digit_val_def)

lemma is_digit_not_space: "is_digit c \<Longrightarrow> \<not> is_space c"
  by (auto simp: is_digit_def is_space_def)

lemma dec_val_Nil [simp]: "dec_val [] = 0"
  by (simp add: dec_val_def)

lemma dec_val_snoc [simp]: "dec_val (s @ [c]) = 10 * dec_val s + digit_val c"
  by (simp add: dec_val_def)

lemma str_nat_nonempty [simp]: "str_nat n \<noteq> []"
  by (subst str_nat.simps) simp

lemma str_nat_digits: "c \<in> set (str_nat n) \<Longrightarrow> is_digit c"
proof (induction n arbitrary: c rule: str_nat.induct)
  case (1 n)
  then show ?case
    by (subst (asm) (2) str_nat.simps) (auto split: if_splits)
qed

text \<open>Reading the decimal text of a number gives the number back.\<close>

lemma dec_val_str_nat [simp]: "dec_val (str_nat n) = n"
proof (induction n rule: str_nat.induct)
  case (1 n)
  show ?case
  proof (cases "n < 10")
    case True
    then show ?thesis by (subst str_nat.simps) (simp add: dec_val_def)
  next
    case False
    with "1.IH" have "dec_val (str_nat (n div 10)) = n div 10" by simp
    with False show ?thesis by (subst str_nat.simps) simp
  qed
qed

lemma str_nat_inj: "str_nat m = str_nat n \<Longrightarrow> m = n"
  by (metis dec_val_str_nat)

lemma str_nat_eq_iff [simp]: "str_nat m = str_nat n \<longleftrightarrow> m = n"
  by (auto dest: str_nat_inj)

lemma inj_str_nat: "inj str_nat"
  by (simp add: inj_def)

section \<open>Split and join\<close>

lemma str_split_nonempty [simp]: "str_split sep s \<noteq> []"
  by (induction s) (auto split: list.splits)

lemma str_join_str_split [simp]: "str_join sep (str_split sep s) = s"
  by (induction s) (auto split: list.splits)

lemma str_split_no_sep: "p \<in> set (str_split sep s) \<Longrightarrow> sep \<notin> set p"
  by (induction s arbitrary: p) (auto split: list.splits if_splits)

lemma length_str_split: "length (str_split sep s) = Suc (count_list s sep)"
  by (induction s) (auto split: list.splits)

lemma str_split_no_occurrence: "sep \<notin> set s \<Longrightarrow> str_split sep s = [s]"
  by (induction s) auto

lemma str_split_eq_singleton_iff: "str_split sep s = [p] \<longleftrightarrow> sep \<notin> set s \<and> p = s"
proof
  assume eq: "str_split sep s = [p]"
  then have "count_list s sep = 0"
    using length_str_split [of sep s] by simp
  then have "sep \<notin> set s" by (simp add: count_list_0_iff)
  with eq show "sep \<notin> set s \<and> p = s" by (simp add: str_split_no_occurrence)
qed (simp add: str_split_no_occurrence)

lemma str_split_append_sep:
  "sep \<notin> set p \<Longrightarrow> str_split sep (p @ sep # s) = p # str_split sep s"
  by (induction p) auto

lemma str_split_two:
  "sep \<notin> set p \<Longrightarrow> sep \<notin> set q \<Longrightarrow> str_split sep (p @ sep # q) = [p, q]"
  by (simp add: str_split_append_sep str_split_no_occurrence)

lemma str_split_eq_two_iff:
  "str_split sep s = [p, q] \<longleftrightarrow> s = p @ sep # q \<and> sep \<notin> set p \<and> sep \<notin> set q"
proof
  assume eq: "str_split sep s = [p, q]"
  then have "s = p @ sep # q"
    using str_join_str_split [of sep s] by simp
  moreover from eq have "sep \<notin> set p" "sep \<notin> set q"
    using str_split_no_sep [of _ sep s] by simp_all
  ultimately show "s = p @ sep # q \<and> sep \<notin> set p \<and> sep \<notin> set q" by simp
qed (simp add: str_split_two)

section \<open>Stripping\<close>

lemma str_strip_Nil [simp]: "str_strip [] = []"
  by (simp add: str_strip_def)

lemma str_strip_no_space: "\<forall>c \<in> set s. \<not> is_space c \<Longrightarrow> str_strip s = s"
proof -
  assume a: "\<forall>c \<in> set s. \<not> is_space c"
  then have "dropWhile is_space s = s" and "dropWhile is_space (rev s) = rev s"
    by (simp_all add: dropWhile_none)
  then show ?thesis by (simp add: str_strip_def)
qed

lemma str_strip_hd_not_space: "str_strip s = c # cs \<Longrightarrow> \<not> is_space c"
proof -
  assume eq: "str_strip s = c # cs"
  let ?t = "dropWhile is_space s"
  have "?t \<noteq> []"
  proof
    assume e: "?t = []"
    have "str_strip s = rev (dropWhile is_space (rev ?t))"
      by (simp only: str_strip_def)
    also have "\<dots> = []" unfolding e by simp
    finally show False using eq by simp
  qed
  then have nsp: "\<not> is_space (hd ?t)" by (rule hd_dropWhile)
  have "rev (dropWhile is_space (rev ?t)) = c # cs" using eq by (simp add: str_strip_def)
  then have "dropWhile is_space (rev ?t) = rev cs @ [c]"
    by (metis rev.simps(2) rev_rev_ident)
  moreover have "\<exists>us. rev ?t = us @ dropWhile is_space (rev ?t)"
    by (metis takeWhile_dropWhile_id)
  ultimately obtain us where "rev ?t = us @ rev cs @ [c]" by auto
  then have "?t = c # cs @ rev us"
    by (metis append_assoc rev.simps(2) rev_append rev_rev_ident rev_swap)
  with nsp show ?thesis by simp
qed

lemma length_str_strip_le: "length (str_strip s) \<le> length s"
proof -
  have "length (str_strip s) \<le> length (dropWhile is_space s)"
    unfolding str_strip_def by (rule rev_dropWhile_rev_length_le)
  also have "\<dots> \<le> length s" by (rule dropWhile_length_le)
  finally show ?thesis .
qed

end
