(* ===== verification/Py_Float.thy ===== *)
theory Py_Float
  imports Py_String "HOL-Library.Log_Nat"
begin

text \<open>
  Python's \<open>float\<close> as the program uses it in \<open>parse_aspect_ratio\<close>: the
  conversion \<open>float(s)\<close> of a string, the product and the quotient of two floats,
  the comparison \<open>>=\<close> and the conversion \<open>int(x)\<close>.

  A float is an IEEE 754 binary64 value. The finite ones are represented by the
  rational number they denote, the others by \<open>PInf\<close>, \<open>NInf\<close> and \<open>NaN\<close>.
  The sign of a zero is not represented: the program never observes it, since
  comparisons treat both zeros alike, a division by either zero raises, and
  \<open>int\<close> maps both to 0. Every arithmetic result is the exact rational result
  rounded to the nearest binary64 value, ties to the even significand
  (\<open>round_to_double\<close>), and replaced by an infinity when the rounded value has
  left the binary64 range (\<open>fl\<close>).
\<close>

section \<open>Values and rounding\<close>

datatype pyfloat = Fin rat | PInf | NInf | NaN

definition round_even :: "rat \<Rightarrow> int" where
  "round_even x = (let f = \<lfloor>x\<rfloor>; d = x - of_int f in
     if d < 1 / 2 then f else if 1 / 2 < d then f + 1 else if even f then f else f + 1)"

text \<open>
  \<open>ilog2 x\<close> is the binary exponent of a positive \<open>x\<close>: the integer \<open>e\<close> with
  \<open>2\<^sup>e \<le> x < 2\<^sup>e\<^sup>+\<^sup>1\<close>. It is computed on integers, from the bit length of the
  integer part of \<open>x\<close> or of its reciprocal.
\<close>

definition ilog2 :: "rat \<Rightarrow> int" where
  "ilog2 x = (if 1 \<le> x then bitlen \<lfloor>x\<rfloor> - 1 else - bitlen (\<lceil>1 / x\<rceil> - 1))"

text \<open>
  The spacing of the binary64 values around \<open>x\<close>: 52 fraction bits below the
  exponent of \<open>x\<close>, and the fixed spacing \<open>2\<^sup>-\<^sup>1\<^sup>0\<^sup>7\<^sup>4\<close> of the subnormal values
  below \<open>2\<^sup>-\<^sup>1\<^sup>0\<^sup>2\<^sup>2\<close>.
\<close>

definition quantum :: "rat \<Rightarrow> rat" where
  "quantum x = 2 powi (max (ilog2 \<bar>x\<bar>) (- 1022) - 52)"

definition round_to_double :: "rat \<Rightarrow> rat" where
  "round_to_double x = (if x = 0 then 0 else of_int (round_even (x / quantum x)) * quantum x)"

definition fl :: "rat \<Rightarrow> pyfloat" where
  "fl x = (let r = round_to_double x in
     if 1024 \<le> ilog2 \<bar>r\<bar> then (if 0 < r then PInf else NInf) else Fin r)"

definition is_double :: "rat \<Rightarrow> bool" where
  "is_double r \<longleftrightarrow> fl r = Fin r"

section \<open>Arithmetic, comparison, conversion to int\<close>

fun float_neg :: "pyfloat \<Rightarrow> pyfloat" where
  "float_neg (Fin r) = Fin (- r)"
| "float_neg PInf = NInf"
| "float_neg NInf = PInf"
| "float_neg NaN = NaN"

text \<open>The infinity with the sign of \<open>s\<close>; \<open>NaN\<close> for \<open>s = 0\<close> (infinity times zero).\<close>

definition signed_inf :: "rat \<Rightarrow> pyfloat" where
  "signed_inf s = (if 0 < s then PInf else if s < 0 then NInf else NaN)"

fun float_sign :: "pyfloat \<Rightarrow> rat" where
  "float_sign (Fin r) = sgn r"
| "float_sign PInf = 1"
| "float_sign NInf = - 1"
| "float_sign NaN = 0"

fun float_mul :: "pyfloat \<Rightarrow> pyfloat \<Rightarrow> pyfloat" where
  "float_mul NaN y = NaN"
| "float_mul x NaN = NaN"
| "float_mul (Fin a) (Fin b) = fl (a * b)"
| "float_mul x y = signed_inf (float_sign x * float_sign y)"

text \<open>
  \<open>float.__truediv__\<close> raises when the divisor compares equal to zero, before it
  looks at the dividend; otherwise the quotient is the IEEE one.
\<close>

fun float_div :: "pyfloat \<Rightarrow> pyfloat \<Rightarrow> pyfloat result" where
  "float_div x (Fin b) =
     (if b = 0 then Raise ZeroDivisionError
      else case x of
        Fin a \<Rightarrow> Return (fl (a / b))
      | NaN \<Rightarrow> Return NaN
      | _ \<Rightarrow> Return (signed_inf (float_sign x * sgn b)))"
| "float_div x NaN = Return NaN"
| "float_div (Fin a) y = Return (Fin 0)"
| "float_div x y = Return NaN"

fun float_ge :: "pyfloat \<Rightarrow> pyfloat \<Rightarrow> bool" where
  "float_ge NaN y = False"
| "float_ge x NaN = False"
| "float_ge (Fin a) (Fin b) = (b \<le> a)"
| "float_ge PInf y = True"
| "float_ge x NInf = True"
| "float_ge x y = False"

fun float_to_int :: "pyfloat \<Rightarrow> int result" where
  "float_to_int (Fin r) = Return (trunc r)"
| "float_to_int NaN = Raise (ValueError [])"
| "float_to_int x = Raise OverflowError"

section \<open>Conversion from a string\<close>

text \<open>
  \<open>float(s)\<close> for a string \<open>s\<close>, after CPython's \<open>PyFloat_FromString\<close>: a
  check of the underscores (each between two digits), their removal, the
  stripping of white space, an optional sign, and then either one of the words
  \<open>inf\<close>, \<open>infinity\<close>, \<open>nan\<close> in any case or a decimal numeral with an optional
  fraction and an optional exponent. The value of a numeral is the exact decimal
  value, correctly rounded. \<open>None\<close> stands for the \<open>ValueError\<close> that is raised
  for every other string.
\<close>

fun underscores_ok :: "char \<Rightarrow> string \<Rightarrow> bool" where
  "underscores_ok prev [] = (prev \<noteq> CHR ''_'')"
| "underscores_ok prev (c # cs) =
     ((if c = CHR ''_'' then is_digit prev else (prev = CHR ''_'' \<longrightarrow> is_digit c))
      \<and> underscores_ok c cs)"

definition parse_sign :: "string \<Rightarrow> bool \<times> string" where
  "parse_sign s = (case s of
       [] \<Rightarrow> (False, [])
     | c # cs \<Rightarrow> if c = CHR ''-'' then (True, cs)
                else if c = CHR ''+'' then (False, cs) else (False, s))"

definition parse_exponent :: "string \<Rightarrow> int option" where
  "parse_exponent r = (case r of
       [] \<Rightarrow> Some 0
     | c # cs \<Rightarrow>
         if c = CHR ''e'' \<or> c = CHR ''E'' then
           (let (neg, ds) = parse_sign cs in
            if ds \<noteq> [] \<and> list_all is_digit ds
            then Some (if neg then - int (dec_val ds) else int (dec_val ds))
            else None)
         else None)"

definition parse_decimal :: "string \<Rightarrow> rat option" where
  "parse_decimal s =
     (let d1 = takeWhile is_digit s;
          r1 = dropWhile is_digit s;
          (d2, r2) = (case r1 of
               [] \<Rightarrow> ([], [])
             | c # cs \<Rightarrow> if c = CHR ''.'' then (takeWhile is_digit cs, dropWhile is_digit cs)
                         else ([], r1))
      in if d1 @ d2 = [] then None
         else case parse_exponent r2 of
             None \<Rightarrow> None
           | Some e \<Rightarrow> Some (of_nat (dec_val (d1 @ d2)) * 10 powi (e - int (length d2))))"

definition parse_unsigned :: "string \<Rightarrow> pyfloat option" where
  "parse_unsigned s =
     (if str_lower s = ''inf'' \<or> str_lower s = ''infinity'' then Some PInf
      else if str_lower s = ''nan'' then Some NaN
      else map_option fl (parse_decimal s))"

definition float_of_str :: "string \<Rightarrow> pyfloat option" where
  "float_of_str s =
     (if \<not> underscores_ok (CHR 0x00) s then None
      else let t = str_strip (filter (\<lambda>c. c \<noteq> CHR ''_'') s);
               (neg, u) = parse_sign t
           in map_option (if neg then float_neg else id) (parse_unsigned u))"

lemmas float_parse_defs [py_defs] =
  float_of_str_def parse_unsigned_def parse_decimal_def parse_exponent_def parse_sign_def

section \<open>Rounding to an integer\<close>

lemma round_even_error: "\<bar>of_int (round_even x) - x\<bar> \<le> 1 / 2"
proof -
  define d where "d = x - of_int \<lfloor>x\<rfloor>"
  have d: "0 \<le> d" "d < 1" unfolding d_def by linarith+
  have "round_even x = \<lfloor>x\<rfloor> \<and> d \<le> 1 / 2 \<or> round_even x = \<lfloor>x\<rfloor> + 1 \<and> 1 / 2 \<le> d"
    unfolding round_even_def Let_def d_def [symmetric] by auto
  then consider (down) "of_int (round_even x) - x = - d" "d \<le> 1 / 2"
    | (up) "of_int (round_even x) - x = 1 - d" "1 / 2 \<le> d"
    by (auto simp: d_def)
  then show ?thesis using d by cases (simp_all add: abs_if)
qed

lemma round_even_of_int [simp]: "round_even (of_int n) = n"
  by (simp add: round_even_def)

lemma round_even_mono: "x \<le> y \<Longrightarrow> round_even x \<le> round_even y"
proof -
  assume xy: "x \<le> y"
  show ?thesis
  proof (cases "\<lfloor>x\<rfloor> = \<lfloor>y\<rfloor>")
    case True
    with xy show ?thesis by (auto simp: round_even_def Let_def)
  next
    case False
    with xy have "\<lfloor>x\<rfloor> + 1 \<le> \<lfloor>y\<rfloor>" using floor_mono [OF xy] by linarith
    moreover have "round_even x \<le> \<lfloor>x\<rfloor> + 1" by (auto simp: round_even_def Let_def)
    moreover have "\<lfloor>y\<rfloor> \<le> round_even y" by (auto simp: round_even_def Let_def)
    ultimately show ?thesis by linarith
  qed
qed

section \<open>The binary exponent\<close>

lemma two_powi_pos [simp]: "0 < (2::rat) powi k"
  by (simp add: zero_less_power_int)

lemma bitlen_powi_bounds:
  assumes "0 < n"
  shows "(2::rat) powi (bitlen n - 1) \<le> of_int n" and "(of_int n :: rat) + 1 \<le> 2 powi (bitlen n)"
proof -
  from bitlen_bounds [OF assms]
  have lo: "2 ^ nat (bitlen n - 1) \<le> n" and hi: "n + 1 \<le> 2 ^ nat (bitlen n)"
    by simp_all
  from assms have bl: "1 \<le> bitlen n" by (simp add: bitlen_alt_def)
  have "(2::rat) powi (bitlen n - 1) = of_int (2 ^ nat (bitlen n - 1))"
    using bl by (simp add: power_int_def)
  also have "\<dots> \<le> of_int n" using lo by (simp only: of_int_le_iff)
  finally show "(2::rat) powi (bitlen n - 1) \<le> of_int n" .
  have "(of_int (n + 1) :: rat) \<le> of_int (2 ^ nat (bitlen n))"
    using hi by (simp only: of_int_le_iff)
  moreover have "(2::rat) powi (bitlen n) = of_int (2 ^ nat (bitlen n))"
    using bl by (simp add: power_int_def)
  ultimately show "(of_int n :: rat) + 1 \<le> 2 powi (bitlen n)" by simp
qed

lemma ilog2_bounds_ge_one:
  assumes "1 \<le> x"
  shows "2 powi (ilog2 x) \<le> x \<and> x < 2 powi (ilog2 x + 1)"
proof -
  let ?n = "\<lfloor>x\<rfloor>"
  from assms have n: "0 < ?n" by simp
  have "of_int ?n \<le> x" "x < of_int ?n + 1" by linarith+
  with bitlen_powi_bounds [OF n] have "2 powi (bitlen ?n - 1) \<le> x" "x < 2 powi (bitlen ?n)"
    by linarith+
  with assms show ?thesis by (simp add: ilog2_def)
qed

lemma ilog2_bounds_less_one:
  assumes "0 < x" and "x < 1"
  shows "2 powi (ilog2 x) \<le> x \<and> x < 2 powi (ilog2 x + 1)"
proof -
  let ?y = "1 / x"
  let ?m = "\<lceil>?y\<rceil> - 1"
  from assms have "1 < ?y" by (simp add: field_simps)
  then have m: "0 < ?m" by simp
  have my: "of_int ?m < ?y" "?y \<le> of_int ?m + 1" by linarith+
  from bitlen_powi_bounds [OF m] my
  have lo: "2 powi (bitlen ?m - 1) < ?y" and hi: "?y \<le> 2 powi (bitlen ?m)"
    by linarith+
  have inv: "(2::rat) powi (- bitlen ?m) = 1 / 2 powi (bitlen ?m)"
    "(2::rat) powi (- bitlen ?m + 1) = 1 / 2 powi (bitlen ?m - 1)"
    using power_int_minus [of "2::rat" "bitlen ?m"] power_int_minus [of "2::rat" "bitlen ?m - 1"]
    by (simp_all add: divide_inverse)
  from hi assms(1) have "2 powi (- bitlen ?m) \<le> x"
    unfolding inv by (simp add: field_simps)
  moreover from lo assms(1) have "x < 2 powi (- bitlen ?m + 1)"
    unfolding inv by (simp add: field_simps)
  ultimately show ?thesis using assms(2) by (simp add: ilog2_def)
qed

lemma ilog2_bounds:
  assumes "0 < x"
  shows "2 powi (ilog2 x) \<le> x \<and> x < 2 powi (ilog2 x + 1)"
  using assms ilog2_bounds_ge_one [of x] ilog2_bounds_less_one [of x] by (cases "1 \<le> x") simp_all

lemma ilog2_less:
  assumes "0 < x" and "x < 2 powi k"
  shows "ilog2 x < k"
proof (rule ccontr)
  assume "\<not> ilog2 x < k"
  then have "(2::rat) powi k \<le> 2 powi (ilog2 x)" by (simp add: power_int_increasing)
  with ilog2_bounds [OF assms(1)] assms(2) show False by simp
qed

lemma ilog2_ge:
  assumes "0 < x" and "2 powi k \<le> x"
  shows "k \<le> ilog2 x"
proof (rule ccontr)
  assume "\<not> k \<le> ilog2 x"
  then have "(2::rat) powi (ilog2 x + 1) \<le> 2 powi k" by (simp add: power_int_increasing)
  with ilog2_bounds [OF assms(1)] assms(2) show False by simp
qed

lemma ilog2_eqI:
  assumes "2 powi k \<le> x" and "x < 2 powi (k + 1)"
  shows "ilog2 x = k"
proof -
  have "0 < x" using assms(1) two_powi_pos [of k] by linarith
  with assms ilog2_less [of x "k + 1"] ilog2_ge [of x k] show ?thesis by simp
qed

lemma ilog2_zero [simp]: "ilog2 0 = 0"
  by (simp add: ilog2_def bitlen_alt_def)

section \<open>Rounding to binary64\<close>

text \<open>
  The rounded value is within half a spacing of the exact one, and a multiple of
  the spacing is not changed. Integers below \<open>2\<^sup>5\<^sup>3\<close> in absolute value are
  multiples of their spacing, so they are binary64 values.
\<close>

lemma quantum_pos [simp]: "0 < quantum x"
  by (simp add: quantum_def)

lemma quantum_nonneg [simp]: "0 \<le> quantum x"
  by (rule less_imp_le) simp

lemma quantum_neq_0 [simp]: "quantum x \<noteq> 0"
  using quantum_pos [of x] by (simp del: quantum_pos)

lemma round_to_double_zero [simp]: "round_to_double 0 = 0"
  by (simp add: round_to_double_def)

lemma round_to_double_error: "\<bar>round_to_double x - x\<bar> \<le> quantum x / 2"
proof (cases "x = 0")
  case True
  then show ?thesis by simp
next
  case False
  let ?q = "quantum x"
  have q: "0 < ?q" by simp
  have "round_to_double x - x = (of_int (round_even (x / ?q)) - x / ?q) * ?q"
    using False q by (simp add: round_to_double_def field_simps)
  then have "\<bar>round_to_double x - x\<bar> = \<bar>of_int (round_even (x / ?q)) - x / ?q\<bar> * ?q"
    using q by (simp add: abs_mult)
  also have "\<dots> \<le> (1 / 2) * ?q"
    using q round_even_error [of "x / ?q"] by (intro mult_right_mono) simp_all
  finally show ?thesis by simp
qed

lemma round_to_double_exact:
  assumes "x = of_int m * quantum x"
  shows "round_to_double x = x"
proof (cases "x = 0")
  case False
  have "x / quantum x = of_int m"
    using assms quantum_pos [of x] by (metis nonzero_mult_div_cancel_right less_irrefl)
  then show ?thesis using assms False by (simp add: round_to_double_def)
qed simp

lemma quantum_le:
  assumes "x \<noteq> 0" and "\<bar>x\<bar> < 2 powi k" and "- 1021 \<le> k"
  shows "quantum x \<le> 2 powi (k - 53)"
proof -
  from assms(1,2) have "ilog2 \<bar>x\<bar> < k" by (intro ilog2_less) simp_all
  with assms(3) have "max (ilog2 \<bar>x\<bar>) (- 1022) - 52 \<le> k - 53" by simp
  then show ?thesis unfolding quantum_def by (intro power_int_increasing) simp_all
qed

lemma fl_finite:
  assumes "\<bar>round_to_double x\<bar> < 2 powi 1024"
  shows "fl x = Fin (round_to_double x)"
proof (cases "round_to_double x = 0")
  case True
  then show ?thesis by (simp add: fl_def)
next
  case False
  with assms have "ilog2 \<bar>round_to_double x\<bar> < 1024" by (intro ilog2_less) simp_all
  then show ?thesis by (simp add: fl_def Let_def)
qed

lemma fl_of_int:
  assumes "\<bar>n\<bar> < 2 ^ 53"
  shows "fl (of_int n) = Fin (of_int n)"
proof (cases "n = 0")
  case True
  then show ?thesis by (simp add: fl_def)
next
  case False
  let ?x = "of_int n :: rat"
  let ?e = "ilog2 \<bar>?x\<bar>"
  have pos: "0 < \<bar>?x\<bar>" using False by simp
  have "1 \<le> \<bar>?x\<bar>" using False by (simp flip: of_int_abs) 
  then have e0: "0 \<le> ?e" using ilog2_ge [of "\<bar>?x\<bar>" 0] pos by simp
  have "\<bar>?x\<bar> < 2 powi 53" using assms by (simp flip: of_int_abs) 
  then have e53: "?e < 53" using pos by (intro ilog2_less) simp_all
  from e0 have qx: "quantum ?x = 2 powi (?e - 52)" by (simp add: quantum_def max_def)
  have "(2::rat) powi (?e - 52) * 2 ^ nat (52 - ?e) = 1"
    using e0 e53 by (simp add: power_int_def field_simps nat_diff_distrib flip: power_add)
  then have "?x = of_int (n * 2 ^ nat (52 - ?e)) * quantum ?x"
    unfolding qx by (simp add: mult.assoc mult.commute)
  then have "round_to_double ?x = ?x" by (rule round_to_double_exact)
  moreover have "\<bar>?x\<bar> < 2 powi 1024"
    using \<open>\<bar>?x\<bar> < 2 powi 53\<close> power_int_strict_increasing [of 53 1024 "2::rat"] by simp
  ultimately show ?thesis using fl_finite [of ?x] by simp
qed

section \<open>Quotients of small integers\<close>

lemma round_to_double_of_int:
  assumes "\<bar>n\<bar> < 2 ^ 53"
  shows "round_to_double (of_int n) = of_int n"
  using fl_of_int [OF assms] by (simp add: fl_def Let_def split: if_splits)

lemma int_div_less:
  fixes a w n :: int
  assumes "0 < w" and "a < n * w"
  shows "a div w < n"
proof -
  have "a div w * w \<le> a"
    using assms(1) div_mult_mod_eq [of a w] pos_mod_sign [of w a] by linarith
  with assms(2) have "a div w * w < n * w" by simp
  with assms(1) show ?thesis by (simp add: mult_less_cancel_right)
qed

lemma quotient_gap:
  fixes a w :: int
  assumes "0 < w"
  shows "of_int (a div w) \<le> (of_int a / of_int w :: rat)"
    and "(of_int a / of_int w :: rat) \<le> of_int (a div w) + 1 - 1 / of_int w"
    and "a mod w \<noteq> 0 \<Longrightarrow> of_int (a div w) + 1 / of_int w \<le> (of_int a / of_int w :: rat)"
proof -
  let ?w = "of_int w :: rat"
  have w: "0 < ?w" using assms by simp
  have "(of_int a :: rat) = of_int ((a div w) * w + a mod w)" by simp
  then have "(of_int a :: rat) = of_int (a div w) * ?w + of_int (a mod w)"
    by (simp only: of_int_add of_int_mult)
  then have eq: "of_int a / ?w = of_int (a div w) + of_int (a mod w) / ?w"
    using w by (simp add: field_simps)
  have m: "0 \<le> a mod w" "a mod w \<le> w - 1" using assms by simp_all
  from m(1) w show "of_int (a div w) \<le> of_int a / ?w" unfolding eq by simp
  from m(2) have "(of_int (a mod w) :: rat) \<le> of_int (w - 1)" by (simp only: of_int_le_iff)
  then have "of_int (a mod w) / ?w \<le> (?w - 1) / ?w"
    using w by (intro divide_right_mono) simp_all
  also have "\<dots> = 1 - 1 / ?w" using w by (simp add: field_simps)
  finally show "of_int a / ?w \<le> of_int (a div w) + 1 - 1 / ?w" unfolding eq by simp
  assume "a mod w \<noteq> 0"
  with m(1) have "1 \<le> a mod w" by simp
  then have "(of_int 1 :: rat) \<le> of_int (a mod w)" by (simp only: of_int_le_iff)
  then have "1 / ?w \<le> of_int (a mod w) / ?w"
    using w by (intro divide_right_mono) simp_all
  then show "of_int (a div w) + 1 / ?w \<le> of_int a / ?w" unfolding eq by simp
qed

lemma round_to_double_quotient:
  fixes a w :: int
  assumes w: "0 < w" "w < 2 ^ 43" and a: "0 \<le> a" "a < 2048 * w"
  defines "x \<equiv> (of_int a / of_int w :: rat)"
  shows "of_int (a div w) \<le> round_to_double x \<and> round_to_double x < of_int (a div w) + 1"
proof (cases "a mod w = 0")
  case True
  then have "a = (a div w) * w" by auto
  then have "of_int a = (of_int (a div w) * of_int w :: rat)"
    by (metis of_int_mult)
  then have x: "x = of_int (a div w)" using w(1) by (simp add: x_def)
  have "a div w < 2048" using w(1) a(2) by (rule int_div_less)
  moreover have "0 \<le> a div w" using a(1) w(1) by (simp add: pos_imp_zdiv_nonneg_iff)
  ultimately have "\<bar>a div w\<bar> < 2 ^ 53" by simp
  then show ?thesis unfolding x by (simp add: round_to_double_of_int)
next
  case False
  let ?w = "of_int w :: rat"
  have wpos: "0 < ?w" using w(1) by simp
  have "?w < of_int (2 ^ 43)" using w(2) by (simp only: of_int_less_iff)
  then have "?w < 2 ^ 43" by simp
  then have inv: "1 / 2 ^ 43 < 1 / ?w" using wpos by (simp add: field_simps)
  from False a(1) w(1) have "a \<noteq> 0" by auto
  then have x0: "x \<noteq> 0" using w(1) by (simp add: x_def)
  have xpos: "0 \<le> x" using a(1) w(1) by (simp add: x_def)
  have "(of_int a :: rat) < of_int (2048 * w)" using a(2) by (simp only: of_int_less_iff)
  then have "x < 2048" using wpos by (simp add: x_def field_simps)
  then have "\<bar>x\<bar> < 2 powi 11" using xpos by simp
  from quantum_le [OF x0 this] have "quantum x \<le> 2 powi (- 42)" by simp
  then have "quantum x / 2 \<le> 1 / 2 ^ 43" by (simp add: power_int_minus field_simps)
  with round_to_double_error [of x] inv have err: "\<bar>round_to_double x - x\<bar> < 1 / ?w"
    by linarith
  from quotient_gap(2,3) [OF w(1), of a] False
  have "of_int (a div w) + 1 / ?w \<le> x" "x \<le> of_int (a div w) + 1 - 1 / ?w"
    by (simp_all add: x_def)
  with err show ?thesis by (simp add: abs_less_iff)
qed

text \<open>
  The quotient of two integers, rounded to binary64 and truncated, is their
  integer quotient, as long as the divisor is below \<open>2\<^sup>4\<^sup>3\<close> and the quotient
  below 2048: the rounding error is then smaller than the distance \<open>1/w\<close> of
  the exact quotient from the next integer.
\<close>

lemma fl_quotient:
  fixes a w :: int
  assumes "0 < w" "w < 2 ^ 43" "0 \<le> a" "a < 2048 * w"
  shows "\<exists>r. fl (of_int a / of_int w) = Fin r \<and> trunc r = a div w"
proof -
  let ?r = "round_to_double (of_int a / of_int w)"
  from round_to_double_quotient [OF assms]
  have b: "of_int (a div w) \<le> ?r" "?r < of_int (a div w) + 1" by simp_all
  have n: "0 \<le> a div w" using assms by (simp add: pos_imp_zdiv_nonneg_iff)
  then have r0: "0 \<le> ?r" using b(1) by (metis of_int_0_le_iff order_trans)
  have "a div w < 2048" using assms(1,4) by (rule int_div_less)
  then have "a div w + 1 \<le> 2048" by simp
  then have "(of_int (a div w + 1) :: rat) \<le> of_int 2048" by (simp only: of_int_le_iff)
  with b(2) have "?r < 2048" by simp
  also have "(2048 :: rat) < 2 powi 1024"
    using power_int_strict_increasing [of 11 1024 "2::rat"] by simp
  finally have "\<bar>?r\<bar> < 2 powi 1024" using r0 by simp
  then have "fl (of_int a / of_int w) = Fin ?r" by (rule fl_finite)
  moreover from r0 b have "trunc ?r = a div w" by (simp add: trunc_eq_iff_nonneg)
  ultimately show ?thesis by blast
qed

section \<open>Decimal numerals\<close>

lemma underscores_ok_none:
  "CHR ''_'' \<notin> set s \<Longrightarrow> prev \<noteq> CHR ''_'' \<Longrightarrow> underscores_ok prev s"
  by (induction s arbitrary: prev) auto

lemma is_digit_facts:
  assumes "is_digit c"
  shows "c \<noteq> CHR ''_''" "c \<noteq> CHR ''-''" "c \<noteq> CHR ''+''" "c \<noteq> CHR ''.''"
    "lower_char c = c" "c \<noteq> CHR ''i''" "c \<noteq> CHR ''n''"
  using assms by (auto simp: is_digit_def upper_letters_def)

lemma parse_decimal_digits:
  assumes "s \<noteq> []" and "list_all is_digit s"
  shows "parse_decimal s = Some (of_nat (dec_val s))"
proof -
  from assms(2) have ds: "takeWhile is_digit s = s" "dropWhile is_digit s = []"
    by (simp_all add: list_all_iff)
  show ?thesis using assms(1) by (simp add: parse_decimal_def parse_exponent_def Let_def ds)
qed

lemma parse_unsigned_digits:
  assumes "s \<noteq> []" and "list_all is_digit s"
  shows "parse_unsigned s = Some (fl (of_nat (dec_val s)))"
proof -
  from assms obtain c cs where s: "s = c # cs" and c: "is_digit c"
    by (cases s) simp_all
  from c have "str_lower s \<noteq> ''inf''" "str_lower s \<noteq> ''infinity''" "str_lower s \<noteq> ''nan''"
    unfolding s by (auto simp: is_digit_facts)
  with assms show ?thesis by (simp add: parse_unsigned_def parse_decimal_digits)
qed

lemma float_of_str_digits:
  assumes "s \<noteq> []" and "list_all is_digit s"
  shows "float_of_str s = Some (fl (of_nat (dec_val s)))"
proof -
  from assms(2) have d: "\<And>c. c \<in> set s \<Longrightarrow> is_digit c" by (simp add: list_all_iff)
  then have us: "CHR ''_'' \<notin> set s" using is_digit_facts(1) by blast
  then have "underscores_ok (CHR 0x00) s" by (rule underscores_ok_none) simp
  moreover from us have "filter (\<lambda>c. c \<noteq> CHR ''_'') s = s" by (auto simp: filter_id_conv)
  moreover have "str_strip s = s" using d by (intro str_strip_no_space) (auto dest: is_digit_not_space)
  moreover from assms obtain c cs where s: "s = c # cs" and c: "is_digit c"
    by (cases s) simp_all
  then have "parse_sign s = (False, s)" by (simp add: parse_sign_def is_digit_facts)
  ultimately show ?thesis using assms by (simp add: float_of_str_def parse_unsigned_digits)
qed

text \<open>The decimal text of a natural number below \<open>2\<^sup>5\<^sup>3\<close> reads back as that number.\<close>

lemma float_of_str_str_nat:
  assumes "n < 2 ^ 53"
  shows "float_of_str (str_nat n) = Some (Fin (of_nat n))"
proof -
  have "list_all is_digit (str_nat n)" by (simp add: list_all_iff str_nat_digits)
  then have "float_of_str (str_nat n) = Some (fl (of_nat n))"
    by (simp add: float_of_str_digits)
  moreover have "\<bar>int n\<bar> < 2 ^ 53" using assms by simp
  then have "fl (of_int (int n)) = Fin (of_int (int n))" by (rule fl_of_int)
  ultimately show ?thesis by simp
qed

end
