(* ===== verification/Aspect_Ratio.thy ===== *)
theory Aspect_Ratio
  imports Py_Float
begin

text \<open>
  The aspect-ratio resolver: the preset table \<open>ASPECT_RATIOS\<close> of class
  \<open>VeniceImageGenerator\<close> and the function \<open>parse_aspect_ratio\<close> of
  \<open>src/venice_image_gen.py\<close>. The result is the pair (width, height) or the
  exception that leaves the function: the \<open>ValueError\<close> it raises itself, or a
  \<open>ZeroDivisionError\<close> or \<open>OverflowError\<close> of the float arithmetic, which its
  \<open>except ValueError\<close> clause does not catch.
\<close>

section \<open>Definitions\<close>

definition ASPECT_RATIOS :: "(string \<times> int \<times> int) list" where
  "ASPECT_RATIOS =
     [(''square'', (1024, 1024)),
      (''1:1'', (1024, 1024)),
      (''landscape'', (1264, 848)),
      (''3:2'', (1264, 848)),
      (''cinema'', (1280, 720)),
      (''16:9'', (1280, 720)),
      (''tall'', (720, 1280)),
      (''9:16'', (720, 1280)),
      (''portrait'', (848, 1264)),
      (''2:3'', (848, 1264)),
      (''instagram'', (1011, 1264)),
      (''4:5'', (1011, 1264))]"

definition base_size :: int where
  "base_size = 1024"

definition round_up_8 :: "int \<Rightarrow> int" where
  "round_up_8 n = ((n + 7) div 8) * 8"

text \<open>
  \<open>scaled_side a b\<close> is \<open>int(base_size * a / b)\<close>: the product and the quotient
  are float operations, the quotient may raise, and so may the conversion.
\<close>

definition scaled_side :: "pyfloat \<Rightarrow> pyfloat \<Rightarrow> int result" where
  "scaled_side a b =
     rbind (float_div (float_mul (Fin (of_int base_size)) a) b) float_to_int"

text \<open>
  The body of the \<open>try\<close> block. The unpacking of \<open>map(float, \<dots>)\<close> into two
  names raises \<open>ValueError\<close> when a piece is no float or when there are not
  exactly two pieces.
\<close>

definition custom_ratio :: "string \<Rightarrow> (int \<times> int) result" where
  "custom_ratio ar_string =
     (case map float_of_str (str_split (CHR '':'') ar_string) of
        [Some w_ratio, Some h_ratio] \<Rightarrow>
          rbind
            (if float_ge w_ratio h_ratio
             then rbind (scaled_side h_ratio w_ratio) (\<lambda>height. Return (base_size, height))
             else rbind (scaled_side w_ratio h_ratio) (\<lambda>width. Return (width, base_size)))
            (\<lambda>(width, height). Return (round_up_8 width, round_up_8 height))
      | _ \<Rightarrow> Raise (ValueError []))"

definition invalid_aspect_ratio :: "string \<Rightarrow> exn" where
  "invalid_aspect_ratio ar_string = ValueError (''Invalid aspect ratio: '' @ ar_string)"

definition parse_aspect_ratio :: "string \<Rightarrow> (int \<times> int) result" where
  "parse_aspect_ratio ar_string =
     (let ar_lower = str_lower ar_string in
      case map_of ASPECT_RATIOS ar_lower of
        Some wh \<Rightarrow> Return wh
      | None \<Rightarrow>
          if CHR '':'' \<in> set ar_string then
            (case custom_ratio ar_string of
               Inr wh \<Rightarrow> Return wh
             | Inl e \<Rightarrow> if is_ValueError e then Raise (invalid_aspect_ratio ar_string)
                        else Raise e)
          else Raise (invalid_aspect_ratio ar_string))"

lemmas aspect_ratio_defs [py_defs] =
  parse_aspect_ratio_def custom_ratio_def scaled_side_def round_up_8_def base_size_def
  invalid_aspect_ratio_def

section \<open>The preset table\<close>

lemma distinct_preset_keys: "distinct (map fst ASPECT_RATIOS)"
  by (simp add: ASPECT_RATIOS_def)

lemma preset_keys_lower: "k \<in> fst ` set ASPECT_RATIOS \<Longrightarrow> str_lower k = k"
  by (auto simp: ASPECT_RATIOS_def lower_char_def upper_letters_def lower_letters_def)

lemma parse_aspect_ratio_lookup:
  "map_of ASPECT_RATIOS (str_lower s) = Some wh \<Longrightarrow> parse_aspect_ratio s = Return wh"
  by (simp add: parse_aspect_ratio_def)

lemma parse_aspect_ratio_no_preset:
  "map_of ASPECT_RATIOS (str_lower s) = None \<Longrightarrow>
   parse_aspect_ratio s =
     (if CHR '':'' \<in> set s then
        (case custom_ratio s of
           Inr wh \<Rightarrow> Return wh
         | Inl e \<Rightarrow> if is_ValueError e then Raise (invalid_aspect_ratio s) else Raise e)
      else Raise (invalid_aspect_ratio s))"
  by (simp add: parse_aspect_ratio_def)

text \<open>
  C8: For every entry of the preset table, a token whose lower case is the key of
  the entry resolves to exactly the pair of the entry, whatever the case of its
  letters.
\<close>

theorem parse_aspect_ratio_preset:
  assumes "(k, wh) \<in> set ASPECT_RATIOS" and "str_lower s = k"
  shows "parse_aspect_ratio s = Return wh"
proof -
  from assms(1) have "map_of ASPECT_RATIOS k = Some wh"
    by (simp add: distinct_preset_keys)
  with assms(2) show ?thesis by (simp add: parse_aspect_ratio_lookup)
qed

theorem parse_aspect_ratio_preset_witness:
  "(''cinema'', (1280, 720)) \<in> set ASPECT_RATIOS \<and> str_lower ''CineMa'' = ''cinema''
   \<and> parse_aspect_ratio ''CineMa'' = Return (1280, 720)"
proof -
  have 1: "(''cinema'', (1280, 720)) \<in> set ASPECT_RATIOS"
    by (simp add: ASPECT_RATIOS_def)
  have 2: "str_lower ''CineMa'' = ''cinema''"
    by (simp add: lower_char_def upper_letters_def lower_letters_def)
  from 1 2 parse_aspect_ratio_preset [OF 1 2] show ?thesis by simp
qed

text \<open>
  A token that is no preset in any case and holds no colon is refused with the
  \<open>ValueError\<close> whose message is \<open>Invalid aspect ratio:\<close> followed by the token
  as it was given.
\<close>

theorem parse_aspect_ratio_no_colon:
  assumes "map_of ASPECT_RATIOS (str_lower s) = None" and "CHR '':'' \<notin> set s"
  shows "parse_aspect_ratio s = Raise (ValueError (''Invalid aspect ratio: '' @ s))"
  using assms by (simp add: parse_aspect_ratio_no_preset invalid_aspect_ratio_def)

theorem parse_aspect_ratio_no_colon_witness:
  "map_of ASPECT_RATIOS (str_lower ''Wide'') = None \<and> CHR '':'' \<notin> set ''Wide''
   \<and> parse_aspect_ratio ''Wide'' = Raise (ValueError ''Invalid aspect ratio: Wide'')"
proof -
  have 1: "map_of ASPECT_RATIOS (str_lower ''Wide'') = None"
    by (simp add: ASPECT_RATIOS_def lower_char_def upper_letters_def lower_letters_def)
  have 2: "CHR '':'' \<notin> set ''Wide''" by simp
  from 1 2 parse_aspect_ratio_no_colon [OF 1 2] show ?thesis by simp
qed

section \<open>Rounding up to a multiple of 8\<close>

lemma round_up_8_dvd [simp]: "8 dvd round_up_8 n"
  by (simp add: round_up_8_def)

lemma round_up_8_bounds: "n \<le> round_up_8 n \<and> round_up_8 n < n + 8"
  unfolding round_up_8_def by presburger

lemma round_up_8_least: "8 dvd m \<Longrightarrow> n \<le> m \<Longrightarrow> round_up_8 n \<le> m"
  unfolding round_up_8_def by presburger

lemma round_up_8_fixed: "8 dvd n \<Longrightarrow> round_up_8 n = n"
  unfolding round_up_8_def by presburger

lemma round_up_8_mono: "m \<le> n \<Longrightarrow> round_up_8 m \<le> round_up_8 n"
  unfolding round_up_8_def by presburger

lemma round_up_8_pos_iff: "0 < round_up_8 n \<longleftrightarrow> 0 < n"
  unfolding round_up_8_def by presburger

lemma round_up_8_base [simp]: "round_up_8 base_size = base_size"
  by (simp add: round_up_8_def base_size_def)

lemma base_size_dvd [simp]: "8 dvd base_size"
  by (simp add: base_size_def)

section \<open>The scaled side of an integer ratio\<close>

lemma fl_base_nat:
  assumes "a < 2 ^ 43"
  shows "fl (of_int base_size * of_nat a) = Fin (1024 * of_nat a)"
proof -
  from assms have "\<bar>int (1024 * a)\<bar> < 2 ^ 53" by simp
  then have "fl (of_int (int (1024 * a))) = Fin (of_int (int (1024 * a)))" by (rule fl_of_int)
  then show ?thesis by (simp add: base_size_def)
qed

lemma scaled_side_nat:
  assumes "0 < b" and "b < 2 ^ 43" and "a < 2 ^ 43" and "a < 2 * b"
  shows "scaled_side (Fin (of_nat a)) (Fin (of_nat b)) = Return (int (1024 * a div b))"
proof -
  from assms have "0 < int b" "int b < 2 ^ 43" "0 \<le> int (1024 * a)" "int (1024 * a) < 2048 * int b"
    by simp_all
  from fl_quotient [OF this] obtain r
    where r: "fl (of_int (int (1024 * a)) / of_int (int b)) = Fin r"
      and t: "trunc r = int (1024 * a) div int b"
    by blast
  from t have "trunc r = int (1024 * a div b)" by (simp only: zdiv_int)
  with r assms(1) show ?thesis
    by (simp add: scaled_side_def fl_base_nat [OF assms(3)])
qed

section \<open>Ratios of two natural numbers\<close>

text \<open>The token \<open>W:H\<close> for two natural numbers, as a user types it.\<close>

definition ratio_text :: "nat \<Rightarrow> nat \<Rightarrow> string" where
  "ratio_text w h = str_nat w @ '':'' @ str_nat h"

definition scaled_ratio :: "nat \<Rightarrow> nat \<Rightarrow> int \<times> int" where
  "scaled_ratio w h =
     (if h \<le> w then (1024, round_up_8 (int (1024 * h div w)))
      else (round_up_8 (int (1024 * w div h)), 1024))"

lemma colon_not_in_str_nat [simp]: "CHR '':'' \<notin> set (str_nat n)"
  using str_nat_digits [of "CHR '':''" n] by (auto simp: is_digit_def)

lemma str_split_ratio_text [simp]:
  "str_split (CHR '':'') (ratio_text w h) = [str_nat w, str_nat h]"
  by (simp add: ratio_text_def str_split_two)

lemma colon_in_ratio_text [simp]: "CHR '':'' \<in> set (ratio_text w h)"
  by (simp add: ratio_text_def)

lemma ratio_text_eq_iff [simp]: "ratio_text w h = ratio_text w' h' \<longleftrightarrow> w = w' \<and> h = h'"
proof
  assume "ratio_text w h = ratio_text w' h'"
  then have "str_split (CHR '':'') (ratio_text w h) = str_split (CHR '':'') (ratio_text w' h')"
    by simp
  then show "w = w' \<and> h = h'" by simp
qed simp

lemma str_lower_str_nat [simp]: "str_lower (str_nat n) = str_nat n"
proof (rule str_lower_no_upper)
  show "set (str_nat n) \<inter> set upper_letters = {}"
    using str_nat_digits [of _ n] by (auto simp: is_digit_def upper_letters_def)
qed

lemma str_lower_ratio_text [simp]: "str_lower (ratio_text w h) = ratio_text w h"
  by (simp add: ratio_text_def)

lemma custom_ratio_nat:
  assumes "w < 2 ^ 43" and "h < 2 ^ 43" and "0 < w \<or> 0 < h"
  shows "custom_ratio (ratio_text w h) = Return (scaled_ratio w h)"
proof (cases "h \<le> w")
  case True
  with assms have "scaled_side (Fin (of_nat h)) (Fin (of_nat w)) = Return (int (1024 * h div w))"
    by (intro scaled_side_nat) auto
  with True assms(1,2) show ?thesis
    by (simp add: custom_ratio_def float_of_str_str_nat scaled_ratio_def flip: base_size_def)
next
  case False
  with assms have "scaled_side (Fin (of_nat w)) (Fin (of_nat h)) = Return (int (1024 * w div h))"
    by (intro scaled_side_nat) auto
  with False assms(1,2) show ?thesis
    by (simp add: custom_ratio_def float_of_str_str_nat scaled_ratio_def flip: base_size_def)
qed

text \<open>The ratios of natural numbers that the preset table holds as keys.\<close>

definition preset_ratios :: "(nat \<times> nat) list" where
  "preset_ratios = [(1, 1), (3, 2), (16, 9), (9, 16), (2, 3), (4, 5)]"

lemma preset_keys_cases:
  assumes "k \<in> fst ` set ASPECT_RATIOS"
  shows "CHR '':'' \<notin> set k \<or> (\<exists>(w, h) \<in> set preset_ratios. k = ratio_text w h)"
proof -
  have "''1:1'' = ratio_text 1 1" "''3:2'' = ratio_text 3 2" "''16:9'' = ratio_text 16 9"
    "''9:16'' = ratio_text 9 16" "''2:3'' = ratio_text 2 3" "''4:5'' = ratio_text 4 5"
    by (simp_all add: ratio_text_def str_nat.simps digit_char_def)
  with assms show ?thesis
    unfolding ASPECT_RATIOS_def preset_ratios_def by auto
qed

lemma ratio_text_no_preset:
  assumes "(w, h) \<notin> set preset_ratios"
  shows "map_of ASPECT_RATIOS (str_lower (ratio_text w h)) = None"
proof -
  have "ratio_text w h \<notin> fst ` set ASPECT_RATIOS"
  proof
    assume "ratio_text w h \<in> fst ` set ASPECT_RATIOS"
    from preset_keys_cases [OF this] assms show False by auto
  qed
  then show ?thesis by (simp add: map_of_map_key_None)
qed

lemma parse_aspect_ratio_nat:
  assumes "w < 2 ^ 43" and "h < 2 ^ 43" and "0 < w \<or> 0 < h"
    and "(w, h) \<notin> set preset_ratios"
  shows "parse_aspect_ratio (ratio_text w h) = Return (scaled_ratio w h)"
proof -
  from assms(4) have "map_of ASPECT_RATIOS (str_lower (ratio_text w h)) = None"
    by (rule ratio_text_no_preset)
  from parse_aspect_ratio_no_preset [OF this] assms(1-3) show ?thesis
    by (simp add: custom_ratio_nat)
qed

text \<open>
  C1: For two natural numbers below \<open>2\<^sup>4\<^sup>3\<close>, not both zero, whose ratio is no key
  of the preset table, the float computation of the resolver on the token \<open>W:H\<close>
  returns what integer arithmetic gives: 1024 for the longer side and, for the
  shorter side, the integer quotient of 1024 times the shorter by the longer,
  rounded up to a multiple of 8. No rounding error of the two float operations
  reaches the result.
\<close>

theorem parse_aspect_ratio_integers:
  assumes "w < 2 ^ 43" and "h < 2 ^ 43" and "0 < w \<or> 0 < h"
    and "(w, h) \<notin> set preset_ratios"
  shows "parse_aspect_ratio (str_nat w @ '':'' @ str_nat h) =
     Return (if h \<le> w then (1024, (int (1024 * h div w) + 7) div 8 * 8)
             else ((int (1024 * w div h) + 7) div 8 * 8, 1024))"
  using parse_aspect_ratio_nat [OF assms]
  by (simp add: ratio_text_def scaled_ratio_def round_up_8_def)

theorem parse_aspect_ratio_integers_witness:
  "(4::nat) < 2 ^ 43 \<and> (3::nat) < 2 ^ 43 \<and> ((0::nat) < 4 \<or> (0::nat) < 3)
   \<and> (4, 3) \<notin> set preset_ratios
   \<and> parse_aspect_ratio ''4:3'' = Return (1024, 768)"
proof -
  have 1: "(4, 3) \<notin> set preset_ratios" by (simp add: preset_ratios_def)
  have 2: "str_nat 4 = ''4''" "str_nat 3 = ''3''" by (simp_all add: str_nat.simps digit_char_def)
  from parse_aspect_ratio_integers [of 4 3] 1 2 show ?thesis by simp
qed

section \<open>Exceptions of the custom computation\<close>

lemma float_div_raises: "float_div x y = Raise e \<Longrightarrow> e = ZeroDivisionError"
  by (cases "(x, y)" rule: float_div.cases) (auto split: if_splits pyfloat.splits)

lemma float_to_int_raises: "float_to_int x = Raise e \<Longrightarrow> e = ValueError [] \<or> e = OverflowError"
  by (cases x) auto

lemma scaled_side_raises:
  "scaled_side a b = Raise e \<Longrightarrow> e = ZeroDivisionError \<or> e = ValueError [] \<or> e = OverflowError"
  by (auto simp: scaled_side_def rbind_eq_Raise_iff dest: float_div_raises float_to_int_raises)

lemma custom_ratio_raises:
  "custom_ratio s = Raise e \<Longrightarrow> e = ZeroDivisionError \<or> e = ValueError [] \<or> e = OverflowError"
  by (auto simp: custom_ratio_def rbind_eq_Raise_iff
      split: list.splits option.splits if_splits dest: scaled_side_raises)

lemma custom_ratio_returns:
  assumes "custom_ratio s = Return (w, h)"
  shows "8 dvd w \<and> 8 dvd h \<and> (w = base_size \<or> h = base_size)"
  using assms
  by (auto simp: custom_ratio_def rbind_eq_Return_iff split: list.splits option.splits if_splits)

text \<open>
  The custom computation on a token that splits into two pieces, both of which
  are floats: the shape that the remaining lemmas of this section evaluate.
\<close>

lemma custom_ratio_two:
  assumes "str_split (CHR '':'') s = [p, q]"
    and "float_of_str p = Some a" and "float_of_str q = Some b"
  shows "custom_ratio s =
     (if float_ge a b
      then rbind (scaled_side b a) (\<lambda>height. Return (base_size, round_up_8 height))
      else rbind (scaled_side a b) (\<lambda>width. Return (round_up_8 width, base_size)))"
  using assms by (simp add: custom_ratio_def rbind_assoc)

lemma custom_ratio_malformed:
  assumes "length (str_split (CHR '':'') s) \<noteq> 2
    \<or> None \<in> set (map float_of_str (str_split (CHR '':'') s))"
  shows "custom_ratio s = Raise (ValueError [])"
  using assms by (auto simp: custom_ratio_def split: list.splits option.splits)

lemma parse_aspect_ratio_custom:
  assumes "map_of ASPECT_RATIOS (str_lower s) = None" and "CHR '':'' \<in> set s"
  shows "parse_aspect_ratio s =
     (case custom_ratio s of
        Inr wh \<Rightarrow> Return wh
      | Inl e \<Rightarrow> if is_ValueError e then Raise (invalid_aspect_ratio s) else Raise e)"
  using assms by (simp add: parse_aspect_ratio_no_preset)

lemma split_two_has_colon: "str_split (CHR '':'') s = [p, q] \<Longrightarrow> CHR '':'' \<in> set s"
  by (auto simp: str_split_eq_two_iff)

lemma parse_aspect_ratio_cases:
  obtains (pair) wh where "parse_aspect_ratio s = Return wh"
    | (invalid) "parse_aspect_ratio s = Raise (invalid_aspect_ratio s)"
    | (zero_division) "parse_aspect_ratio s = Raise ZeroDivisionError"
    | (overflow) "parse_aspect_ratio s = Raise OverflowError"
proof (cases "map_of ASPECT_RATIOS (str_lower s)")
  case (Some wh)
  then show ?thesis using pair by (simp add: parse_aspect_ratio_lookup)
next
  case None
  show ?thesis
  proof (cases "custom_ratio s")
    case (Inl e)
    from custom_ratio_raises [OF this] Inl None show ?thesis
      using invalid zero_division overflow
      by (cases "CHR '':'' \<in> set s") (auto simp: parse_aspect_ratio_no_preset)
  next
    case (Inr wh)
    with None show ?thesis using pair [of wh] invalid
      by (cases "CHR '':'' \<in> set s") (auto simp: parse_aspect_ratio_no_preset)
  qed
qed

text \<open>
  C11: The resolver has four outcomes and no other: a pair of dimensions, the
  \<open>ValueError\<close> with the message \<open>Invalid aspect ratio:\<close> and the token, a
  \<open>ZeroDivisionError\<close>, or an \<open>OverflowError\<close>. The last two come from the float
  arithmetic and pass the \<open>except ValueError\<close> clause.
\<close>

theorem parse_aspect_ratio_outcomes:
  "(\<exists>wh. parse_aspect_ratio s = Return wh)
   \<or> parse_aspect_ratio s = Raise (invalid_aspect_ratio s)
   \<or> parse_aspect_ratio s = Raise ZeroDivisionError
   \<or> parse_aspect_ratio s = Raise OverflowError"
  by (rule parse_aspect_ratio_cases [of s]) auto

text \<open>
  C36: Whatever the token, a height that the resolver returns is a multiple of 8,
  and so is the width, with one exception: the pair (1011, 1264) of the presets
  \<open>instagram\<close> and \<open>4:5\<close>.
\<close>

theorem parse_aspect_ratio_multiple_of_8:
  assumes "parse_aspect_ratio s = Return (w, h)"
  shows "8 dvd h \<and> (8 dvd w \<or> (w, h) = (1011, 1264))"
proof (cases "map_of ASPECT_RATIOS (str_lower s)")
  case (Some wh)
  with assms have "map_of ASPECT_RATIOS (str_lower s) = Some (w, h)"
    by (simp add: parse_aspect_ratio_lookup)
  then have "(str_lower s, (w, h)) \<in> set ASPECT_RATIOS" by (rule map_of_eq_Some_in_set)
  then show ?thesis by (auto simp: ASPECT_RATIOS_def)
next
  case None
  with assms have "custom_ratio s = Return (w, h)"
    by (auto simp: parse_aspect_ratio_no_preset split: if_splits sum.splits)
  from custom_ratio_returns [OF this] show ?thesis by simp
qed

theorem parse_aspect_ratio_multiple_of_8_witness:
  "parse_aspect_ratio ''instagram'' = Return (1011, 1264)
   \<and> 8 dvd (1264 :: int) \<and> (8 dvd (1011 :: int) \<or> ((1011 :: int), (1264 :: int)) = (1011, 1264))"
proof -
  have "parse_aspect_ratio ''instagram'' = Return (1011, 1264)" by code_simp
  with parse_aspect_ratio_multiple_of_8 [of "''instagram''" 1011 1264] show ?thesis by simp
qed

text \<open>
  C31: A token that is no preset and that does not split at its colons into
  exactly two pieces that \<open>float\<close> accepts is refused with the \<open>ValueError\<close>
  whose message is \<open>Invalid aspect ratio:\<close> followed by the token.
\<close>

theorem parse_aspect_ratio_malformed:
  assumes "map_of ASPECT_RATIOS (str_lower s) = None"
    and "length (str_split (CHR '':'') s) \<noteq> 2
      \<or> None \<in> set (map float_of_str (str_split (CHR '':'') s))"
  shows "parse_aspect_ratio s = Raise (ValueError (''Invalid aspect ratio: '' @ s))"
  using assms(1) custom_ratio_malformed [OF assms(2)]
  by (simp add: parse_aspect_ratio_no_preset invalid_aspect_ratio_def)

theorem parse_aspect_ratio_malformed_witness:
  "map_of ASPECT_RATIOS (str_lower ''4:3:2'') = None
   \<and> length (str_split (CHR '':'') ''4:3:2'') = 3
   \<and> parse_aspect_ratio ''4:3:2'' = Raise (ValueError ''Invalid aspect ratio: 4:3:2'')"
proof -
  have 1: "map_of ASPECT_RATIOS (str_lower ''4:3:2'') = None" by code_simp
  have 2: "length (str_split (CHR '':'') ''4:3:2'') = 3" by simp
  from 1 2 parse_aspect_ratio_malformed [of "''4:3:2''"] show ?thesis by simp
qed

text \<open>
  When the token is no preset, splits into two floats, and the one that the
  comparison selects as the divisor is zero, a \<open>ZeroDivisionError\<close> leaves the
  resolver: its handler catches \<open>ValueError\<close> only. The token \<open>0:0\<close> is such a
  token.
\<close>

theorem parse_aspect_ratio_zero_division:
  assumes "map_of ASPECT_RATIOS (str_lower s) = None"
    and "str_split (CHR '':'') s = [p, q]"
    and "float_of_str p = Some a" and "float_of_str q = Some b"
    and "(if float_ge a b then a else b) = Fin 0"
  shows "parse_aspect_ratio s = Raise ZeroDivisionError"
proof -
  have "scaled_side x (Fin 0) = Raise ZeroDivisionError" for x
    by (simp add: scaled_side_def)
  with assms(5) have "custom_ratio s = Raise ZeroDivisionError"
    unfolding custom_ratio_two [OF assms(2-4)] by (auto split: if_splits)
  with assms(1) split_two_has_colon [OF assms(2)] show ?thesis
    by (simp add: parse_aspect_ratio_custom)
qed

theorem parse_aspect_ratio_zero_division_witness:
  "map_of ASPECT_RATIOS (str_lower ''0:0'') = None
   \<and> str_split (CHR '':'') ''0:0'' = [''0'', ''0'']
   \<and> float_of_str ''0'' = Some (Fin 0)
   \<and> (if float_ge (Fin 0) (Fin 0) then Fin 0 else Fin 0) = Fin 0
   \<and> parse_aspect_ratio ''0:0'' = Raise ZeroDivisionError"
proof -
  have 1: "map_of ASPECT_RATIOS (str_lower ''0:0'') = None" by code_simp
  have 2: "str_split (CHR '':'') ''0:0'' = [''0'', ''0'']" by simp
  have 3: "float_of_str ''0'' = Some (Fin 0)" by code_simp
  from parse_aspect_ratio_zero_division [OF 1 2 3 3] 1 2 3 show ?thesis by simp
qed

section \<open>Integer ratios against the specification\<close>

lemma short_side_bounds:
  fixes a b :: nat
  assumes "0 < a" and "a \<le> b" and "b \<le> 1024 * a"
  shows "0 < round_up_8 (int (1024 * a div b)) \<and> round_up_8 (int (1024 * a div b)) \<le> 1024"
proof -
  let ?n = "int (1024 * a div b)"
  from assms have "1024 * a div b \<le> 1024 * b div b" by (intro div_le_mono) simp
  with assms have "?n \<le> 1024" by simp
  then have "round_up_8 ?n \<le> 1024" by (intro round_up_8_least) simp_all
  moreover from assms have "0 < 1024 * a div b" by (simp add: div_greater_zero_iff)
  then have "0 < round_up_8 ?n" by (simp only: round_up_8_pos_iff)
  ultimately show ?thesis by simp
qed

lemma scaled_ratio_landscape:
  assumes "0 < h" and "h \<le> w" and "w \<le> 1024 * h"
  shows "\<exists>H. scaled_ratio w h = (1024, H) \<and> 8 dvd H \<and> int (1024 * h div w) \<le> H
    \<and> H < int (1024 * h div w) + 8 \<and> 0 < H \<and> H \<le> 1024"
  using assms(2) short_side_bounds [OF assms] round_up_8_bounds [of "int (1024 * h div w)"]
  by (simp add: scaled_ratio_def)

lemma scaled_ratio_portrait:
  assumes "0 < w" and "w < h" and "h \<le> 1024 * w"
  shows "\<exists>W. scaled_ratio w h = (W, 1024) \<and> 8 dvd W \<and> int (1024 * w div h) \<le> W
    \<and> W < int (1024 * w div h) + 8 \<and> 0 < W \<and> W \<le> 1024"
  using assms short_side_bounds [of w h] round_up_8_bounds [of "int (1024 * w div h)"]
  by (simp add: scaled_ratio_def)

text \<open>
  C21: For natural numbers \<open>0 < H \<le> W \<le> 1024 H\<close> with \<open>W\<close> below \<open>2\<^sup>4\<^sup>3\<close>, outside the
  preset table, the token \<open>W:H\<close> resolves to the width 1024 and a height that is
  a multiple of 8, at least the truncated quotient \<open>1024 H / W\<close>, less than 8 above
  it, positive and at most 1024.
\<close>

theorem parse_aspect_ratio_landscape:
  assumes "0 < h" and "h \<le> w" and "w \<le> 1024 * h" and "w < 2 ^ 43"
    and "(w, h) \<notin> set preset_ratios"
  shows "\<exists>H. parse_aspect_ratio (ratio_text w h) = Return (1024, H)
    \<and> 8 dvd H \<and> int (1024 * h div w) \<le> H \<and> H < int (1024 * h div w) + 8
    \<and> 0 < H \<and> H \<le> 1024"
proof -
  from assms have "parse_aspect_ratio (ratio_text w h) = Return (scaled_ratio w h)"
    by (intro parse_aspect_ratio_nat) auto
  with scaled_ratio_landscape [OF assms(1-3)] show ?thesis by auto
qed

theorem parse_aspect_ratio_landscape_witness:
  "(0::nat) < 5 \<and> (5::nat) \<le> 7 \<and> (7::nat) \<le> 1024 * 5 \<and> (7::nat) < 2 ^ 43 \<and> (7, 5) \<notin> set preset_ratios
   \<and> (\<exists>H. parse_aspect_ratio (ratio_text 7 5) = Return (1024, H)
    \<and> 8 dvd H \<and> int (1024 * 5 div 7) \<le> H \<and> H < int (1024 * 5 div 7) + 8
    \<and> 0 < H \<and> H \<le> 1024)"
proof -
  have "(7, 5) \<notin> set preset_ratios" by (simp add: preset_ratios_def)
  with parse_aspect_ratio_landscape [of 5 7] show ?thesis by simp
qed

text \<open>
  The symmetric rule: for natural numbers \<open>0 < W < H \<le> 1024 W\<close> with \<open>H\<close> below
  \<open>2\<^sup>4\<^sup>3\<close>, outside the preset table, the token \<open>W:H\<close> resolves to the height 1024
  and a width that is a multiple of 8, at least the truncated quotient
  \<open>1024 W / H\<close>, less than 8 above it, positive and at most 1024.
\<close>

theorem parse_aspect_ratio_portrait:
  assumes "0 < w" and "w < h" and "h \<le> 1024 * w" and "h < 2 ^ 43"
    and "(w, h) \<notin> set preset_ratios"
  shows "\<exists>W. parse_aspect_ratio (ratio_text w h) = Return (W, 1024)
    \<and> 8 dvd W \<and> int (1024 * w div h) \<le> W \<and> W < int (1024 * w div h) + 8
    \<and> 0 < W \<and> W \<le> 1024"
proof -
  from assms have "parse_aspect_ratio (ratio_text w h) = Return (scaled_ratio w h)"
    by (intro parse_aspect_ratio_nat) auto
  with scaled_ratio_portrait [OF assms(1-3)] show ?thesis by auto
qed

theorem parse_aspect_ratio_portrait_witness:
  "(0::nat) < 3 \<and> (3::nat) < 4 \<and> (4::nat) \<le> 1024 * 3 \<and> (4::nat) < 2 ^ 43 \<and> (3, 4) \<notin> set preset_ratios
   \<and> (\<exists>W. parse_aspect_ratio (ratio_text 3 4) = Return (W, 1024)
    \<and> 8 dvd W \<and> int (1024 * 3 div 4) \<le> W \<and> W < int (1024 * 3 div 4) + 8
    \<and> 0 < W \<and> W \<le> 1024)"
proof -
  have "(3, 4) \<notin> set preset_ratios" by (simp add: preset_ratios_def)
  with parse_aspect_ratio_portrait [of 3 4] show ?thesis by simp
qed

text \<open>
  C34: A ratio wider than 1024 to 1 resolves to a height of 0: the resolver
  returns (1024, 0) for the token \<open>W:H\<close> whenever \<open>1024 H < W\<close>, so its results are
  not always positive.
\<close>

theorem parse_aspect_ratio_zero_height:
  assumes "1024 * h < w" and "w < 2 ^ 43"
  shows "parse_aspect_ratio (ratio_text w h) = Return (1024, 0)"
proof -
  from assms(1) have "(w, h) \<notin> set preset_ratios" by (auto simp: preset_ratios_def)
  with assms have "parse_aspect_ratio (ratio_text w h) = Return (scaled_ratio w h)"
    by (intro parse_aspect_ratio_nat) auto
  moreover from assms(1) have "1024 * h div w = 0" by simp
  ultimately show ?thesis using assms(1) by (simp add: scaled_ratio_def round_up_8_def)
qed

theorem parse_aspect_ratio_zero_height_witness:
  "(1024 :: nat) * 1 < 2000 \<and> (2000 :: nat) < 2 ^ 43
   \<and> parse_aspect_ratio ''2000:1'' = Return (1024, 0)"
proof -
  have "ratio_text 2000 1 = ''2000:1''" by code_simp
  with parse_aspect_ratio_zero_height [of 1 2000] show ?thesis by simp
qed

section \<open>Infinities and NaN\<close>

text \<open>
  A token whose second piece is a \<open>nan\<close> is refused with the
  \<open>Invalid aspect ratio\<close> error: the comparison with a NaN is false, the quotient
  is a NaN, and the \<open>ValueError\<close> of \<open>int\<close> on it is the one the handler catches.
\<close>

theorem parse_aspect_ratio_nan:
  assumes "map_of ASPECT_RATIOS (str_lower s) = None"
    and "str_split (CHR '':'') s = [p, q]"
    and "float_of_str p = Some a" and "float_of_str q = Some NaN"
  shows "parse_aspect_ratio s = Raise (ValueError (''Invalid aspect ratio: '' @ s))"
proof -
  have "float_ge a NaN = False" by (cases a) simp_all
  moreover have "scaled_side a NaN = Raise (ValueError [])"
    by (simp add: scaled_side_def)
  ultimately have "custom_ratio s = Raise (ValueError [])"
    unfolding custom_ratio_two [OF assms(2-4)] by simp
  with assms(1) split_two_has_colon [OF assms(2)] show ?thesis
    by (simp add: parse_aspect_ratio_custom invalid_aspect_ratio_def)
qed

theorem parse_aspect_ratio_nan_witness:
  "map_of ASPECT_RATIOS (str_lower ''1:nan'') = None
   \<and> str_split (CHR '':'') ''1:nan'' = [''1'', ''nan'']
   \<and> float_of_str ''1'' = Some (Fin 1) \<and> float_of_str ''nan'' = Some NaN
   \<and> parse_aspect_ratio ''1:nan'' = Raise (ValueError ''Invalid aspect ratio: 1:nan'')"
proof -
  have 1: "map_of ASPECT_RATIOS (str_lower ''1:nan'') = None" by code_simp
  have 2: "str_split (CHR '':'') ''1:nan'' = [''1'', ''nan'']" by simp
  have 3: "float_of_str ''1'' = Some (Fin 1)" by code_simp
  have 4: "float_of_str ''nan'' = Some NaN" by code_simp
  from parse_aspect_ratio_nan [OF 1 2 3 4] 1 2 3 4 show ?thesis by simp
qed

text \<open>
  C32: A token whose first piece is a positive finite float and whose second piece
  is the negative infinity makes \<open>int\<close> raise an \<open>OverflowError\<close>, which leaves the
  resolver uncaught.
\<close>

theorem parse_aspect_ratio_overflow:
  assumes "map_of ASPECT_RATIOS (str_lower s) = None"
    and "str_split (CHR '':'') s = [p, q]"
    and "float_of_str p = Some (Fin r)" and "0 < r" and "float_of_str q = Some NInf"
  shows "parse_aspect_ratio s = Raise OverflowError"
proof -
  from assms(4) have "scaled_side NInf (Fin r) = Raise OverflowError"
    by (simp add: scaled_side_def base_size_def signed_inf_def)
  then have "custom_ratio s = Raise OverflowError"
    unfolding custom_ratio_two [OF assms(2,3,5)] by simp
  with assms(1) split_two_has_colon [OF assms(2)] show ?thesis
    by (simp add: parse_aspect_ratio_custom)
qed

theorem parse_aspect_ratio_overflow_witness:
  "map_of ASPECT_RATIOS (str_lower ''1:-inf'') = None
   \<and> str_split (CHR '':'') ''1:-inf'' = [''1'', ''-inf'']
   \<and> float_of_str ''1'' = Some (Fin 1) \<and> (0 :: rat) < 1 \<and> float_of_str ''-inf'' = Some NInf
   \<and> parse_aspect_ratio ''1:-inf'' = Raise OverflowError"
proof -
  have 1: "map_of ASPECT_RATIOS (str_lower ''1:-inf'') = None" by code_simp
  have 2: "str_split (CHR '':'') ''1:-inf'' = [''1'', ''-inf'']" by simp
  have 3: "float_of_str ''1'' = Some (Fin 1)" by code_simp
  have 4: "float_of_str ''-inf'' = Some NInf" by code_simp
  from parse_aspect_ratio_overflow [OF 1 2 3 _ 4] 1 2 3 4 show ?thesis by simp
qed

section \<open>Rounding and precedence\<close>

text \<open>
  C39: The rounding step \<open>((n + 7) // 8) * 8\<close> yields the least multiple of 8 that
  is not below \<open>n\<close>. It rounds up, not to the nearest multiple: 9 becomes 16.
\<close>

theorem round_up_8_least_multiple:
  "8 dvd round_up_8 n \<and> n \<le> round_up_8 n \<and> (\<forall>m. 8 dvd m \<and> n \<le> m \<longrightarrow> round_up_8 n \<le> m)"
  using round_up_8_bounds [of n] by (simp add: round_up_8_least)

theorem round_up_8_least_multiple_witness:
  "8 dvd round_up_8 9 \<and> 9 \<le> round_up_8 9 \<and> round_up_8 9 \<le> 16 \<and> round_up_8 9 = 16"
  using round_up_8_least_multiple [of 9] by (simp add: round_up_8_def)


end
