(* ===== verification/Py_Value.thy ===== *)
theory Py_Value
  imports Py_Float "HOL-Library.AList"
begin

text \<open>
  The dynamically typed values that flow through the program: command-line
  arguments, keyword arguments, the JSON payload of a request and the decoded
  JSON of a response. A \<open>dict\<close> keeps the insertion order of its keys, so it is an
  association list whose update replaces in place or appends; \<open>truthy\<close> is the
  truth value that \<open>if x:\<close> tests. The operations on a value of unknown shape
  (\<open>val_get\<close>, \<open>val_iter\<close>, \<open>val_first\<close>, \<open>val_join\<close>) return a result: the
  value, or the exception that Python raises on the wrong type; \<open>py_str\<close> and
  \<open>py_repr\<close> are the texts of \<open>str\<close> and \<open>repr\<close>.
\<close>

section \<open>Values\<close>

datatype pyval =
    PNone
  | PBool bool
  | PInt int
  | PFloat pyfloat
  | PStr string
  | PList "pyval list"
  | PDict "(string \<times> pyval) list"

type_synonym pydict = "(string \<times> pyval) list"

fun truthy :: "pyval \<Rightarrow> bool" where
  "truthy PNone = False"
| "truthy (PBool b) = b"
| "truthy (PInt n) = (n \<noteq> 0)"
| "truthy (PFloat x) = (x \<noteq> Fin 0)"
| "truthy (PStr s) = (s \<noteq> [])"
| "truthy (PList xs) = (xs \<noteq> [])"
| "truthy (PDict kvs) = (kvs \<noteq> [])"

section \<open>Dictionaries\<close>

text \<open>\<open>d.get(k, default)\<close>, \<open>k in d\<close> and \<open>d[k] = v\<close>.\<close>

definition dict_get :: "pydict \<Rightarrow> string \<Rightarrow> pyval \<Rightarrow> pyval" where
  "dict_get d k dflt = (case map_of d k of Some v \<Rightarrow> v | None \<Rightarrow> dflt)"

definition dict_has :: "pydict \<Rightarrow> string \<Rightarrow> bool" where
  "dict_has d k \<longleftrightarrow> map_of d k \<noteq> None"

definition dict_set :: "pydict \<Rightarrow> string \<Rightarrow> pyval \<Rightarrow> pydict" where
  "dict_set d k v = AList.update k v d"

definition dict_keys :: "pydict \<Rightarrow> string list" where
  "dict_keys d = map fst d"

lemmas dict_defs [py_defs] = dict_get_def dict_has_def dict_set_def dict_keys_def

lemma map_of_dict_set [simp]: "map_of (dict_set d k v) = (map_of d)(k \<mapsto> v)"
  by (simp add: dict_set_def update_conv')

lemma dict_get_dict_set:
  "dict_get (dict_set d k v) k' dflt = (if k' = k then v else dict_get d k' dflt)"
  by (simp add: dict_get_def)

lemma dict_has_dict_set [simp]: "dict_has (dict_set d k v) k' \<longleftrightarrow> k' = k \<or> dict_has d k'"
  by (simp add: dict_has_def)

lemma dict_keys_dict_set:
  "dict_keys (dict_set d k v) = (if k \<in> set (dict_keys d) then dict_keys d else dict_keys d @ [k])"
  by (simp add: dict_set_def dict_keys_def update_keys)

lemma set_dict_keys_dict_set [simp]:
  "set (dict_keys (dict_set d k v)) = insert k (set (dict_keys d))"
  by (auto simp: dict_keys_dict_set)

lemma distinct_dict_keys_dict_set [simp]:
  "distinct (dict_keys d) \<Longrightarrow> distinct (dict_keys (dict_set d k v))"
  by (simp add: dict_set_def dict_keys_def distinct_update)

lemma dict_has_iff_keys: "dict_has d k \<longleftrightarrow> k \<in> set (dict_keys d)"
  by (simp add: dict_has_def dict_keys_def map_of_eq_None_iff)

section \<open>Operations on values of unknown type\<close>

text \<open>
  The decoded JSON of a response can be any value, so the operations that the
  program applies to it can fail: \<open>v.get(k, d)\<close> exists for a \<open>dict\<close> only,
  \<open>for x in v\<close> needs an iterable, \<open>v[0]\<close> a sequence with a first element.
\<close>

definition val_get :: "pyval \<Rightarrow> string \<Rightarrow> pyval \<Rightarrow> pyval result" where
  "val_get v k dflt = (case v of PDict d \<Rightarrow> Return (dict_get d k dflt) | _ \<Rightarrow> Raise AttributeError)"

definition val_iter :: "pyval \<Rightarrow> pyval list result" where
  "val_iter v = (case v of
       PList xs \<Rightarrow> Return xs
     | PDict d \<Rightarrow> Return (map PStr (dict_keys d))
     | PStr s \<Rightarrow> Return (map (\<lambda>c. PStr [c]) s)
     | _ \<Rightarrow> Raise TypeError)"

definition val_first :: "pyval \<Rightarrow> pyval result" where
  "val_first v = (case v of
       PList xs \<Rightarrow> (case xs of [] \<Rightarrow> Raise IndexError | x # _ \<Rightarrow> Return x)
     | PStr s \<Rightarrow> (case s of [] \<Rightarrow> Raise IndexError | c # _ \<Rightarrow> Return (PStr [c]))
     | PDict d \<Rightarrow> Raise KeyError
     | _ \<Rightarrow> Raise TypeError)"

text \<open>\<open>sep.join(v)\<close>: the argument is iterated and every item has to be a \<open>str\<close>.\<close>

primrec join_strs :: "string \<Rightarrow> string list \<Rightarrow> string" where
  "join_strs sep [] = []"
| "join_strs sep (p # ps) = (if ps = [] then p else p @ sep @ join_strs sep ps)"

fun str_items :: "pyval list \<Rightarrow> string list option" where
  "str_items [] = Some []"
| "str_items (PStr s # vs) = map_option ((#) s) (str_items vs)"
| "str_items (v # vs) = None"

definition val_join :: "string \<Rightarrow> pyval \<Rightarrow> string result" where
  "val_join sep v =
     rbind (val_iter v)
       (\<lambda>xs. case str_items xs of Some ps \<Rightarrow> Return (join_strs sep ps) | None \<Rightarrow> Raise TypeError)"

section \<open>Text of a value\<close>

text \<open>
  \<open>str(n)\<close> of an integer, and \<open>repr\<close> and \<open>str\<close> of a value as an f-string
  inserts it. The shortest decimal text that \<open>repr\<close> gives to a float is not
  modelled: it is the parameter \<open>frepr\<close>. A string is quoted as \<open>repr\<close> does for
  printable ASCII text: in single quotes, or in double quotes when it holds a
  single quote and no double quote, with the backslash and the chosen quote
  escaped.
\<close>

definition str_int :: "int \<Rightarrow> string" where
  "str_int n = (if n < 0 then ''-'' @ str_nat (nat (- n)) else str_nat (nat n))"

definition quote_char :: "string \<Rightarrow> char" where
  "quote_char s =
     (if CHR 0x27 \<in> set s \<and> CHR 0x22 \<notin> set s then CHR 0x22 else CHR 0x27)"

definition escape_char :: "char \<Rightarrow> char \<Rightarrow> string" where
  "escape_char q c =
     (if c = CHR 0x5C then [CHR 0x5C, CHR 0x5C]
      else if c = q then [CHR 0x5C, c]
      else if c = CHR 0x0A then [CHR 0x5C, CHR ''n'']
      else if c = CHR 0x0D then [CHR 0x5C, CHR ''r'']
      else if c = CHR 0x09 then [CHR 0x5C, CHR ''t'']
      else [c])"

definition repr_str :: "string \<Rightarrow> string" where
  "repr_str s = (let q = quote_char s in q # concat (map (escape_char q) s) @ [q])"

fun py_repr :: "(pyfloat \<Rightarrow> string) \<Rightarrow> pyval \<Rightarrow> string" where
  "py_repr frepr PNone = ''None''"
| "py_repr frepr (PBool b) = (if b then ''True'' else ''False'')"
| "py_repr frepr (PInt n) = str_int n"
| "py_repr frepr (PFloat x) = frepr x"
| "py_repr frepr (PStr s) = repr_str s"
| "py_repr frepr (PList xs) = ''['' @ join_strs '', '' (map (py_repr frepr) xs) @ '']''"
| "py_repr frepr (PDict d) =
     ''{'' @ join_strs '', '' (map (\<lambda>kv. repr_str (fst kv) @ '': '' @ py_repr frepr (snd kv)) d) @ ''}''"

definition py_str :: "(pyfloat \<Rightarrow> string) \<Rightarrow> pyval \<Rightarrow> string" where
  "py_str frepr v = (case v of PStr s \<Rightarrow> s | _ \<Rightarrow> py_repr frepr v)"

lemmas val_defs [py_defs] =
  val_get_def val_iter_def val_first_def val_join_def str_int_def py_str_def repr_str_def
  quote_char_def escape_char_def


section \<open>Facts on the dynamic operations\<close>

lemma val_get_dict [simp]: "val_get (PDict d) k dflt = Return (dict_get d k dflt)"
  by (simp add: val_get_def)

lemma val_get_Return_iff:
  "val_get v k dflt = Return x \<longleftrightarrow> (\<exists>d. v = PDict d \<and> x = dict_get d k dflt)"
  by (cases v) (auto simp: val_get_def)

lemma val_get_Raise_iff: "val_get v k dflt = Raise e \<longleftrightarrow> (\<forall>d. v \<noteq> PDict d) \<and> e = AttributeError"
  by (cases v) (auto simp: val_get_def)

lemma val_first_truthy_list:
  "truthy (PList xs) \<Longrightarrow> val_first (PList xs) = Return (hd xs)"
  by (cases xs) (simp_all add: val_first_def)

lemma val_first_raises:
  "val_first v = Raise e \<Longrightarrow> e = IndexError \<or> e = KeyError \<or> e = TypeError"
  by (cases v) (auto simp: val_first_def split: list.splits)

lemma val_first_truthy_no_IndexError:
  "truthy v \<Longrightarrow> val_first v \<noteq> Raise IndexError"
  by (cases v) (auto simp: val_first_def split: list.splits)

lemma str_items_map_PStr [simp]: "str_items (map PStr ps) = Some ps"
  by (induction ps) simp_all

lemma str_items_Some_iff: "str_items vs = Some ps \<longleftrightarrow> vs = map PStr ps"
proof (induction vs arbitrary: ps rule: str_items.induct)
  case (2 s vs)
  then show ?case by (cases ps) auto
qed auto

lemma val_join_strs [simp]: "val_join sep (PList (map PStr ps)) = Return (join_strs sep ps)"
  by (simp add: val_join_def val_iter_def)

lemma val_join_raises: "val_join sep v = Raise e \<Longrightarrow> e = TypeError"
  by (cases v) (auto simp: val_join_def val_iter_def rbind_eq_Raise_iff split: option.splits)

lemma str_int_of_nat [simp]: "str_int (int n) = str_nat n"
  by (simp add: str_int_def)

lemma str_int_inj: "str_int m = str_int n \<Longrightarrow> m = n"
proof -
  have minus: "hd (str_nat k) \<noteq> CHR ''-''" for k
    using str_nat_digits [of "hd (str_nat k)" k] str_nat_nonempty [of k]
    by (auto simp: is_digit_def)
  assume eq: "str_int m = str_int n"
  show ?thesis
  proof (cases "m < 0"; cases "n < 0")
    assume "m < 0" "n < 0"
    with eq have "nat (- m) = nat (- n)" by (simp add: str_int_def)
    with \<open>m < 0\<close> \<open>n < 0\<close> show ?thesis by simp
  next
    assume "m < 0" "\<not> n < 0"
    with eq have "CHR ''-'' # str_nat (nat (- m)) = str_nat (nat n)" by (simp add: str_int_def)
    then have "hd (str_nat (nat n)) = CHR ''-''" by (metis list.sel(1))
    with minus show ?thesis by simp
  next
    assume "\<not> m < 0" "n < 0"
    with eq have "str_nat (nat m) = CHR ''-'' # str_nat (nat (- n))" by (simp add: str_int_def)
    then have "hd (str_nat (nat m)) = CHR ''-''" by (metis list.sel(1))
    with minus show ?thesis by simp
  next
    assume "\<not> m < 0" "\<not> n < 0"
    with eq have "nat m = nat n" by (simp add: str_int_def)
    with \<open>\<not> m < 0\<close> \<open>\<not> n < 0\<close> show ?thesis by simp
  qed
qed

end
