(* ===== verification/Request.thy ===== *)
theory Request
  imports Py_Value
begin

text \<open>
  The request builder: the first half of
  \<open>VeniceImageGenerator.generate_image\<close>, which turns the prompt, the model name
  and the keyword arguments into the JSON payload of the request. The keyword
  arguments are a dictionary, as \<open>**kwargs\<close> is.
\<close>

section \<open>Definitions\<close>

definition optional_params :: "string list" where
  "optional_params =
     [''negative_prompt'', ''width'', ''height'', ''steps'', ''cfg_scale'', ''seed'',
      ''style_preset'']"

definition base_payload :: "string \<Rightarrow> string \<Rightarrow> pydict \<Rightarrow> pydict" where
  "base_payload prompt model kwargs =
     [(''model'', PStr model),
      (''prompt'', PStr prompt),
      (''format'', dict_get kwargs ''format'' (PStr ''jpeg'')),
      (''hide_watermark'', PBool True),
      (''safe_mode'', dict_get kwargs ''safe_mode'' (PBool False)),
      (''return_binary'', PBool False)]"

text \<open>One round of the loop over \<open>optional_params\<close>.\<close>

definition add_optional :: "pydict \<Rightarrow> pydict \<Rightarrow> string \<Rightarrow> pydict" where
  "add_optional kwargs payload param =
     (if dict_has kwargs param \<and> dict_get kwargs param PNone \<noteq> PNone
      then dict_set payload param (dict_get kwargs param PNone)
      else payload)"

definition build_payload :: "string \<Rightarrow> string \<Rightarrow> pydict \<Rightarrow> pydict" where
  "build_payload prompt model kwargs =
     foldl (add_optional kwargs) (base_payload prompt model kwargs) optional_params"

lemmas request_defs [py_defs] =
  build_payload_def add_optional_def base_payload_def optional_params_def

section \<open>The loop over the optional parameters\<close>

definition wanted :: "pydict \<Rightarrow> string \<Rightarrow> bool" where
  "wanted kwargs param \<longleftrightarrow> (\<exists>v. map_of kwargs param = Some v \<and> v \<noteq> PNone)"

lemma add_optional_eq:
  "add_optional kwargs payload param =
     (if wanted kwargs param then dict_set payload param (the (map_of kwargs param)) else payload)"
  by (auto simp: add_optional_def wanted_def dict_has_def dict_get_def split: option.splits)

lemma map_of_foldl_add_optional:
  "map_of (foldl (add_optional kwargs) payload params) k =
     (if k \<in> set params \<and> wanted kwargs k then map_of kwargs k else map_of payload k)"
proof (induction params arbitrary: payload)
  case Nil
  then show ?case by simp
next
  case (Cons p params)
  then show ?case by (auto simp: add_optional_eq wanted_def)
qed

lemma keys_foldl_add_optional:
  "set (dict_keys (foldl (add_optional kwargs) payload params)) =
     set (dict_keys payload) \<union> {p \<in> set params. wanted kwargs p}"
  by (induction params arbitrary: payload) (auto simp: add_optional_eq)

lemma distinct_foldl_add_optional:
  "distinct (dict_keys payload) \<Longrightarrow>
   distinct (dict_keys (foldl (add_optional kwargs) payload params))"
  by (induction params arbitrary: payload) (auto simp: add_optional_eq)

lemma base_payload_keys:
  "dict_keys (base_payload prompt model kwargs) =
     [''model'', ''prompt'', ''format'', ''hide_watermark'', ''safe_mode'', ''return_binary'']"
  by (simp add: base_payload_def dict_keys_def)

lemma optional_not_base:
  "k \<in> set optional_params \<Longrightarrow> map_of (base_payload prompt model kwargs) k = None"
  by (auto simp: optional_params_def base_payload_def)

text \<open>The payload as a map: the characteristic equation of \<open>build_payload\<close>.\<close>

lemma map_of_build_payload:
  "map_of (build_payload prompt model kwargs) k =
     (if k \<in> set optional_params then (if wanted kwargs k then map_of kwargs k else None)
      else map_of (base_payload prompt model kwargs) k)"
  by (simp add: build_payload_def map_of_foldl_add_optional optional_not_base)

section \<open>The payload as a specification\<close>

text \<open>
  What the request builder promises, said without a loop: the six fixed fields,
  followed by the optional parameters that were supplied with a value other than
  \<open>None\<close>, in the order of \<open>optional_params\<close>.
\<close>

definition payload_spec :: "string \<Rightarrow> string \<Rightarrow> pydict \<Rightarrow> pydict" where
  "payload_spec prompt model kwargs =
     base_payload prompt model kwargs
     @ map (\<lambda>k. (k, the (map_of kwargs k))) (filter (wanted kwargs) optional_params)"

lemma dict_set_fresh: "k \<notin> set (dict_keys d) \<Longrightarrow> dict_set d k v = d @ [(k, v)]"
  by (induction d) (auto simp: dict_set_def dict_keys_def)

lemma foldl_add_optional_append:
  assumes "distinct params" and "set params \<inter> set (dict_keys payload) = {}"
  shows "foldl (add_optional kwargs) payload params =
     payload @ map (\<lambda>k. (k, the (map_of kwargs k))) (filter (wanted kwargs) params)"
  using assms
proof (induction params arbitrary: payload)
  case Nil
  then show ?case by simp
next
  case (Cons p params)
  show ?case
  proof (cases "wanted kwargs p")
    case True
    let ?payload = "payload @ [(p, the (map_of kwargs p))]"
    from Cons.prems have fresh: "p \<notin> set (dict_keys payload)" by simp
    from Cons.prems have "set params \<inter> set (dict_keys ?payload) = {}"
      by (auto simp: dict_keys_def)
    with Cons.prems Cons.IH [of ?payload]
    have "foldl (add_optional kwargs) ?payload params =
        ?payload @ map (\<lambda>k. (k, the (map_of kwargs k))) (filter (wanted kwargs) params)"
      by simp
    moreover from True fresh have "add_optional kwargs payload p = ?payload"
      by (simp add: add_optional_eq dict_set_fresh)
    ultimately show ?thesis using True by simp
  next
    case False
    then have "add_optional kwargs payload p = payload"
      by (simp add: add_optional_eq)
    with False Cons show ?thesis by simp
  qed
qed

lemma distinct_optional_params: "distinct optional_params"
  by (simp add: optional_params_def)

lemma optional_params_fresh:
  "set optional_params \<inter> set (dict_keys (base_payload prompt model kwargs)) = {}"
  by (auto simp: base_payload_keys optional_params_def)

section \<open>Properties of the request builder\<close>

text \<open>
  C3: The loop of the request builder computes the payload of the specification:
  the fixed fields in their order, then exactly the optional parameters that are
  present in the keyword arguments with a value other than \<open>None\<close>, each with
  that value, in the order of the list of optional parameters.
\<close>

theorem build_payload_refines_spec:
  "build_payload prompt model kwargs = payload_spec prompt model kwargs"
  unfolding build_payload_def payload_spec_def
  by (rule foldl_add_optional_append [OF distinct_optional_params optional_params_fresh])

text \<open>
  Whatever the keyword arguments hold, also under the names of the fixed
  fields, the payload carries the given model and prompt, \<open>hide_watermark\<close> true
  and \<open>return_binary\<close> false; \<open>format\<close> and \<open>safe_mode\<close> are the keyword
  arguments of these names, or \<open>jpeg\<close> and false.
\<close>

theorem build_payload_fixed_fields:
  "map_of (build_payload prompt model kwargs) ''model'' = Some (PStr model)
   \<and> map_of (build_payload prompt model kwargs) ''prompt'' = Some (PStr prompt)
   \<and> map_of (build_payload prompt model kwargs) ''hide_watermark'' = Some (PBool True)
   \<and> map_of (build_payload prompt model kwargs) ''return_binary'' = Some (PBool False)
   \<and> map_of (build_payload prompt model kwargs) ''format''
       = Some (dict_get kwargs ''format'' (PStr ''jpeg''))
   \<and> map_of (build_payload prompt model kwargs) ''safe_mode''
       = Some (dict_get kwargs ''safe_mode'' (PBool False))"
  by (simp add: map_of_build_payload optional_params_def base_payload_def)

text \<open>
  An optional parameter is a key of the payload exactly when the keyword
  arguments hold it with a value other than \<open>None\<close>, and then the payload holds
  that value: an absent or \<open>None\<close> parameter is left out, never sent as null.
\<close>

theorem build_payload_optional:
  assumes "k \<in> set optional_params"
  shows "map_of (build_payload prompt model kwargs) k =
     (case map_of kwargs k of
        None \<Rightarrow> None
      | Some v \<Rightarrow> if v = PNone then None else Some v)"
  using assms by (auto simp: map_of_build_payload wanted_def split: option.splits)

theorem build_payload_optional_witness:
  "''seed'' \<in> set optional_params
   \<and> map_of (build_payload ''a cat'' ''venice-sd35''
                [(''steps'', PNone), (''seed'', PInt 42)]) ''seed'' = Some (PInt 42)"
proof -
  have 1: "''seed'' \<in> set optional_params" by (simp add: optional_params_def)
  from 1 build_payload_optional [OF 1, of "''a cat''" "''venice-sd35''"
      "[(''steps'', PNone), (''seed'', PInt 42)]"]
  show ?thesis by simp
qed

end
