(* ===== verification/Py_Path.thy ===== *)
theory Py_Path
  imports Py_String
begin

text \<open>
  The part of \<open>pathlib.Path\<close> (POSIX flavour) that \<open>save_image\<close> uses: the
  components of a path string, the final component \<open>name\<close>, its \<open>stem\<close> and
  \<open>suffix\<close>, and the normal form \<open>str(Path(s))\<close> under which the file system is
  asked whether the path exists. Empty components and \<open>.\<close> components are
  dropped, \<open>..\<close> is kept as a component, and a path that starts with exactly two
  slashes keeps both.
\<close>

section \<open>Definitions\<close>

definition path_parts :: "string \<Rightarrow> string list" where
  "path_parts s = filter (\<lambda>p. p \<noteq> [] \<and> p \<noteq> ''.'') (str_split (CHR ''/'') s)"

definition path_root :: "string \<Rightarrow> string" where
  "path_root s =
     (if take 2 s = ''//'' \<and> take 3 s \<noteq> ''///'' then ''//''
      else if take 1 s = ''/'' then ''/'' else [])"

definition path_str :: "string \<Rightarrow> string" where
  "path_str s =
     (if path_root s = [] \<and> path_parts s = [] then ''.''
      else path_root s @ str_join (CHR ''/'') (path_parts s))"

definition path_name :: "string \<Rightarrow> string" where
  "path_name s = (if path_parts s = [] then [] else last (path_parts s))"

text \<open>\<open>str.rfind\<close> for a one-character needle: the last index, or \<open>-1\<close>.\<close>

definition str_rfind :: "char \<Rightarrow> string \<Rightarrow> int" where
  "str_rfind c s =
     (if c \<in> set s then int (length s) - 1 - int (length (takeWhile (\<lambda>x. x \<noteq> c) (rev s)))
      else - 1)"

definition has_suffix :: "string \<Rightarrow> bool" where
  "has_suffix name \<longleftrightarrow>
     0 < str_rfind (CHR ''.'') name \<and> str_rfind (CHR ''.'') name < int (length name) - 1"

definition path_suffix :: "string \<Rightarrow> string" where
  "path_suffix s =
     (let name = path_name s in
      if has_suffix name then drop (nat (str_rfind (CHR ''.'') name)) name else [])"

definition path_stem :: "string \<Rightarrow> string" where
  "path_stem s =
     (let name = path_name s in
      if has_suffix name then take (nat (str_rfind (CHR ''.'') name)) name else name)"

lemmas path_defs [py_defs] =
  path_parts_def path_root_def path_str_def path_name_def str_rfind_def has_suffix_def
  path_suffix_def path_stem_def

section \<open>Components\<close>

lemma path_parts_no_slash: "p \<in> set (path_parts s) \<Longrightarrow> CHR ''/'' \<notin> set p"
  by (auto simp: path_parts_def dest: str_split_no_sep)

lemma path_parts_nonempty: "p \<in> set (path_parts s) \<Longrightarrow> p \<noteq> [] \<and> p \<noteq> ''.''"
  by (simp add: path_parts_def)

lemma path_name_no_slash [simp]: "CHR ''/'' \<notin> set (path_name s)"
proof (cases "path_parts s = []")
  case False
  then have "last (path_parts s) \<in> set (path_parts s)" by simp
  then have "CHR ''/'' \<notin> set (last (path_parts s))" by (rule path_parts_no_slash)
  with False show ?thesis by (simp add: path_name_def)
qed (simp add: path_name_def)

lemma path_parts_single:
  assumes "CHR ''/'' \<notin> set c" and "c \<noteq> []" and "c \<noteq> ''.''"
  shows "path_parts c = [c]"
  using assms by (simp add: path_parts_def str_split_no_occurrence)

lemma path_root_no_slash: "CHR ''/'' \<notin> set c \<Longrightarrow> path_root c = []"
  by (cases c) (auto simp: path_root_def)

text \<open>A single component that is not \<open>.\<close> is its own normal form and its own name.\<close>

lemma path_str_single:
  assumes "CHR ''/'' \<notin> set c" and "c \<noteq> []" and "c \<noteq> ''.''"
  shows "path_str c = c"
  using assms by (simp add: path_str_def path_parts_single path_root_no_slash)

lemma path_name_single:
  assumes "CHR ''/'' \<notin> set c" and "c \<noteq> []" and "c \<noteq> ''.''"
  shows "path_name c = c"
  using assms by (simp add: path_name_def path_parts_single)

section \<open>Stem and suffix\<close>

lemma path_stem_suffix [simp]: "path_stem s @ path_suffix s = path_name s"
  by (simp add: path_stem_def path_suffix_def Let_def)

lemma set_path_stem_suffix: "set (path_stem s) \<union> set (path_suffix s) = set (path_name s)"
  by (metis path_stem_suffix set_append)

lemma path_stem_no_slash [simp]: "CHR ''/'' \<notin> set (path_stem s)"
  using path_name_no_slash [of s] set_path_stem_suffix [of s] by blast

lemma path_suffix_no_slash [simp]: "CHR ''/'' \<notin> set (path_suffix s)"
  using path_name_no_slash [of s] set_path_stem_suffix [of s] by blast

lemma str_rfind_less_length: "str_rfind c s < int (length s)"
  by (simp add: str_rfind_def)

lemma str_rfind_nth:
  assumes "c \<in> set s"
  shows "0 \<le> str_rfind c s \<and> s ! nat (str_rfind c s) = c"
proof -
  let ?t = "takeWhile (\<lambda>x. x \<noteq> c) (rev s)"
  from assms have ne: "?t \<noteq> rev s"
    by (auto simp: takeWhile_eq_all_conv)
  have "length ?t \<noteq> length (rev s)"
  proof
    assume "length ?t = length (rev s)"
    then have "?t = rev s" by (metis takeWhile_eq_take take_all order_refl)
    with ne show False ..
  qed
  moreover have "length ?t \<le> length (rev s)" by (rule length_takeWhile_le)
  ultimately have lt: "length ?t < length (rev s)" by simp
  then have "rev s ! length ?t = c"
    using nth_length_takeWhile [of "\<lambda>x. x \<noteq> c" "rev s"] by simp
  moreover from lt have "rev s ! length ?t = s ! (length s - Suc (length ?t))"
    by (simp add: rev_nth)
  moreover from lt have "nat (str_rfind c s) = length s - Suc (length ?t)"
    using assms by (simp add: str_rfind_def)
  moreover from lt have "0 \<le> str_rfind c s"
    using assms by (simp add: str_rfind_def)
  ultimately show ?thesis by simp
qed

text \<open>A suffix, when there is one, starts with a dot and holds more than the dot.\<close>

lemma path_suffix_shape:
  "path_suffix s = [] \<or> (hd (path_suffix s) = CHR ''.'' \<and> 1 < length (path_suffix s))"
proof (cases "has_suffix (path_name s)")
  case True
  let ?n = "path_name s"
  let ?i = "str_rfind (CHR ''.'') ?n"
  from True have i: "0 < ?i" "?i < int (length ?n) - 1"
    by (simp_all add: has_suffix_def)
  then have "CHR ''.'' \<in> set ?n"
    by (auto simp: str_rfind_def split: if_splits)
  then have "?n ! nat ?i = CHR ''.''" by (simp add: str_rfind_nth)
  moreover from i have "nat ?i < length ?n" by linarith
  ultimately have "hd (drop (nat ?i) ?n) = CHR ''.''"
    by (simp add: hd_drop_conv_nth)
  moreover from i have "1 < length (drop (nat ?i) ?n)" by simp
  ultimately show ?thesis using True by (simp add: path_suffix_def Let_def)
qed (simp add: path_suffix_def)

end
