(* ===== verification/Py_Base64.thy ===== *)
theory Py_Base64
  imports Py_String "HOL-Library.Word"
begin

text \<open>
  \<open>base64.b64decode(s)\<close> as \<open>save_image\<close> calls it: on a \<open>str\<close>, with the default
  \<open>validate=False\<close>. The string is encoded to ASCII bytes (a character above 127
  raises \<open>ValueError\<close>) and handed to \<open>binascii.a2b_base64\<close> in its lenient mode,
  whose loop is modelled after CPython 3.11 to 3.13: characters outside the
  alphabet are skipped, four sextets give three bytes, a pad character ends the
  input once the current quad holds at least two sextets and the pads complete
  it, and an incomplete quad at the end of the input raises \<open>binascii.Error\<close>, a
  subclass of \<open>ValueError\<close>. The standard encoder \<open>b64encode\<close> is the reference:
  the lemmas split three bytes into four sextets and back on 8-bit words, and the
  round trip \<open>b64decode (b64encode bs) = Return bs\<close> follows by induction over the
  groups.
\<close>

unbundle bit_operations_syntax

type_synonym byte = "8 word"

section \<open>Alphabet\<close>

definition b64_alphabet :: string where
  "b64_alphabet = ''ABCDEFGHIJKLMNOPQRSTUVWXYZabcdefghijklmnopqrstuvwxyz0123456789+/''"

definition b64_value :: "char \<Rightarrow> byte option" where
  "b64_value c = map_of (zip b64_alphabet (map word_of_nat [0 ..< 64])) c"

definition b64_char :: "byte \<Rightarrow> char" where
  "b64_char v = b64_alphabet ! unat v"

section \<open>The decoder loop\<close>

record a2b_state =
  quad_pos :: nat
  leftchar :: byte
  pads :: nat
  bin_data :: "byte list"

definition a2b_init :: a2b_state where
  "a2b_init = \<lparr>quad_pos = 0, leftchar = 0, pads = 0, bin_data = []\<rparr>"

text \<open>One sextet: the \<open>switch (quad_pos)\<close> of the loop, after \<open>pads = 0\<close>.\<close>

definition a2b_sextet :: "a2b_state \<Rightarrow> byte \<Rightarrow> a2b_state" where
  "a2b_sextet st v =
     (if quad_pos st = 0 then
        st\<lparr>quad_pos := 1, leftchar := v, pads := 0\<rparr>
      else if quad_pos st = 1 then
        st\<lparr>quad_pos := 2, leftchar := v AND 0x0f, pads := 0,
           bin_data := bin_data st @ [push_bit 2 (leftchar st) OR drop_bit 4 v]\<rparr>
      else if quad_pos st = 2 then
        st\<lparr>quad_pos := 3, leftchar := v AND 0x03, pads := 0,
           bin_data := bin_data st @ [push_bit 4 (leftchar st) OR drop_bit 2 v]\<rparr>
      else
        st\<lparr>quad_pos := 0, leftchar := 0, pads := 0,
           bin_data := bin_data st @ [push_bit 6 (leftchar st) OR v]\<rparr>)"

fun a2b_loop :: "a2b_state \<Rightarrow> string \<Rightarrow> byte list result" where
  "a2b_loop st [] =
     (if quad_pos st \<noteq> 0 then Raise (ValueError []) else Return (bin_data st))"
| "a2b_loop st (c # cs) =
     (if c = CHR ''='' then
        (if 2 \<le> quad_pos st then
           (if 4 \<le> quad_pos st + (pads st + 1) then Return (bin_data st)
            else a2b_loop (st\<lparr>pads := pads st + 1\<rparr>) cs)
         else a2b_loop st cs)
      else case b64_value c of
          None \<Rightarrow> a2b_loop st cs
        | Some v \<Rightarrow> a2b_loop (a2b_sextet st v) cs)"

definition is_ascii :: "char \<Rightarrow> bool" where
  "is_ascii c \<longleftrightarrow> (of_char c :: nat) < 128"

definition b64decode :: "string \<Rightarrow> byte list result" where
  "b64decode s =
     (if list_all is_ascii s then a2b_loop a2b_init s else Raise (ValueError []))"

section \<open>The encoder, as the reference for the round trip\<close>

fun b64encode :: "byte list \<Rightarrow> string" where
  "b64encode [] = []"
| "b64encode [a] =
     [b64_char (drop_bit 2 a), b64_char (push_bit 4 (a AND 0x03)), CHR ''='', CHR ''='']"
| "b64encode [a, b] =
     [b64_char (drop_bit 2 a), b64_char (push_bit 4 (a AND 0x03) OR drop_bit 4 b),
      b64_char (push_bit 2 (b AND 0x0f)), CHR ''='']"
| "b64encode (a # b # c # rest) =
     [b64_char (drop_bit 2 a), b64_char (push_bit 4 (a AND 0x03) OR drop_bit 4 b),
      b64_char (push_bit 2 (b AND 0x0f) OR drop_bit 6 c), b64_char (c AND 0x3f)]
     @ b64encode rest"

lemmas base64_defs [py_defs] =
  b64decode_def a2b_init_def a2b_sextet_def b64_value_def b64_char_def b64_alphabet_def
  is_ascii_def

section \<open>Sextets and the alphabet\<close>

lemma length_b64_alphabet [simp]: "length b64_alphabet = 64"
  by (simp add: b64_alphabet_def)

lemma distinct_b64_alphabet: "distinct b64_alphabet"
  by (simp add: b64_alphabet_def)

lemma pad_not_in_alphabet: "CHR ''='' \<notin> set b64_alphabet"
  by (simp add: b64_alphabet_def)

lemma b64_alphabet_ascii: "c \<in> set b64_alphabet \<Longrightarrow> is_ascii c"
  by (auto simp: b64_alphabet_def is_ascii_def)

lemma b64_char_in_alphabet: "v < 64 \<Longrightarrow> b64_char v \<in> set b64_alphabet"
  by (simp add: b64_char_def word_less_nat_alt)

lemma b64_value_b64_char:
  assumes "v < 64"
  shows "b64_value (b64_char v) = Some v"
proof -
  from assms have n: "unat v < 64" by (simp add: word_less_nat_alt)
  then have "map_of (zip b64_alphabet (map word_of_nat [0 ..< 64])) (b64_alphabet ! unat v)
      = Some (map word_of_nat [0 ..< 64] ! unat v)"
    by (intro map_of_zip_nth) (simp_all add: distinct_b64_alphabet)
  also from n have "map word_of_nat [0 ..< 64] ! unat v = (word_of_nat (unat v) :: byte)"
    by (simp only: nth_map length_upt nth_upt) simp
  finally show ?thesis by (simp add: b64_value_def b64_char_def)
qed

lemma b64_char_not_pad: "v < 64 \<Longrightarrow> b64_char v \<noteq> CHR ''=''"
  using b64_char_in_alphabet [of v] pad_not_in_alphabet by auto

section \<open>Splitting bytes into sextets and back\<close>

lemma sextet_lessI:
  assumes "take_bit 6 (v :: byte) = v"
  shows "v < 64"
proof -
  have "unat (take_bit 6 v) = take_bit 6 (unat v)"
    by (simp add: unsigned_take_bit_eq)
  also have "\<dots> < 2 ^ 6" by (rule take_bit_nat_less_exp)
  finally show ?thesis using assms by (simp add: word_less_nat_alt)
qed

lemma and_masks:
  fixes a :: byte
  shows "a AND 0x03 = take_bit 2 a" and "a AND 0x0f = take_bit 4 a"
    and "a AND 0x3f = take_bit 6 a"
  by (simp_all add: take_bit_eq_mask mask_eq_exp_minus_1)

lemma add_diff_max: "m + (n - m) = max m (n :: nat)" "Suc (Suc (n - 2)) = max 2 n"
  by simp_all

lemmas byte_bit_simps = bit_simps add_diff_max max_def

text \<open>The four sextets of the encoder are below 64.\<close>

lemma sextet_bounds [simp]:
  fixes a b c :: byte
  shows "drop_bit 2 a < 64"
    and "push_bit 4 (a AND 0x03) < 64"
    and "push_bit 4 (a AND 0x03) OR drop_bit 4 b < 64"
    and "push_bit 2 (b AND 0x0f) < 64"
    and "push_bit 2 (b AND 0x0f) OR drop_bit 6 c < 64"
    and "c AND 0x3f < 64"
  unfolding and_masks
  by (rule sextet_lessI, rule bit_word_eqI, auto simp: byte_bit_simps dest: bit_imp_le_length)+

text \<open>
  The decoder's recombination of the sextets gives the bytes back: a full group,
  and the groups of one and of two bytes that end in padding.
\<close>

lemma b64_bytes:
  fixes a b c :: byte
  shows "push_bit 2 (drop_bit 2 a) OR drop_bit 4 (push_bit 4 (a AND 0x03) OR drop_bit 4 b) = a"
    and "push_bit 4 ((push_bit 4 (a AND 0x03) OR drop_bit 4 b) AND 0x0f)
           OR drop_bit 2 (push_bit 2 (b AND 0x0f) OR drop_bit 6 c) = b"
    and "push_bit 6 ((push_bit 2 (b AND 0x0f) OR drop_bit 6 c) AND 0x03) OR (c AND 0x3f) = c"
    and "push_bit 2 (drop_bit 2 a) OR drop_bit 4 (push_bit 4 (a AND 0x03)) = a"
    and "push_bit 4 ((push_bit 4 (a AND 0x03) OR drop_bit 4 b) AND 0x0f)
           OR drop_bit 2 (push_bit 2 (b AND 0x0f)) = b"
  unfolding and_masks
  by (rule bit_word_eqI, auto simp: byte_bit_simps dest: bit_imp_le_length)+

section \<open>The loop on encoded text\<close>

lemma a2b_loop_sextet:
  assumes "v < 64"
  shows "a2b_loop st (b64_char v # cs) = a2b_loop (a2b_sextet st v) cs"
  using assms by (simp add: b64_char_not_pad b64_value_b64_char)

definition quad_start :: "byte list \<Rightarrow> a2b_state" where
  "quad_start acc = \<lparr>quad_pos = 0, leftchar = 0, pads = 0, bin_data = acc\<rparr>"

lemma a2b_init_quad_start: "a2b_init = quad_start []"
  by (simp add: a2b_init_def quad_start_def)

text \<open>The four positions of a sextet in its group.\<close>

lemma a2b_sextet_steps:
  "a2b_sextet (quad_start acc) s = \<lparr>quad_pos = 1, leftchar = s, pads = 0, bin_data = acc\<rparr>"
  "a2b_sextet \<lparr>quad_pos = 1, leftchar = l, pads = p, bin_data = acc\<rparr> s =
     \<lparr>quad_pos = 2, leftchar = s AND 0x0f, pads = 0,
      bin_data = acc @ [push_bit 2 l OR drop_bit 4 s]\<rparr>"
  "a2b_sextet \<lparr>quad_pos = 2, leftchar = l, pads = p, bin_data = acc\<rparr> s =
     \<lparr>quad_pos = 3, leftchar = s AND 0x03, pads = 0,
      bin_data = acc @ [push_bit 4 l OR drop_bit 2 s]\<rparr>"
  "a2b_sextet \<lparr>quad_pos = 3, leftchar = l, pads = p, bin_data = acc\<rparr> s =
     quad_start (acc @ [push_bit 6 l OR s])"
  by (simp_all add: quad_start_def a2b_sextet_def)

text \<open>Padding ends the input once it completes the group.\<close>

lemma a2b_loop_padding:
  "a2b_loop \<lparr>quad_pos = 2, leftchar = l, pads = 0, bin_data = bs\<rparr> (CHR ''='' # CHR ''='' # cs)
     = Return bs"
  "a2b_loop \<lparr>quad_pos = 3, leftchar = l, pads = 0, bin_data = bs\<rparr> (CHR ''='' # cs)
     = Return bs"
  by simp_all

lemmas a2b_group =
  b64encode.simps append_Cons append_Nil a2b_loop_sextet sextet_bounds
  a2b_sextet_steps a2b_loop_padding b64_bytes append_assoc

lemma a2b_loop_encoded:
  "a2b_loop (quad_start acc) (b64encode bs) = Return (acc @ bs)"
proof (induction bs arbitrary: acc rule: b64encode.induct)
  case 1
  show ?case by (simp add: quad_start_def)
next
  case (2 a)
  show ?case by (simp only: a2b_group)
next
  case (3 a b)
  show ?case by (simp only: a2b_group)
next
  case (4 a b c rest)
  have "a2b_loop (quad_start acc) (b64encode (a # b # c # rest))
      = a2b_loop (quad_start (acc @ [a, b, c])) (b64encode rest)"
    by (simp only: a2b_group)
  with 4 [of "acc @ [a, b, c]"] show ?case by simp
qed

lemma b64_char_ascii: "v < 64 \<Longrightarrow> is_ascii (b64_char v)"
  by (simp add: b64_alphabet_ascii b64_char_in_alphabet)

lemma pad_ascii: "is_ascii CHR ''=''"
  by (simp add: is_ascii_def)

lemma b64encode_ascii: "list_all is_ascii (b64encode bs)"
  by (induction bs rule: b64encode.induct)
    (simp_all only: b64encode.simps list.pred_inject list_all_append append_Cons append_Nil
      b64_char_ascii sextet_bounds pad_ascii simp_thms)

lemma length_b64encode: "length (b64encode bs) = 4 * ((length bs + 2) div 3)"
proof (induction bs rule: b64encode.induct)
  case (4 a b c rest)
  have "(length rest + 5) div 3 = Suc ((length rest + 2) div 3)" by presburger
  with 4 show ?case by (simp add: add.commute)
qed simp_all

section \<open>Round trip\<close>

text \<open>
  C6: Decoding inverts encoding: for every list of bytes, \<open>b64decode\<close> applied to
  its standard base64 text, padding included, returns exactly these bytes and
  raises nothing.
\<close>

theorem b64decode_b64encode: "b64decode (b64encode bs) = Return bs"
  using a2b_loop_encoded [of "[]" bs]
  by (simp add: b64decode_def b64encode_ascii a2b_init_quad_start)

end
