(* ===== verification/Persist.thy ===== *)
theory Persist
  imports Py_Path Py_Base64 "HOL-Library.AList"
begin

text \<open>
  The file persister: \<open>VeniceImageGenerator.save_image\<close>. The world it acts on
  is a finite file system, an association list from normalised path strings to
  nodes, and the two output streams. \<open>Path(p).exists()\<close> looks the normal form
  of \<open>p\<close> up; \<open>open(p, 'wb')\<close> followed by \<open>write\<close> stores a file under it when
  the parent directory is there. Paths are compared as strings: \<open>..\<close>, symbolic
  links and permissions are not interpreted, and a write that fails half way is
  not modelled. The lemmas show that the collision loop ends at a free name, that
  saving changes no existing node, what is written after \<open>k\<close> collisions, and
  that a name without directory part is always saved in an existing current
  directory.
\<close>

section \<open>The world\<close>

datatype node = File "byte list" | Dir

type_synonym filesystem = "(string \<times> node) list"

record world =
  files :: filesystem
  stdout :: "string list"
  stderr :: "string list"

definition path_exists :: "filesystem \<Rightarrow> string \<Rightarrow> bool" where
  "path_exists fs p \<longleftrightarrow> map_of fs (path_str p) \<noteq> None"

definition path_parent :: "string \<Rightarrow> string" where
  "path_parent p =
     (let ps = butlast (path_parts p); r = path_root p in
      if r = [] \<and> ps = [] then ''.'' else r @ str_join (CHR ''/'') ps)"

text \<open>
  \<open>open(filename, 'wb')\<close> and the write of the whole data: an \<open>OSError\<close> when
  the name ends in a slash or names a directory, or when its parent is no
  directory of the file system; otherwise the file holds exactly the data.
\<close>

definition write_file :: "filesystem \<Rightarrow> string \<Rightarrow> byte list \<Rightarrow> filesystem result" where
  "write_file fs filename data =
     (if filename = [] \<or> last filename = CHR ''/'' then Raise (OSError [])
      else if map_of fs (path_str filename) = Some Dir then Raise (OSError [])
      else if map_of fs (path_parent filename) \<noteq> Some Dir then Raise (OSError [])
      else Return (AList.update (path_str filename) (File data) fs))"

section \<open>Naming\<close>

definition initial_filename :: "string option \<Rightarrow> string \<Rightarrow> string \<Rightarrow> string" where
  "initial_filename output_path image_id format_ext =
     (case output_path of
        Some p \<Rightarrow> if p \<noteq> [] then p else image_id @ ''.'' @ format_ext
      | None \<Rightarrow> image_id @ ''.'' @ format_ext)"

definition candidate :: "string \<Rightarrow> nat \<Rightarrow> string" where
  "candidate original_filename counter =
     path_stem original_filename @ ''_'' @ str_nat counter @ path_suffix original_filename"

lemma candidate_inj: "candidate orig j = candidate orig k \<Longrightarrow> j = k"
  by (simp add: candidate_def)

lemma candidate_no_slash [simp]: "CHR ''/'' \<notin> set (candidate orig k)"
  by (auto simp: candidate_def dest: str_nat_digits simp: is_digit_def)

lemma candidate_not_trivial [simp]: "candidate orig k \<noteq> []" "candidate orig k \<noteq> ''.''"
proof -
  have "CHR ''_'' \<in> set (candidate orig k)" by (simp add: candidate_def)
  then show "candidate orig k \<noteq> []" "candidate orig k \<noteq> ''.''" by auto
qed

lemma last_candidate_not_slash [simp]: "last (candidate orig k) \<noteq> CHR ''/''"
proof -
  have "last (candidate orig k) \<in> set (candidate orig k)" by simp
  then show ?thesis by (metis candidate_no_slash)
qed

lemma path_parent_candidate [simp]: "path_parent (candidate orig k) = ''.''"
  by (simp add: path_parent_def path_parts_single path_root_no_slash)

lemma path_str_candidate [simp]: "path_str (candidate orig k) = candidate orig k"
  by (simp add: path_str_single)

lemma path_exists_candidate:
  "path_exists fs (candidate orig k) \<longleftrightarrow> candidate orig k \<in> fst ` set fs"
  by (simp add: path_exists_def map_of_eq_None_iff)

text \<open>Only finitely many candidate names are taken, since the file system is finite.\<close>

lemma finite_taken: "finite {k. path_exists fs (candidate orig k)}"
proof -
  have "inj (candidate orig)" by (auto simp: inj_def dest: candidate_inj)
  then have "finite (candidate orig -` (fst ` set fs))"
    by (simp add: finite_vimageI)
  moreover have "{k. path_exists fs (candidate orig k)} = candidate orig -` (fst ` set fs)"
    by (auto simp: path_exists_candidate)
  ultimately show ?thesis by simp
qed

definition taken_from :: "filesystem \<Rightarrow> string \<Rightarrow> nat \<Rightarrow> nat set" where
  "taken_from fs orig counter = {k. counter \<le> k \<and> path_exists fs (candidate orig k)}"

lemma finite_taken_from [simp]: "finite (taken_from fs orig counter)"
  unfolding taken_from_def by (rule finite_subset [OF _ finite_taken]) auto

lemma taken_from_Suc:
  "taken_from fs orig counter =
     (if path_exists fs (candidate orig counter) then {counter} else {})
     \<union> taken_from fs orig (Suc counter)"
proof -
  have "counter \<le> k \<longleftrightarrow> k = counter \<or> Suc counter \<le> k" for k
    by arith
  then show ?thesis by (auto simp: taken_from_def)
qed

lemma card_taken_from_Suc:
  "card (taken_from fs orig counter) =
     (if path_exists fs (candidate orig counter) then 1 else 0)
     + card (taken_from fs orig (Suc counter))"
proof -
  have "counter \<notin> taken_from fs orig (Suc counter)" by (simp add: taken_from_def)
  then show ?thesis by (subst taken_from_Suc) simp
qed

text \<open>
  The \<open>while\<close> loop of \<open>save_image\<close>, with its state \<open>(filename, counter)\<close>. It
  ends because every round moves past one taken candidate name.
\<close>

function find_free :: "filesystem \<Rightarrow> string \<Rightarrow> string \<Rightarrow> nat \<Rightarrow> string" where
  "find_free fs original_filename filename counter =
     (if path_exists fs filename
      then find_free fs original_filename (candidate original_filename counter) (counter + 1)
      else filename)"
  by pat_completeness auto
termination
proof (relation "measure (\<lambda>(fs, orig, filename, counter).
        card (taken_from fs orig counter) + (if path_exists fs filename then 1 else 0))",
    goal_cases)
  case 1
  show ?case by simp
next
  case (2 fs original_filename filename counter)
  then show ?case
    using card_taken_from_Suc [of fs original_filename counter] by simp
qed

declare find_free.simps [simp del]

section \<open>Saving\<close>

definition save_image ::
  "'a world_scheme \<Rightarrow> string \<Rightarrow> string option \<Rightarrow> string \<Rightarrow> string
     \<Rightarrow> string result \<times> 'a world_scheme" where
  "save_image w base64_data output_path image_id format_ext =
     (let original_filename = initial_filename output_path image_id format_ext;
          filename = find_free (files w) original_filename original_filename 1
      in case rbind (b64decode base64_data) (write_file (files w) filename) of
           Inr fs' \<Rightarrow> (Return filename, w\<lparr>files := fs'\<rparr>)
         | Inl e \<Rightarrow>
             (Raise (SystemExit 1),
              w\<lparr>stderr := stderr w @ [''Error saving image: '' @ exn_message e]\<rparr>))"

lemmas persist_defs [py_defs] =
  save_image_def write_file_def initial_filename_def candidate_def path_exists_def
  path_parent_def

section \<open>The collision loop\<close>

lemma find_free_fresh [simp]:
  "\<not> path_exists fs filename \<Longrightarrow> find_free fs orig filename counter = filename"
  by (subst find_free.simps) simp

lemma find_free_taken:
  "path_exists fs filename \<Longrightarrow>
   find_free fs orig filename counter = find_free fs orig (candidate orig counter) (Suc counter)"
  by (subst find_free.simps) simp

lemma find_free_not_exists: "\<not> path_exists fs (find_free fs orig filename counter)"
proof (induction fs orig filename counter rule: find_free.induct)
  case (1 fs orig filename counter)
  then show ?case by (cases "path_exists fs filename") (simp_all add: find_free_taken)
qed

text \<open>
  From a taken name the loop walks the candidates upwards and stops at the first
  one that is free.
\<close>

lemma find_free_first_free:
  assumes "\<forall>j. counter \<le> j \<and> j < k \<longrightarrow> path_exists fs (candidate orig j)"
    and "\<not> path_exists fs (candidate orig k)" and "counter \<le> k"
  shows "find_free fs orig (candidate orig counter) (Suc counter) = candidate orig k"
  using assms
proof (induction "k - counter" arbitrary: counter)
  case 0
  then have "counter = k" by simp
  with "0.prems"(2) show ?case by simp
next
  case (Suc d)
  then have lt: "counter < k" by simp
  with Suc.prems(1) have "path_exists fs (candidate orig counter)" by simp
  then have "find_free fs orig (candidate orig counter) (Suc counter)
      = find_free fs orig (candidate orig (Suc counter)) (Suc (Suc counter))"
    by (rule find_free_taken)
  also have "\<dots> = candidate orig k"
  proof (rule Suc.hyps(1))
    show "d = k - Suc counter" using Suc.hyps(2) by simp
    show "\<forall>j. Suc counter \<le> j \<and> j < k \<longrightarrow> path_exists fs (candidate orig j)"
      using Suc.prems(1) by simp
    show "\<not> path_exists fs (candidate orig k)" by (rule Suc.prems(2))
    show "Suc counter \<le> k" using lt by simp
  qed
  finally show ?case .
qed

lemma find_free_cases:
  "find_free fs orig filename counter = filename
   \<or> (\<exists>k \<ge> counter. find_free fs orig filename counter = candidate orig k)"
proof (induction fs orig filename counter rule: find_free.induct)
  case (1 fs orig filename counter)
  show ?case
  proof (cases "path_exists fs filename")
    case True
    with "1.IH" have "find_free fs orig (candidate orig counter) (counter + 1) = candidate orig counter
      \<or> (\<exists>k \<ge> counter + 1. find_free fs orig (candidate orig counter) (counter + 1) = candidate orig k)"
      by simp
    then have "\<exists>k \<ge> counter. find_free fs orig (candidate orig counter) (Suc counter) = candidate orig k"
      by (auto intro: exI [of _ counter] Suc_leD)
    with True show ?thesis by (simp add: find_free_taken)
  qed simp
qed

section \<open>Writing\<close>

lemma write_file_lookup:
  assumes "write_file fs filename data = Return fs'"
  shows "map_of fs' = (map_of fs)(path_str filename \<mapsto> File data)"
  using assms by (auto simp: write_file_def update_conv split: if_splits)

lemma write_file_keeps_others:
  assumes "write_file fs filename data = Return fs'" and "\<not> path_exists fs filename"
    and "map_of fs p = Some n"
  shows "map_of fs' p = Some n"
proof -
  from assms(2,3) have "p \<noteq> path_str filename" by (auto simp: path_exists_def)
  with assms(1,3) show ?thesis by (simp add: write_file_lookup)
qed

lemma write_file_raises: "write_file fs filename data = Raise e \<Longrightarrow> e = OSError []"
  by (auto simp: write_file_def split: if_splits)

lemma b64decode_raises: "b64decode s = Raise e \<Longrightarrow> e = ValueError []"
proof -
  have "a2b_loop st cs = Raise e \<Longrightarrow> e = ValueError []" for st cs
    by (induction st cs rule: a2b_loop.induct) (auto split: if_splits option.splits)
  then show "b64decode s = Raise e \<Longrightarrow> e = ValueError []"
    by (auto simp: b64decode_def split: if_splits)
qed

section \<open>save_image\<close>

lemma save_image_success:
  assumes "b64decode base64_data = Return data"
    and "write_file (files w)
           (find_free (files w) (initial_filename output_path image_id format_ext)
              (initial_filename output_path image_id format_ext) 1) data = Return fs'"
  shows "save_image w base64_data output_path image_id format_ext =
     (Return (find_free (files w) (initial_filename output_path image_id format_ext)
                (initial_filename output_path image_id format_ext) 1),
      w\<lparr>files := fs'\<rparr>)"
  using assms by (simp add: save_image_def Let_def)

lemma save_image_cases:
  obtains (saved) filename data fs' where
      "save_image w base64_data output_path image_id format_ext = (Return filename, w\<lparr>files := fs'\<rparr>)"
      "filename = find_free (files w) (initial_filename output_path image_id format_ext)
                    (initial_filename output_path image_id format_ext) 1"
      "b64decode base64_data = Return data"
      "write_file (files w) filename data = Return fs'"
  | (failed) e where
      "save_image w base64_data output_path image_id format_ext =
         (Raise (SystemExit 1), w\<lparr>stderr := stderr w @ [''Error saving image: '' @ exn_message e]\<rparr>)"
      "e = ValueError [] \<or> e = OSError []"
proof (cases "b64decode base64_data")
  case (Inl e)
  then have "e = ValueError []" by (rule b64decode_raises)
  with Inl show ?thesis by (intro failed [of e]) (simp_all add: save_image_def Let_def)
next
  case (Inr data)
  let ?fn = "find_free (files w) (initial_filename output_path image_id format_ext)
               (initial_filename output_path image_id format_ext) 1"
  show ?thesis
  proof (cases "write_file (files w) ?fn data")
    case (Inl e)
    then have "e = OSError []" by (rule write_file_raises)
    with Inl Inr show ?thesis by (intro failed [of e]) (simp_all add: save_image_def Let_def)
  next
    case (Inr fs')
    with \<open>b64decode base64_data = Return data\<close> show ?thesis
      by (intro saved [of ?fn fs' data]) (simp_all add: save_image_def Let_def)
  qed
qed

text \<open>What \<open>save_image\<close> leaves alone, and how it can end.\<close>

lemma save_image_preserves:
  assumes "map_of (files w) p = Some n"
  shows "map_of (files (snd (save_image w base64_data output_path image_id format_ext))) p = Some n"
proof (rule save_image_cases [of w base64_data output_path image_id format_ext], goal_cases)
  case saved: (1 filename data fs')
  from saved(2) have "\<not> path_exists (files w) filename"
    by (simp add: find_free_not_exists)
  with saved(4) have "map_of fs' p = Some n" using assms by (rule write_file_keeps_others)
  with saved(1) show ?thesis by simp
next
  case failed: (2 e)
  with assms show ?thesis by simp
qed

lemma stdout_save_image [simp]:
  "stdout (snd (save_image w base64_data output_path image_id format_ext)) = stdout w"
  by (rule save_image_cases [of w base64_data output_path image_id format_ext]) simp_all

lemma save_image_raises:
  "fst (save_image w base64_data output_path image_id format_ext) = Raise e \<Longrightarrow> e = SystemExit 1"
  by (rule save_image_cases [of w base64_data output_path image_id format_ext]) simp_all

section \<open>Properties of the persister\<close>

definition example_world :: world where
  "example_world =
     \<lparr>files = [(''.'', Dir), (''out'', Dir), (''out/cat.png'', File []),
               (''cat.png'', File [1]), (''cat_1.png'', File [2])],
      stdout = [], stderr = []\<rparr>"

text \<open>
  C2: Whatever it is asked to save and under whatever name, \<open>save_image\<close> leaves
  every node that the file system already holds as it was: no existing file is
  overwritten or removed.
\<close>

theorem save_image_never_overwrites:
  assumes "map_of (files w) p = Some n"
  shows "map_of (files (snd (save_image w base64_data output_path image_id format_ext))) p = Some n"
  using assms by (rule save_image_preserves)

theorem save_image_never_overwrites_witness:
  "map_of (files example_world) ''cat.png'' = Some (File [1])
   \<and> map_of (files (snd (save_image example_world ''aGk='' (Some ''cat.png'') ''img'' ''png'')))
         ''cat.png'' = Some (File [1])"
proof -
  have 1: "map_of (files example_world) ''cat.png'' = Some (File [1])"
    by (simp add: example_world_def)
  from 1 save_image_never_overwrites [OF 1] show ?thesis by simp
qed

text \<open>
  C18: When the wanted name is taken, and so are its variants \<open>_1\<close> to \<open>_(k-1)\<close>,
  while the variant \<open>_k\<close> is free, the image is written under the variant
  \<open>_k\<close> (stem, underscore, \<open>k\<close>, suffix), provided the data decodes and the
  current directory is there: \<open>_1\<close> after one collision, \<open>_2\<close> after two.
\<close>

theorem save_image_collision_suffix:
  assumes "path_exists (files w) (initial_filename output_path image_id format_ext)"
    and "\<forall>j. 1 \<le> j \<and> j < k \<longrightarrow>
           path_exists (files w) (candidate (initial_filename output_path image_id format_ext) j)"
    and "\<not> path_exists (files w) (candidate (initial_filename output_path image_id format_ext) k)"
    and "1 \<le> k"
    and "b64decode base64_data = Return data"
    and "map_of (files w) ''.'' = Some Dir"
  shows "save_image w base64_data output_path image_id format_ext =
     (Return (candidate (initial_filename output_path image_id format_ext) k),
      w\<lparr>files := AList.update (candidate (initial_filename output_path image_id format_ext) k)
                       (File data) (files w)\<rparr>)"
proof -
  let ?orig = "initial_filename output_path image_id format_ext"
  have ff: "find_free (files w) ?orig ?orig 1 = candidate ?orig k"
    using find_free_first_free [of 1 k "files w" ?orig] assms(1-4)
    by (simp add: find_free_taken)
  from assms(3,6) have "write_file (files w) (candidate ?orig k) data =
      Return (AList.update (candidate ?orig k) (File data) (files w))"
    by (simp add: write_file_def path_exists_def)
  with assms(5) ff show ?thesis
    using save_image_success [of base64_data data w output_path image_id format_ext] by simp
qed

theorem save_image_collision_suffix_witness:
  "save_image example_world ''aGk='' (Some ''cat.png'') ''img'' ''png'' =
     (Return ''cat_2.png'',
      example_world\<lparr>files := files example_world @ [(''cat_2.png'', File [104, 105])]\<rparr>)"
proof -
  have orig: "initial_filename (Some ''cat.png'') ''img'' ''png'' = ''cat.png''"
    by (simp add: initial_filename_def)
  have c: "candidate ''cat.png'' 1 = ''cat_1.png''" "candidate ''cat.png'' 2 = ''cat_2.png''"
    by code_simp+
  have 1: "path_exists (files example_world) (initial_filename (Some ''cat.png'') ''img'' ''png'')"
    unfolding orig by code_simp
  have 2: "\<forall>j. 1 \<le> j \<and> j < 2 \<longrightarrow>
      path_exists (files example_world)
        (candidate (initial_filename (Some ''cat.png'') ''img'' ''png'') j)"
  proof (intro allI impI)
    fix j :: nat assume "1 \<le> j \<and> j < 2"
    then have "j = 1" by simp
    then have "candidate ''cat.png'' j = ''cat_1.png''" by (simp only: c(1))
    then show "path_exists (files example_world)
        (candidate (initial_filename (Some ''cat.png'') ''img'' ''png'') j)"
      unfolding orig by (simp add: path_exists_def path_str_single example_world_def)
  qed
  have 3: "\<not> path_exists (files example_world)
      (candidate (initial_filename (Some ''cat.png'') ''img'' ''png'') 2)"
    unfolding orig by (simp add: c path_exists_def path_str_single example_world_def)
  have 4: "b64decode ''aGk='' = Return [104, 105]" by code_simp
  have 5: "map_of (files example_world) ''.'' = Some Dir"
    by (simp add: example_world_def)
  from save_image_collision_suffix [OF 1 2 3 _ 4 5] show ?thesis
    unfolding orig by (simp add: c example_world_def)
qed

text \<open>
  C10: The collision loop ends for every file system and every wanted name, and
  the name it returns does not exist; it is the wanted name itself or one of its
  numbered variants, numbered from the counter on.
\<close>

theorem find_free_returns_free_name:
  "\<not> path_exists fs (find_free fs orig filename counter)
   \<and> (find_free fs orig filename counter = filename
      \<or> (\<exists>k \<ge> counter. find_free fs orig filename counter = candidate orig k))"
  using find_free_not_exists [of fs orig filename counter]
    find_free_cases [of fs orig filename counter] by simp

text \<open>
  C30: When the base64 data does not decode, nothing is written: the file system
  and the standard output are unchanged, one line \<open>Error saving image: \<close> goes to
  the standard error, and the call ends in \<open>sys.exit(1)\<close>.
\<close>

theorem save_image_decode_failure:
  assumes "b64decode base64_data = Raise e"
  shows "save_image w base64_data output_path image_id format_ext =
     (Raise (SystemExit 1), w\<lparr>stderr := stderr w @ [''Error saving image: '']\<rparr>)"
proof -
  from assms have "e = ValueError []" by (rule b64decode_raises)
  with assms show ?thesis by (simp add: save_image_def Let_def exn_message_def)
qed

theorem save_image_decode_failure_witness:
  "b64decode ''aGk'' = Raise (ValueError [])
   \<and> save_image example_world ''aGk'' None ''img'' ''png'' =
     (Raise (SystemExit 1), example_world\<lparr>stderr := [''Error saving image: '']\<rparr>)"
proof -
  have 1: "b64decode ''aGk'' = Raise (ValueError [])" by code_simp
  from 1 save_image_decode_failure [OF 1, of example_world None "''img''" "''png''"]
  show ?thesis by (simp add: example_world_def)
qed

text \<open>
  C37: When the wanted name is taken, the name that \<open>save_image\<close> writes to holds
  no slash: the replacement is built from the stem and the suffix of the final
  component alone, so a file wanted in a directory is written to the current
  directory instead.
\<close>

theorem save_image_collision_drops_directory:
  assumes "path_exists (files w) (initial_filename output_path image_id format_ext)"
    and "fst (save_image w base64_data output_path image_id format_ext) = Return filename"
  shows "CHR ''/'' \<notin> set filename"
proof (rule save_image_cases [of w base64_data output_path image_id format_ext], goal_cases)
  case saved: (1 filename' data fs')
  let ?orig = "initial_filename output_path image_id format_ext"
  from saved(1) assms(2) have "filename = filename'" by simp
  moreover from saved(2) assms(1)
  have "filename' = find_free (files w) ?orig (candidate ?orig 1) (Suc 1)"
    by (simp add: find_free_taken)
  moreover have "find_free (files w) ?orig (candidate ?orig 1) (Suc 1) = candidate ?orig 1
      \<or> (\<exists>k \<ge> Suc 1. find_free (files w) ?orig (candidate ?orig 1) (Suc 1) = candidate ?orig k)"
    by (rule find_free_cases)
  ultimately show ?thesis by auto
next
  case failed: (2 e)
  with assms(2) show ?thesis by simp
qed

theorem save_image_collision_drops_directory_witness:
  "path_exists (files example_world) (initial_filename (Some ''out/cat.png'') ''img'' ''png'')
   \<and> fst (save_image example_world ''aGk='' (Some ''out/cat.png'') ''img'' ''png'')
       = Return ''cat_2.png''
   \<and> CHR ''/'' \<notin> set ''cat_2.png''"
proof -
  have 1: "path_exists (files example_world)
      (initial_filename (Some ''out/cat.png'') ''img'' ''png'')"
    by code_simp
  have 2: "fst (save_image example_world ''aGk='' (Some ''out/cat.png'') ''img'' ''png'')
      = Return ''cat_2.png''"
    by code_simp
  from 1 2 save_image_collision_drops_directory [OF 1 2] show ?thesis by simp
qed

text \<open>
  What is saved is what was encoded: when the wanted name is free, does not
  end in a slash and lies in an existing directory, \<open>save_image\<close> on the base64
  text of a list of bytes returns the wanted name, and afterwards the file of
  that name holds exactly these bytes.
\<close>

theorem save_image_stores_bytes:
  assumes "fn = initial_filename output_path image_id format_ext"
    and "\<not> path_exists (files w) fn"
    and "fn \<noteq> []" and "last fn \<noteq> CHR ''/''"
    and "map_of (files w) (path_parent fn) = Some Dir"
  shows "fst (save_image w (b64encode bs) output_path image_id format_ext) = Return fn
     \<and> map_of (files (snd (save_image w (b64encode bs) output_path image_id format_ext)))
         (path_str fn) = Some (File bs)"
proof -
  from assms(2-5) have "write_file (files w) fn bs
      = Return (AList.update (path_str fn) (File bs) (files w))"
    by (simp add: write_file_def path_exists_def)
  with assms(1,2) show ?thesis
    using save_image_success [of "b64encode bs" bs w output_path image_id format_ext]
    by (simp add: b64decode_b64encode update_conv)
qed

theorem save_image_stores_bytes_witness:
  "fst (save_image example_world (b64encode [104, 105]) (Some ''out/dog.png'') ''img'' ''png'')
     = Return ''out/dog.png''
   \<and> map_of (files (snd (save_image example_world (b64encode [104, 105]) (Some ''out/dog.png'')
                          ''img'' ''png''))) ''out/dog.png'' = Some (File [104, 105])"
proof -
  have 1: "''out/dog.png'' = initial_filename (Some ''out/dog.png'') ''img'' ''png''"
    by (simp add: initial_filename_def)
  have p: "path_str ''out/dog.png'' = ''out/dog.png''" "path_parent ''out/dog.png'' = ''out''"
    by code_simp+
  have 2: "\<not> path_exists (files example_world) ''out/dog.png''"
    by (simp add: path_exists_def p example_world_def)
  have 5: "map_of (files example_world) (path_parent ''out/dog.png'') = Some Dir"
    by (simp add: p example_world_def)
  from save_image_stores_bytes [OF 1 2 _ _ 5, of "[104, 105]"] show ?thesis
    by (simp add: p)
qed

section \<open>Saving into the current directory\<close>

lemma initial_filename_nonempty [simp]: "initial_filename output_path image_id format_ext \<noteq> []"
  by (simp add: initial_filename_def split: option.splits)

lemma path_parent_single:
  assumes "CHR ''/'' \<notin> set c" and "c \<noteq> []" and "c \<noteq> ''.''"
  shows "path_parent c = ''.''"
  using assms by (simp add: path_parent_def path_parts_single path_root_no_slash)

lemma write_file_single:
  assumes "CHR ''/'' \<notin> set c" and "c \<noteq> []" and "map_of fs ''.'' = Some Dir"
    and "\<not> path_exists fs c"
  shows "write_file fs c data = Return (AList.update c (File data) fs)" and "path_str c = c"
proof -
  from assms(3,4) have "c \<noteq> ''.''" by (auto simp: path_exists_def path_str_def path_defs)
  with assms(1,2) have p: "path_str c = c" "path_parent c = ''.''"
    by (simp_all add: path_str_single path_parent_single)
  from assms(1,2) have "last c \<noteq> CHR ''/''" by (metis last_in_set)
  with assms p show "write_file fs c data = Return (AList.update c (File data) fs)"
    by (simp add: write_file_def path_exists_def)
  show "path_str c = c" by (rule p)
qed

text \<open>
  A name without a directory part can always be saved when the current
  directory is there: the loop finds a free name, and the write succeeds.
\<close>

lemma save_image_in_cwd:
  assumes "map_of (files w) ''.'' = Some Dir"
    and "CHR ''/'' \<notin> set (initial_filename output_path image_id format_ext)"
    and "b64decode base64_data = Return data"
  obtains filename where
    "save_image w base64_data output_path image_id format_ext =
       (Return filename, w\<lparr>files := AList.update filename (File data) (files w)\<rparr>)"
    "\<not> path_exists (files w) filename" "path_str filename = filename"
proof -
  let ?orig = "initial_filename output_path image_id format_ext"
  let ?fn = "find_free (files w) ?orig ?orig 1"
  have free: "\<not> path_exists (files w) ?fn" by (rule find_free_not_exists)
  from find_free_cases [of "files w" ?orig ?orig 1]
  consider "?fn = ?orig" | k where "?fn = candidate ?orig k" by auto
  then have "CHR ''/'' \<notin> set ?fn \<and> ?fn \<noteq> []"
    using assms(2) by cases simp_all
  with assms(1) free
  have "write_file (files w) ?fn data = Return (AList.update ?fn (File data) (files w))"
    and "path_str ?fn = ?fn"
    by (simp_all add: write_file_single)
  with assms(3) free show ?thesis
    by (intro that [of ?fn]) (simp_all add: save_image_success)
qed

text \<open>
  C20: Saving succeeds whatever files are there already: when the current
  directory exists and the wanted name has no directory part, \<open>save_image\<close> on
  the base64 text of a list of bytes returns a name that was free before, and
  afterwards the file of that name holds exactly these bytes.
\<close>

theorem save_image_succeeds:
  assumes "map_of (files w) ''.'' = Some Dir"
    and "CHR ''/'' \<notin> set (initial_filename output_path image_id format_ext)"
  shows "\<exists>filename.
      fst (save_image w (b64encode bs) output_path image_id format_ext) = Return filename
    \<and> map_of (files w) filename = None
    \<and> map_of (files (snd (save_image w (b64encode bs) output_path image_id format_ext))) filename
        = Some (File bs)"
proof -
  from assms b64decode_b64encode [of bs] obtain filename where
    "save_image w (b64encode bs) output_path image_id format_ext =
       (Return filename, w\<lparr>files := AList.update filename (File bs) (files w)\<rparr>)"
    "\<not> path_exists (files w) filename" "path_str filename = filename"
    by (rule save_image_in_cwd)
  then show ?thesis by (intro exI [of _ filename]) (simp add: path_exists_def update_conv)
qed

theorem save_image_succeeds_witness:
  "\<exists>filename.
      fst (save_image example_world (b64encode [104, 105]) (Some ''cat.png'') ''img'' ''png'')
        = Return filename
    \<and> map_of (files example_world) filename = None
    \<and> map_of (files (snd (save_image example_world (b64encode [104, 105]) (Some ''cat.png'')
                           ''img'' ''png''))) filename = Some (File [104, 105])"
proof -
  have 1: "map_of (files example_world) ''.'' = Some Dir" by (simp add: example_world_def)
  have 2: "CHR ''/'' \<notin> set (initial_filename (Some ''cat.png'') ''img'' ''png'')"
    by (simp add: initial_filename_def)
  from save_image_succeeds [OF 1 2] show ?thesis .
qed

section \<open>The collision loop as a transition system\<close>

text \<open>
  The \<open>while\<close> loop of \<open>save_image\<close> once more, now as the machine that runs it:
  a state is the pair of the variables \<open>filename\<close> and \<open>counter\<close>, and one round
  of the loop is one step, enabled when the current name exists. The function
  \<open>find_free\<close> is shown to compute the state in which this machine stops.
\<close>

type_synonym loop_state = "string \<times> nat"

inductive loop_step :: "filesystem \<Rightarrow> string \<Rightarrow> loop_state \<Rightarrow> loop_state \<Rightarrow> bool"
  for fs :: filesystem and original_filename :: string where
  round: "path_exists fs filename \<Longrightarrow>
     loop_step fs original_filename (filename, counter)
       (candidate original_filename counter, counter + 1)"

inductive_cases loop_stepE [elim]: "loop_step fs orig (filename, counter) s'"

inductive_simps loop_step_iff: "loop_step fs orig (filename, counter) (filename', counter')"

code_pred loop_step .

abbreviation loop_steps :: "filesystem \<Rightarrow> string \<Rightarrow> loop_state \<Rightarrow> loop_state \<Rightarrow> bool" where
  "loop_steps fs orig \<equiv> (loop_step fs orig)\<^sup>*\<^sup>*"

text \<open>The states a run of \<open>save_image\<close> passes through.\<close>

inductive loop_reachable :: "filesystem \<Rightarrow> string \<Rightarrow> loop_state \<Rightarrow> bool"
  for fs :: filesystem and original_filename :: string where
  start: "loop_reachable fs original_filename (original_filename, 1)"
| step: "loop_reachable fs original_filename s \<Longrightarrow> loop_step fs original_filename s s'
     \<Longrightarrow> loop_reachable fs original_filename s'"

text \<open>
  What the loop keeps true of its variables: after the first round the name is
  the candidate of the round before, and every name tried so far exists.
\<close>

definition loop_inv :: "filesystem \<Rightarrow> string \<Rightarrow> loop_state \<Rightarrow> bool" where
  "loop_inv fs orig s \<longleftrightarrow>
     (case s of (filename, counter) \<Rightarrow>
        1 \<le> counter
        \<and> filename = (if counter = 1 then orig else candidate orig (counter - 1))
        \<and> (1 < counter \<longrightarrow> path_exists fs orig)
        \<and> (\<forall>j. 1 \<le> j \<and> j < counter - 1 \<longrightarrow> path_exists fs (candidate orig j)))"

lemma loop_step_deterministic:
  "loop_step fs orig s a \<Longrightarrow> loop_step fs orig s b \<Longrightarrow> a = b"
  by (auto elim!: loop_step.cases)

lemma loop_step_enabled: "(\<exists>s'. loop_step fs orig s s') \<longleftrightarrow> path_exists fs (fst s)"
  by (cases s) (auto intro: loop_step.intros)

lemma loop_inv_start [simp]: "loop_inv fs orig (orig, Suc 0)"
  by (simp add: loop_inv_def)

lemma loop_reachable_start [simp]: "loop_reachable fs orig (orig, Suc 0)"
  using loop_reachable.start [of fs orig] by simp

lemma loop_step_inv:
  assumes "loop_step fs orig s s'" and "loop_inv fs orig s"
  shows "loop_inv fs orig s'"
  using assms
proof (induction rule: loop_step.induct)
  case (round filename counter)
  then have "path_exists fs (candidate orig j)" if "1 \<le> j" "j < counter" for j
    using that by (cases "j = counter - 1") (auto simp: loop_inv_def split: if_splits)
  with round show ?case by (auto simp: loop_inv_def split: if_splits)
qed

lemma loop_reachable_inv: "loop_reachable fs orig s \<Longrightarrow> loop_inv fs orig s"
  by (induction rule: loop_reachable.induct) (auto intro: loop_step_inv)

lemma loop_reachable_steps:
  "loop_reachable fs orig s \<longleftrightarrow> loop_steps fs orig (orig, 1) s"
proof
  show "loop_reachable fs orig s \<Longrightarrow> loop_steps fs orig (orig, 1) s"
    by (induction rule: loop_reachable.induct) auto
  show "loop_steps fs orig (orig, 1) s \<Longrightarrow> loop_reachable fs orig s"
    by (induction rule: rtranclp_induct) (auto intro: loop_reachable.intros)
qed

text \<open>The function follows the machine, and the machine cannot leave its result.\<close>

lemma loop_steps_find_free:
  "\<exists>counter'. loop_steps fs orig (filename, counter) (find_free fs orig filename counter, counter')"
proof (induction fs orig filename counter rule: find_free.induct)
  case (1 fs orig filename counter)
  show ?case
  proof (cases "path_exists fs filename")
    case True
    with "1.IH" obtain c' where
      "loop_steps fs orig (candidate orig counter, counter + 1)
         (find_free fs orig (candidate orig counter) (counter + 1), c')"
      by blast
    moreover from True have "loop_step fs orig (filename, counter) (candidate orig counter, counter + 1)"
      by (rule loop_step.round)
    ultimately show ?thesis using True
      by (auto simp: find_free_taken [of fs filename orig counter]
          intro: converse_rtranclp_into_rtranclp)
  next
    case False
    then show ?thesis by auto
  qed
qed

lemma find_free_loop_step:
  assumes "loop_step fs orig (filename, counter) (filename', counter')"
  shows "find_free fs orig filename' counter' = find_free fs orig filename counter"
proof -
  from assms have "path_exists fs filename" and "filename' = candidate orig counter"
    and "counter' = Suc counter"
    by (simp_all add: loop_step_iff)
  then show ?thesis by (simp add: find_free_taken [of fs filename orig counter])
qed

lemma find_free_loop_steps:
  "loop_steps fs orig (filename, counter) (filename', counter') \<Longrightarrow>
   find_free fs orig filename' counter' = find_free fs orig filename counter"
  by (induction rule: rtranclp_induct2) (auto dest: find_free_loop_step)

text \<open>Every run is finite: a step uses up one taken candidate name.\<close>

definition loop_measure :: "filesystem \<Rightarrow> string \<Rightarrow> loop_state \<Rightarrow> nat" where
  "loop_measure fs orig s =
     card (taken_from fs orig (snd s)) + (if path_exists fs (fst s) then 1 else 0)"

lemma loop_step_measure:
  "loop_step fs orig s s' \<Longrightarrow> loop_measure fs orig s' < loop_measure fs orig s"
proof (induction rule: loop_step.induct)
  case (round filename counter)
  then show ?case
    using card_taken_from_Suc [of fs orig counter] by (simp add: loop_measure_def)
qed

lemma wfp_loop_step: "wfP (\<lambda>s' s. loop_step fs orig s s')"
  by (rule wfp_if_convertible_to_nat [of _ "loop_measure fs orig"]) (rule loop_step_measure)

text \<open>
  C9: \<open>find_free\<close> computes what the loop computes: a name is the one of a state
  in which the machine of the loop has stopped, reached from the state
  \<open>(filename, counter)\<close>, exactly when it is the value of \<open>find_free\<close>; and no run
  of the machine goes on for ever.
\<close>

theorem find_free_is_loop_result:
  "(((\<exists>counter'. loop_steps fs orig (filename, counter) (filename', counter'))
       \<and> \<not> path_exists fs filename')
      \<longleftrightarrow> filename' = find_free fs orig filename counter)
   \<and> wfP (\<lambda>s' s. loop_step fs orig s s')"
proof (rule conjI)
  show "((\<exists>counter'. loop_steps fs orig (filename, counter) (filename', counter'))
       \<and> \<not> path_exists fs filename')
      \<longleftrightarrow> filename' = find_free fs orig filename counter"
    using find_free_loop_steps [of fs orig filename counter filename']
      loop_steps_find_free [of fs orig filename counter]
      find_free_not_exists [of fs orig filename counter]
    by auto
  show "wfP (\<lambda>s' s. loop_step fs orig s s')" by (rule wfp_loop_step)
qed

text \<open>
  In every state that a run of \<open>save_image\<close> reaches after the first round, the
  current name is the variant numbered one below the counter, and the wanted name
  and all variants before the current one exist.
\<close>

lemma loop_reachable_first:
  assumes "loop_reachable fs orig (filename, counter)" and "1 < counter"
  shows "filename = candidate orig (counter - 1) \<and> path_exists fs orig
    \<and> (\<forall>j. 1 \<le> j \<and> j < counter - 1 \<longrightarrow> path_exists fs (candidate orig j))"
  using loop_reachable_inv [OF assms(1)] assms(2) by (simp add: loop_inv_def)

lemma find_free_reachable:
  "\<exists>counter. loop_reachable fs orig (find_free fs orig orig 1, counter)"
  using loop_steps_find_free [of fs orig orig 1] by (simp add: loop_reachable_steps)

text \<open>
  C19: The loop tries the names in order and skips none that is free: when
  \<open>save_image\<close> does not write to the wanted name, it writes to the variant
  \<open>_k\<close> with the least \<open>k\<close> that is free; the wanted name and the variants
  \<open>_1\<close> to \<open>_(k-1)\<close> all exist.
\<close>

theorem find_free_first:
  assumes "find_free fs orig orig 1 \<noteq> orig"
  shows "\<exists>k \<ge> 1. find_free fs orig orig 1 = candidate orig k
    \<and> path_exists fs orig
    \<and> (\<forall>j. 1 \<le> j \<and> j < k \<longrightarrow> path_exists fs (candidate orig j))
    \<and> \<not> path_exists fs (candidate orig k)"
proof -
  from find_free_reachable obtain counter where
    r: "loop_reachable fs orig (find_free fs orig orig 1, counter)" by blast
  from loop_reachable_inv [OF r] assms have "1 < counter"
    by (auto simp: loop_inv_def split: if_splits)
  from loop_reachable_first [OF r this] find_free_not_exists [of fs orig orig 1] \<open>1 < counter\<close>
  show ?thesis by (intro exI [of _ "counter - 1"]) auto
qed

theorem find_free_first_witness:
  "find_free (files example_world) ''cat.png'' ''cat.png'' 1 \<noteq> ''cat.png''
   \<and> (\<exists>k. 1 \<le> k
        \<and> find_free (files example_world) ''cat.png'' ''cat.png'' 1 = candidate ''cat.png'' k
        \<and> path_exists (files example_world) ''cat.png''
        \<and> \<not> path_exists (files example_world) (candidate ''cat.png'' k))"
proof -
  have 1: "find_free (files example_world) ''cat.png'' ''cat.png'' 1 \<noteq> ''cat.png''"
    by code_simp
  from 1 find_free_first [OF 1] show ?thesis by blast
qed

end
