(* ===== verification/Client.thy ===== *)
theory Client
  imports Request Persist
begin

text \<open>
  The API client: the class \<open>VeniceImageGenerator\<close> with its constructor and the
  methods \<open>list_models\<close> and \<open>generate_image\<close>. The network is a parameter: a
  \<open>transport\<close> answers a request with a response or fails to, and the world
  records every request that was attempted. The part of the \<open>requests\<close> library
  that the methods rely on is modelled as the library defines it: a response
  raises for a status from 400 to 599 and is falsy exactly then, and the
  exception of a failed decoding of the body is a \<open>RequestException\<close> that carries
  no response.
\<close>

section \<open>Requests, responses and the environment\<close>

datatype http_method = GET | POST

record http_request =
  req_method :: http_method
  req_url :: string
  req_headers :: "(string \<times> string) list"
  req_params :: "(string \<times> string) list"
  req_json :: "pydict option"

text \<open>
  A response as the program reads it. \<open>json_value\<close> is the result of
  \<open>response.json()\<close>: the decoded value, or the message of the decoding error.
\<close>

record http_response =
  status_code :: nat
  reason :: string
  resp_url :: string
  resp_text :: string
  json_value :: "string + pyval"

datatype reply = Unreachable string | Reply http_response

datatype request_exception =
  RequestException (message: string) (response: "http_response option")

text \<open>
  What the program takes from outside: the network, the text that \<open>repr\<close> gives
  to a float, and \<open>json.dumps\<close> with an indentation of 2.
\<close>

record pyenv =
  transport :: "http_request \<Rightarrow> reply"
  float_repr :: "pyfloat \<Rightarrow> string"
  json_dumps :: "pyval \<Rightarrow> string"

record net_world = world +
  sent :: "http_request list"

definition print_out :: "string \<Rightarrow> 'a world_scheme \<Rightarrow> 'a world_scheme" where
  "print_out line w = w\<lparr>stdout := stdout w @ [line]\<rparr>"

definition print_err :: "string \<Rightarrow> 'a world_scheme \<Rightarrow> 'a world_scheme" where
  "print_err line w = w\<lparr>stderr := stderr w @ [line]\<rparr>"

section \<open>The requests library\<close>

text \<open>\<open>requests.get\<close> and \<open>requests.post\<close>: one attempt, recorded in the world.\<close>

definition send ::
  "pyenv \<Rightarrow> http_request \<Rightarrow> 'a net_world_scheme
     \<Rightarrow> (request_exception + http_response) \<times> 'a net_world_scheme" where
  "send env rq w =
     (case transport env rq of
        Unreachable msg \<Rightarrow> Inl (RequestException msg None)
      | Reply r \<Rightarrow> Inr r,
      w\<lparr>sent := sent w @ [rq]\<rparr>)"

definition http_error_msg :: "http_response \<Rightarrow> string" where
  "http_error_msg r =
     (if 400 \<le> status_code r \<and> status_code r < 500
      then str_nat (status_code r) @ '' Client Error: '' @ reason r @ '' for url: '' @ resp_url r
      else if 500 \<le> status_code r \<and> status_code r < 600
      then str_nat (status_code r) @ '' Server Error: '' @ reason r @ '' for url: '' @ resp_url r
      else [])"

definition raise_for_status :: "http_response \<Rightarrow> request_exception option" where
  "raise_for_status r =
     (if http_error_msg r \<noteq> [] then Some (RequestException (http_error_msg r) (Some r))
      else None)"

text \<open>\<open>Response.__bool__\<close> is \<open>Response.ok\<close>: whether \<open>raise_for_status\<close> passes.\<close>

definition response_ok :: "http_response \<Rightarrow> bool" where
  "response_ok r \<longleftrightarrow> raise_for_status r = None"

definition response_json :: "http_response \<Rightarrow> request_exception + pyval" where
  "response_json r =
     (case json_value r of Inl msg \<Rightarrow> Inl (RequestException msg None) | Inr v \<Rightarrow> Inr v)"

section \<open>The client\<close>

definition BASE_URL :: string where
  "BASE_URL = ''https://api.venice.ai/api/v1''"

record client =
  api_key :: string
  headers :: "(string \<times> string) list"

definition VeniceImageGenerator :: "string \<Rightarrow> client" where
  "VeniceImageGenerator key =
     \<lparr>api_key = key,
      headers = [(''Authorization'', ''Bearer '' @ key), (''Content-Type'', ''application/json'')]\<rparr>"

text \<open>
  The three statements that open the \<open>try\<close> block of both methods: the request,
  \<open>raise_for_status\<close> and \<open>json\<close>.
\<close>

definition fetch ::
  "pyenv \<Rightarrow> http_request \<Rightarrow> 'a net_world_scheme
     \<Rightarrow> (request_exception + pyval) \<times> 'a net_world_scheme" where
  "fetch env rq w =
     (let (r, w') = send env rq w in
      (case r of
         Inl e \<Rightarrow> Inl e
       | Inr resp \<Rightarrow>
           (case raise_for_status resp of Some e \<Rightarrow> Inl e | None \<Rightarrow> response_json resp),
       w'))"

subsection \<open>\<open>list_models\<close>\<close>

text \<open>The body of the loop over the models, up to its \<open>print\<close>: the line to print.\<close>

definition model_line :: "pyenv \<Rightarrow> pyval \<Rightarrow> string result" where
  "model_line env model =
     rbind (val_get model ''id'' (PStr ''unknown'')) (\<lambda>model_id.
     rbind (val_get model ''model_spec'' (PDict [])) (\<lambda>model_spec.
     rbind (val_get model_spec ''traits'' (PList [])) (\<lambda>traits.
     rbind (if truthy traits
            then rbind (val_join '', '' traits) (\<lambda>joined. Return ('' ('' @ joined @ '')''))
            else Return [])
       (\<lambda>traits_str. Return (''  - '' @ py_str (float_repr env) model_id @ traits_str)))))"

fun print_models ::
  "pyenv \<Rightarrow> pyval list \<Rightarrow> 'a world_scheme \<Rightarrow> unit result \<times> 'a world_scheme" where
  "print_models env [] w = (Return (), w)"
| "print_models env (model # rest) w =
     (case model_line env model of
        Inl e \<Rightarrow> (Raise e, w)
      | Inr line \<Rightarrow> print_models env rest (print_out line w))"

text \<open>The arguments of the call \<open>requests.get(url, headers=self.headers, params=params)\<close>.\<close>

definition models_request :: "client \<Rightarrow> http_request" where
  "models_request self =
     \<lparr>req_method = GET, req_url = BASE_URL @ ''/models'', req_headers = headers self,
      req_params = [(''type'', ''image'')], req_json = None\<rparr>"

definition list_models ::
  "pyenv \<Rightarrow> client \<Rightarrow> bool \<Rightarrow> 'a net_world_scheme \<Rightarrow> unit result \<times> 'a net_world_scheme" where
  "list_models env self verbose w =
     (let (r, w1) = fetch env (models_request self) w
      in case r of
           Inl e \<Rightarrow> (Raise (SystemExit 1), print_err (''Error fetching models: '' @ message e) w1)
         | Inr data \<Rightarrow>
             if verbose then (Return (), print_out (json_dumps env data) w1)
             else
               (let w2 = print_out ''Available models:'' w1 in
                case rbind (val_get data ''data'' (PList [])) val_iter of
                  Inl e \<Rightarrow> (Raise e, w2)
                | Inr models \<Rightarrow> print_models env models w2))"

subsection \<open>\<open>generate_image\<close>\<close>

text \<open>
  The \<open>except\<close> block of \<open>generate_image\<close> before its \<open>sys.exit(1)\<close>. The test
  \<open>e.response\<close> is the truth value of the response, not its presence.
\<close>

definition report_error :: "pyenv \<Rightarrow> request_exception \<Rightarrow> 'a world_scheme \<Rightarrow> 'a world_scheme" where
  "report_error env e w =
     (let w1 = print_err (''Error generating image: '' @ message e) w in
      case response e of
        None \<Rightarrow> w1
      | Some r \<Rightarrow>
          if response_ok r then
            (case json_value r of
               Inr error_data \<Rightarrow> print_err (''API Error: '' @ py_str (float_repr env) error_data) w1
             | Inl _ \<Rightarrow> print_err (''Response: '' @ resp_text r) w1)
          else w1)"

text \<open>
  The arguments of the call \<open>requests.post(url, json=payload, headers=self.headers)\<close>,
  with the payload that the first half of the method built.
\<close>

definition image_request :: "client \<Rightarrow> string \<Rightarrow> string \<Rightarrow> pydict \<Rightarrow> http_request" where
  "image_request self prompt model kwargs =
     \<lparr>req_method = POST, req_url = BASE_URL @ ''/image/generate'',
      req_headers = headers self, req_params = [],
      req_json = Some (build_payload prompt model kwargs)\<rparr>"

definition generate_image ::
  "pyenv \<Rightarrow> client \<Rightarrow> string \<Rightarrow> string \<Rightarrow> pydict \<Rightarrow> 'a net_world_scheme
     \<Rightarrow> pyval result \<times> 'a net_world_scheme" where
  "generate_image env self prompt model kwargs w =
     (let (r, w1) = fetch env (image_request self prompt model kwargs) w
      in case r of
           Inr v \<Rightarrow> (Return v, w1)
         | Inl e \<Rightarrow> (Raise (SystemExit 1), report_error env e w1))"

lemmas client_defs [py_defs] =
  send_def http_error_msg_def raise_for_status_def response_ok_def response_json_def
  BASE_URL_def VeniceImageGenerator_def fetch_def model_line_def list_models_def
  report_error_def generate_image_def print_out_def print_err_def models_request_def
  image_request_def

section \<open>Output\<close>

lemma print_out_simps [simp]:
  "stdout (print_out line w) = stdout w @ [line]"
  "stderr (print_out line w) = stderr w"
  "files (print_out line w) = files w"
  by (simp_all add: print_out_def)

lemma print_err_simps [simp]:
  "stdout (print_err line w) = stdout w"
  "stderr (print_err line w) = stderr w @ [line]"
  "files (print_err line w) = files w"
  by (simp_all add: print_err_def)

lemma sent_print [simp]:
  "sent (print_out line w) = sent w" "sent (print_err line w) = sent w"
  by (simp_all add: print_out_def print_err_def)

section \<open>Status and truth value of a response\<close>

lemma http_error_msg_eq_Nil_iff:
  "http_error_msg r = [] \<longleftrightarrow> \<not> (400 \<le> status_code r \<and> status_code r < 600)"
  by (auto simp: http_error_msg_def)

lemma raise_for_status_None_iff:
  "raise_for_status r = None \<longleftrightarrow> status_code r < 400 \<or> 600 \<le> status_code r"
  by (auto simp: raise_for_status_def http_error_msg_eq_Nil_iff)

lemma raise_for_status_Some:
  "raise_for_status r = Some e \<Longrightarrow> e = RequestException (http_error_msg r) (Some r)"
  by (auto simp: raise_for_status_def split: if_splits)

lemma raise_for_status_error:
  "400 \<le> status_code r \<Longrightarrow> status_code r < 600 \<Longrightarrow>
   raise_for_status r = Some (RequestException (http_error_msg r) (Some r))"
  by (simp add: raise_for_status_def http_error_msg_eq_Nil_iff)

lemma response_ok_iff: "response_ok r \<longleftrightarrow> status_code r < 400 \<or> 600 \<le> status_code r"
  by (simp add: response_ok_def raise_for_status_None_iff)

text \<open>A response that made \<open>raise_for_status\<close> raise is falsy.\<close>

lemma raised_response_not_ok: "raise_for_status r = Some e \<Longrightarrow> \<not> response_ok r"
  by (simp add: response_ok_def)

section \<open>The request and the decoding\<close>

lemma snd_send [simp]: "snd (send env rq w) = w\<lparr>sent := sent w @ [rq]\<rparr>"
  by (simp add: send_def)

lemma snd_fetch [simp]: "snd (fetch env rq w) = w\<lparr>sent := sent w @ [rq]\<rparr>"
  by (simp add: fetch_def send_def split: prod.splits)

lemma fetch_eq:
  "fetch env rq w =
     (case transport env rq of
        Unreachable msg \<Rightarrow> Inl (RequestException msg None)
      | Reply resp \<Rightarrow>
          if 400 \<le> status_code resp \<and> status_code resp < 600
          then Inl (RequestException (http_error_msg resp) (Some resp))
          else response_json resp,
      w\<lparr>sent := sent w @ [rq]\<rparr>)"
  by (auto simp: fetch_def send_def raise_for_status_def http_error_msg_eq_Nil_iff
      split: reply.splits)

lemma fetch_cases:
  obtains (unreachable) msg where "transport env rq = Unreachable msg"
      "fst (fetch env rq w) = Inl (RequestException msg None)"
    | (status) resp where "transport env rq = Reply resp" "\<not> response_ok resp"
      "fst (fetch env rq w) = Inl (RequestException (http_error_msg resp) (Some resp))"
    | (undecodable) resp msg where "transport env rq = Reply resp" "response_ok resp"
      "json_value resp = Inl msg" "fst (fetch env rq w) = Inl (RequestException msg None)"
    | (decoded) resp v where "transport env rq = Reply resp" "response_ok resp"
      "json_value resp = Inr v" "fst (fetch env rq w) = Inr v"
proof (cases "transport env rq")
  case (Unreachable msg)
  then show ?thesis using unreachable by (simp add: fetch_eq)
next
  case (Reply resp)
  show ?thesis
  proof (cases "response_ok resp")
    case False
    with Reply show ?thesis using status [of resp]
      by (simp add: fetch_eq response_ok_iff)
  next
    case True
    with Reply show ?thesis using undecodable [of resp] decoded [of resp]
      by (cases "json_value resp") (auto simp: fetch_eq response_ok_iff response_json_def)
  qed
qed

text \<open>
  Every exception that the \<open>try\<close> block can raise carries no response or a
  response that is falsy.
\<close>

lemma fetch_exception_response:
  assumes "fst (fetch env rq w) = Inl e"
  shows "response e = None \<or> (\<exists>r. response e = Some r \<and> \<not> response_ok r)"
  using assms by (cases rule: fetch_cases [of env rq w]) auto

lemma report_error_no_body:
  assumes "response e = None \<or> (\<exists>r. response e = Some r \<and> \<not> response_ok r)"
  shows "report_error env e w = print_err (''Error generating image: '' @ message e) w"
  using assms by (auto simp: report_error_def)

section \<open>Properties of \<open>generate_image\<close>\<close>

lemma generate_image_eq:
  "generate_image env self prompt model kwargs w =
     (case fst (fetch env (image_request self prompt model kwargs) w) of
        Inr v \<Rightarrow> (Return v, w\<lparr>sent := sent w @ [image_request self prompt model kwargs]\<rparr>)
      | Inl e \<Rightarrow>
          (Raise (SystemExit 1),
           report_error env e (w\<lparr>sent := sent w @ [image_request self prompt model kwargs]\<rparr>)))"
proof -
  obtain r w1 where f: "fetch env (image_request self prompt model kwargs) w = (r, w1)"
    by (cases "fetch env (image_request self prompt model kwargs) w")
  with snd_fetch [of env "image_request self prompt model kwargs" w]
  have "w1 = w\<lparr>sent := sent w @ [image_request self prompt model kwargs]\<rparr>" by simp
  with f show ?thesis by (simp add: generate_image_def)
qed

lemma report_error_keeps [simp]:
  "sent (report_error env e w) = sent w"
  "stdout (report_error env e w) = stdout w"
  "files (report_error env e w) = files w"
  by (simp_all add: report_error_def Let_def split: option.splits sum.splits)

lemma generate_image_failure:
  assumes "fst (fetch env (image_request self prompt model kwargs) w) = Inl e"
  shows "generate_image env self prompt model kwargs w =
     (Raise (SystemExit 1),
      print_err (''Error generating image: '' @ message e)
        (w\<lparr>sent := sent w @ [image_request self prompt model kwargs]\<rparr>))"
  using assms fetch_exception_response [OF assms]
  by (simp add: generate_image_eq report_error_no_body)

text \<open>
  C5: Whatever the network does, \<open>generate_image\<close> attempts exactly one request,
  the POST of the payload, and then either returns the decoded answer without
  printing anything, or prints one line \<open>Error generating image:\<close> with the message
  of the exception to the standard error and ends in \<open>sys.exit(1)\<close>. The lines
  \<open>API Error:\<close> and \<open>Response:\<close> of its handler are never printed: the response of
  an HTTP error is falsy, and the other exceptions carry none.
\<close>

theorem generate_image_outcomes:
  "(\<exists>v. generate_image env self prompt model kwargs w =
       (Return v, w\<lparr>sent := sent w @ [image_request self prompt model kwargs]\<rparr>))
   \<or> (\<exists>msg. generate_image env self prompt model kwargs w =
       (Raise (SystemExit 1),
        print_err (''Error generating image: '' @ msg)
          (w\<lparr>sent := sent w @ [image_request self prompt model kwargs]\<rparr>)))"
proof (cases "fst (fetch env (image_request self prompt model kwargs) w)")
  case (Inl e)
  from generate_image_failure [OF this] show ?thesis by blast
next
  case (Inr v)
  then show ?thesis by (simp add: generate_image_eq)
qed

text \<open>
  When the server answers the request with a status outside 400..599 and a
  body that decodes, \<open>generate_image\<close> returns the decoded value and leaves the
  output streams and the files as they were.
\<close>

theorem generate_image_success:
  assumes "transport env (image_request self prompt model kwargs) = Reply resp"
    and "status_code resp < 400 \<or> 600 \<le> status_code resp"
    and "json_value resp = Inr v"
  shows "generate_image env self prompt model kwargs w =
     (Return v, w\<lparr>sent := sent w @ [image_request self prompt model kwargs]\<rparr>)"
  using assms by (auto simp: generate_image_eq fetch_eq response_json_def)

text \<open>
  C23: When the server answers with a status from 400 to 499, \<open>generate_image\<close>
  ends in \<open>sys.exit(1)\<close> after one line on the standard error:
  \<open>Error generating image:\<close>, the status, \<open>Client Error:\<close>, the reason and the URL.
  The body of the answer, which holds the error message of the API, is not
  shown.
\<close>

theorem generate_image_http_error:
  assumes "transport env (image_request self prompt model kwargs) = Reply resp"
    and "400 \<le> status_code resp" and "status_code resp < 500"
  shows "generate_image env self prompt model kwargs w =
     (Raise (SystemExit 1),
      w\<lparr>sent := sent w @ [image_request self prompt model kwargs],
        stderr := stderr w @
          [''Error generating image: '' @ str_nat (status_code resp) @ '' Client Error: ''
             @ reason resp @ '' for url: '' @ resp_url resp]\<rparr>)"
proof -
  from assms have "fst (fetch env (image_request self prompt model kwargs) w) =
      Inl (RequestException (http_error_msg resp) (Some resp))"
    by (simp add: fetch_eq)
  from generate_image_failure [OF this] assms(2,3) show ?thesis
    by (simp add: print_err_def http_error_msg_def)
qed

text \<open>
  C22: The one request of \<open>generate_image\<close> is a POST to
  \<open>https://api.venice.ai/api/v1/image/generate\<close> that carries the bearer token of
  the key and the content type in its headers and the payload of the request
  builder as its JSON body.
\<close>

theorem generate_image_request:
  "sent (snd (generate_image env (VeniceImageGenerator key) prompt model kwargs w)) =
     sent w @
       [\<lparr>req_method = POST, req_url = ''https://api.venice.ai/api/v1/image/generate'',
         req_headers = [(''Authorization'', ''Bearer '' @ key),
                        (''Content-Type'', ''application/json'')],
         req_params = [], req_json = Some (build_payload prompt model kwargs)\<rparr>]"
  by (simp add: generate_image_eq image_request_def VeniceImageGenerator_def BASE_URL_def
      split: sum.splits)

section \<open>Properties of \<open>list_models\<close>\<close>

lemma list_models_eq:
  "list_models env self verbose w =
     (case fst (fetch env (models_request self) w) of
        Inl e \<Rightarrow>
          (Raise (SystemExit 1),
           print_err (''Error fetching models: '' @ message e)
             (w\<lparr>sent := sent w @ [models_request self]\<rparr>))
      | Inr data \<Rightarrow>
          if verbose
          then (Return (),
                print_out (json_dumps env data) (w\<lparr>sent := sent w @ [models_request self]\<rparr>))
          else
            (case rbind (val_get data ''data'' (PList [])) val_iter of
               Inl e \<Rightarrow>
                 (Raise e,
                  print_out ''Available models:'' (w\<lparr>sent := sent w @ [models_request self]\<rparr>))
             | Inr models \<Rightarrow>
                 print_models env models
                   (print_out ''Available models:''
                      (w\<lparr>sent := sent w @ [models_request self]\<rparr>))))"
proof -
  obtain r w1 where f: "fetch env (models_request self) w = (r, w1)"
    by (cases "fetch env (models_request self) w")
  with snd_fetch [of env "models_request self" w]
  have "w1 = w\<lparr>sent := sent w @ [models_request self]\<rparr>" by simp
  with f show ?thesis by (cases r) (simp_all add: list_models_def Let_def)
qed

text \<open>A model entry as the API documents it, and the line that is printed for it.\<close>

definition describes :: "pyval \<Rightarrow> string \<Rightarrow> string list \<Rightarrow> bool" where
  "describes model mid traits \<longleftrightarrow>
     (\<exists>d sp. model = PDict d \<and> map_of d ''id'' = Some (PStr mid)
        \<and> map_of d ''model_spec'' = Some (PDict sp)
        \<and> map_of sp ''traits'' = Some (PList (map PStr traits)))"

definition entry_line :: "string \<Rightarrow> string list \<Rightarrow> string" where
  "entry_line mid traits =
     ''  - '' @ mid @ (if traits = [] then [] else '' ('' @ join_strs '', '' traits @ '')'')"

lemma model_line_describes:
  assumes "describes model mid traits"
  shows "model_line env model = Return (entry_line mid traits)"
  using assms
  by (auto simp: describes_def model_line_def entry_line_def dict_get_def py_str_def)

lemma print_models_describes:
  assumes "list_all2 (\<lambda>model (mid, traits). describes model mid traits) models ms"
  shows "print_models env models w =
     (Return (), w\<lparr>stdout := stdout w @ map (\<lambda>(mid, traits). entry_line mid traits) ms\<rparr>)"
  using assms
proof (induction models ms arbitrary: w rule: list_all2_induct)
  case Nil
  then show ?case by simp
next
  case (Cons model models m ms)
  then show ?case
    by (cases m) (simp add: model_line_describes print_out_def)
qed

lemma model_line_raises: "model_line env model = Raise e \<Longrightarrow> e = AttributeError \<or> e = TypeError"
  by (auto simp: model_line_def rbind_eq_Raise_iff val_get_Raise_iff
      dest: val_join_raises split: if_splits)

lemma print_models_raises:
  "fst (print_models env models w) = Raise e \<Longrightarrow> e = AttributeError \<or> e = TypeError"
proof (induction models arbitrary: w)
  case (Cons model models)
  then show ?case
    by (cases "model_line env model") (auto dest: model_line_raises)
qed simp

lemma val_iter_raises: "val_iter v = Raise e \<Longrightarrow> e = TypeError"
  by (cases v) (auto simp: val_iter_def)

section \<open>What the methods leave alone\<close>

lemma generate_image_raises:
  "fst (generate_image env self prompt model kwargs w) = Raise e \<Longrightarrow> e = SystemExit 1"
  by (auto simp: generate_image_eq split: sum.splits)

lemma generate_image_keeps [simp]:
  "files (snd (generate_image env self prompt model kwargs w)) = files w"
  "stdout (snd (generate_image env self prompt model kwargs w)) = stdout w"
  "sent (snd (generate_image env self prompt model kwargs w)) =
     sent w @ [image_request self prompt model kwargs]"
  by (simp_all add: generate_image_eq split: sum.splits)

lemma generate_image_returns:
  assumes "fst (generate_image env self prompt model kwargs w) = Return v"
  shows "generate_image env self prompt model kwargs w =
     (Return v, w\<lparr>sent := sent w @ [image_request self prompt model kwargs]\<rparr>)"
  using assms by (auto simp: generate_image_eq split: sum.splits)

lemma files_print_models [simp]: "files (snd (print_models env models w)) = files w"
proof (induction models arbitrary: w)
  case (Cons model models)
  then show ?case by (cases "model_line env model") simp_all
qed simp

lemma stderr_print_models [simp]: "stderr (snd (print_models env models w)) = stderr w"
proof (induction models arbitrary: w)
  case (Cons model models)
  then show ?case by (cases "model_line env model") simp_all
qed simp

lemma sent_print_models [simp]: "sent (snd (print_models env models w)) = sent w"
proof (induction models arbitrary: w)
  case (Cons model models)
  then show ?case by (cases "model_line env model") simp_all
qed simp

lemma list_models_keeps [simp]:
  "files (snd (list_models env self verbose w)) = files w"
  "sent (snd (list_models env self verbose w)) = sent w @ [models_request self]"
  by (simp_all add: list_models_eq split: sum.splits)

lemma list_models_raises:
  assumes "fst (list_models env self verbose w) = Raise e"
  shows "e = SystemExit 1 \<or> e = AttributeError \<or> e = TypeError"
proof (cases "fst (fetch env (models_request self) w)")
  case (Inl x)
  with assms show ?thesis by (simp add: list_models_eq)
next
  case (Inr data)
  show ?thesis
  proof (cases "rbind (val_get data ''data'' (PList [])) val_iter")
    case (Inl x)
    then have "x = AttributeError \<or> x = TypeError"
      by (auto simp: rbind_eq_Raise_iff val_get_Raise_iff dest: val_iter_raises)
    with Inl Inr assms show ?thesis by (auto simp: list_models_eq split: if_splits)
  next
    case models: (Inr models)
    with Inr assms show ?thesis
      by (auto simp: list_models_eq split: if_splits dest: print_models_raises)
  qed
qed

text \<open>
  C25: \<open>list_models\<close> ends in one of four ways: it returns, it ends in
  \<open>sys.exit(1)\<close>, or an \<open>AttributeError\<close> or a \<open>TypeError\<close> leaves it, raised by an
  answer whose JSON has not the expected shape; its handler catches
  \<open>RequestException\<close> only.
\<close>

theorem list_models_outcomes:
  "fst (list_models env self verbose w)
     \<in> {Return (), Raise (SystemExit 1), Raise AttributeError, Raise TypeError}"
  by (cases "fst (list_models env self verbose w)") (auto dest: list_models_raises)

text \<open>
  C24: For an answer whose \<open>data\<close> field lists models with an \<open>id\<close> and with the
  \<open>traits\<close> of their \<open>model_spec\<close>, \<open>list_models\<close> without \<open>verbose\<close> prints the
  heading \<open>Available models:\<close> and one line per model, in the order of the
  answer: the id, followed by the traits in parentheses when there are any.
\<close>

theorem list_models_listing:
  assumes "transport env (models_request self) = Reply resp"
    and "status_code resp < 400 \<or> 600 \<le> status_code resp"
    and "json_value resp = Inr (PDict body)"
    and "map_of body ''data'' = Some (PList models)"
    and "list_all2 (\<lambda>model (mid, traits). describes model mid traits) models ms"
  shows "list_models env self False w =
     (Return (),
      w\<lparr>sent := sent w @ [models_request self],
        stdout := stdout w @ ''Available models:'' # map (\<lambda>(mid, traits). entry_line mid traits) ms\<rparr>)"
proof -
  from assms(1-3) have "fst (fetch env (models_request self) w) = Inr (PDict body)"
    by (auto simp: fetch_eq response_json_def)
  with assms(4) show ?thesis
    by (simp add: list_models_eq dict_get_def val_iter_def print_models_describes [OF assms(5)]
        print_out_def)
qed

text \<open>
  C38: When the decoded answer is a JSON list, \<open>list_models\<close> without \<open>verbose\<close>
  prints the heading and is then left by an \<open>AttributeError\<close>, which nothing
  catches.
\<close>

theorem list_models_not_a_dict:
  assumes "transport env (models_request self) = Reply resp"
    and "status_code resp < 400 \<or> 600 \<le> status_code resp"
    and "json_value resp = Inr (PList xs)"
  shows "list_models env self False w =
     (Raise AttributeError,
      w\<lparr>sent := sent w @ [models_request self],
        stdout := stdout w @ [''Available models:'']\<rparr>)"
proof -
  from assms have "fst (fetch env (models_request self) w) = Inr (PList xs)"
    by (auto simp: fetch_eq response_json_def)
  then show ?thesis
    by (simp add: list_models_eq val_get_def print_out_def)
qed

text \<open>
  When the server answers the request for the models with a status from 400
  to 599, \<open>list_models\<close> prints nothing to the standard output, one line
  \<open>Error fetching models:\<close> with the message of the HTTP error to the standard
  error, and ends in \<open>sys.exit(1)\<close>.
\<close>

theorem list_models_http_error:
  assumes "transport env (models_request self) = Reply resp"
    and "400 \<le> status_code resp" and "status_code resp < 600"
  shows "list_models env self verbose w =
     (Raise (SystemExit 1),
      w\<lparr>sent := sent w @ [models_request self],
        stderr := stderr w @ [''Error fetching models: '' @ http_error_msg resp]\<rparr>)"
proof -
  from assms have "fst (fetch env (models_request self) w) =
      Inl (RequestException (http_error_msg resp) (Some resp))"
    by (simp add: fetch_eq)
  then show ?thesis by (simp add: list_models_eq print_err_def)
qed

text \<open>
  With \<open>verbose\<close>, \<open>list_models\<close> prints the text that \<open>json.dumps\<close> gives to the
  decoded answer, whatever its shape, and nothing else.
\<close>

theorem list_models_verbose:
  assumes "transport env (models_request self) = Reply resp"
    and "status_code resp < 400 \<or> 600 \<le> status_code resp"
    and "json_value resp = Inr data"
  shows "list_models env self True w =
     (Return (),
      w\<lparr>sent := sent w @ [models_request self], stdout := stdout w @ [json_dumps env data]\<rparr>)"
proof -
  from assms have "fst (fetch env (models_request self) w) = Inr data"
    by (auto simp: fetch_eq response_json_def)
  then show ?thesis by (simp add: list_models_eq print_out_def)
qed

section \<open>Example environments\<close>

definition answer :: "nat \<Rightarrow> string \<Rightarrow> pyval \<Rightarrow> http_request \<Rightarrow> http_response" where
  "answer code rsn v rq =
     \<lparr>status_code = code, reason = rsn, resp_url = req_url rq, resp_text = [],
      json_value = Inr v\<rparr>"

definition image_answer :: pyval where
  "image_answer =
     PDict [(''id'', PStr ''img42''), (''images'', PList [PStr ''aGk='']),
            (''timing'', PDict [(''total'', PInt 1234)])]"

definition models_answer :: pyval where
  "models_answer =
     PDict [(''data'', PList
       [PDict [(''id'', PStr ''venice-sd35''),
               (''model_spec'', PDict [(''traits'', PList [PStr ''default'', PStr ''fast''])])],
        PDict [(''id'', PStr ''flux-dev''), (''model_spec'', PDict [(''traits'', PList [])])]])]"

definition serving_env :: pyenv where
  "serving_env =
     \<lparr>transport = (\<lambda>rq. Reply (answer 200 ''OK''
         (if req_method rq = POST then image_answer else models_answer) rq)),
      float_repr = (\<lambda>x. []), json_dumps = (\<lambda>v. ''{}'')\<rparr>"

definition refusing_env :: pyenv where
  "refusing_env =
     \<lparr>transport = (\<lambda>rq. Reply (answer 401 ''Unauthorized''
         (PDict [(''error'', PStr ''Invalid API key'')]) rq)),
      float_repr = (\<lambda>x. []), json_dumps = (\<lambda>v. ''{}'')\<rparr>"

definition garbled_env :: pyenv where
  "garbled_env =
     \<lparr>transport = (\<lambda>rq. Reply (answer 200 ''OK'' (PList []) rq)),
      float_repr = (\<lambda>x. []), json_dumps = (\<lambda>v. ''[]'')\<rparr>"

definition example_net_world :: net_world where
  "example_net_world = \<lparr>files = [(''.'', Dir)], stdout = [], stderr = [], sent = []\<rparr>"

lemmas example_defs =
  answer_def image_answer_def models_answer_def serving_env_def refusing_env_def
  garbled_env_def example_net_world_def

theorem generate_image_success_witness:
  "generate_image serving_env (VeniceImageGenerator ''key'') ''a cat'' ''venice-sd35'' []
     example_net_world =
   (Return image_answer,
    example_net_world\<lparr>sent := [image_request (VeniceImageGenerator ''key'') ''a cat''
      ''venice-sd35'' []]\<rparr>)"
  using generate_image_success [of serving_env "VeniceImageGenerator ''key''" "''a cat''"
      "''venice-sd35''" "[]"
      "answer 200 ''OK'' image_answer (image_request (VeniceImageGenerator ''key'') ''a cat''
        ''venice-sd35'' [])" image_answer example_net_world]
  by (simp add: serving_env_def answer_def image_request_def example_net_world_def)

theorem generate_image_http_error_witness:
  "stderr (snd (generate_image refusing_env (VeniceImageGenerator ''key'') ''a cat''
     ''venice-sd35'' [] example_net_world)) =
   [''Error generating image: 401 Client Error: Unauthorized for url: https://api.venice.ai/api/v1/image/generate'']
   \<and> fst (generate_image refusing_env (VeniceImageGenerator ''key'') ''a cat''
     ''venice-sd35'' [] example_net_world) = Raise (SystemExit 1)"
proof -
  have "str_nat 401 = ''401''" by code_simp
  with generate_image_http_error [of refusing_env "VeniceImageGenerator ''key''" "''a cat''"
      "''venice-sd35''" "[]"
      "answer 401 ''Unauthorized'' (PDict [(''error'', PStr ''Invalid API key'')])
        (image_request (VeniceImageGenerator ''key'') ''a cat'' ''venice-sd35'' [])"
      example_net_world]
  show ?thesis
    by (simp add: refusing_env_def answer_def image_request_def example_net_world_def BASE_URL_def)
qed

theorem list_models_listing_witness:
  "list_models serving_env (VeniceImageGenerator ''key'') False example_net_world =
   (Return (),
    example_net_world\<lparr>sent := [models_request (VeniceImageGenerator ''key'')],
      stdout := [''Available models:'', ''  - venice-sd35 (default, fast)'', ''  - flux-dev'']\<rparr>)"
proof -
  let ?rq = "models_request (VeniceImageGenerator ''key'')"
  have 1: "transport serving_env ?rq = Reply (answer 200 ''OK'' models_answer ?rq)"
    by (simp add: serving_env_def models_request_def)
  have 2: "json_value (answer 200 ''OK'' models_answer ?rq) =
      Inr (PDict [(''data'', PList
       [PDict [(''id'', PStr ''venice-sd35''),
               (''model_spec'', PDict [(''traits'', PList [PStr ''default'', PStr ''fast''])])],
        PDict [(''id'', PStr ''flux-dev''), (''model_spec'', PDict [(''traits'', PList [])])]])])"
    by (simp add: answer_def models_answer_def)
  have 3: "list_all2 (\<lambda>model (mid, traits). describes model mid traits)
      [PDict [(''id'', PStr ''venice-sd35''),
               (''model_spec'', PDict [(''traits'', PList [PStr ''default'', PStr ''fast''])])],
        PDict [(''id'', PStr ''flux-dev''), (''model_spec'', PDict [(''traits'', PList [])])]]
      [(''venice-sd35'', [''default'', ''fast'']), (''flux-dev'', [])]"
    by (simp add: describes_def)
  from list_models_listing [OF 1 _ 2 _ 3, of example_net_world] show ?thesis
    by (simp add: answer_def example_net_world_def entry_line_def)
qed

theorem list_models_not_a_dict_witness:
  "list_models garbled_env (VeniceImageGenerator ''key'') False example_net_world =
   (Raise AttributeError,
    example_net_world\<lparr>sent := [models_request (VeniceImageGenerator ''key'')],
      stdout := [''Available models:'']\<rparr>)"
  using list_models_not_a_dict [of garbled_env "VeniceImageGenerator ''key''"
      "answer 200 ''OK'' (PList []) (models_request (VeniceImageGenerator ''key''))" "[]"
      example_net_world]
  by (simp add: garbled_env_def answer_def example_net_world_def)

theorem list_models_http_error_witness:
  "list_models refusing_env (VeniceImageGenerator ''key'') False example_net_world =
   (Raise (SystemExit 1),
    example_net_world\<lparr>sent := [models_request (VeniceImageGenerator ''key'')],
      stderr := [''Error fetching models: 401 Client Error: Unauthorized for url: https://api.venice.ai/api/v1/models'']\<rparr>)"
proof -
  have "str_nat 401 = ''401''" by code_simp
  with list_models_http_error [of refusing_env "VeniceImageGenerator ''key''"
      "answer 401 ''Unauthorized'' (PDict [(''error'', PStr ''Invalid API key'')])
        (models_request (VeniceImageGenerator ''key''))" False example_net_world]
  show ?thesis
    by (simp add: refusing_env_def answer_def example_net_world_def http_error_msg_def
        models_request_def BASE_URL_def)
qed

theorem list_models_verbose_witness:
  "list_models garbled_env (VeniceImageGenerator ''key'') True example_net_world =
   (Return (),
    example_net_world\<lparr>sent := [models_request (VeniceImageGenerator ''key'')],
      stdout := [''[]'']\<rparr>)"
  using list_models_verbose [of garbled_env "VeniceImageGenerator ''key''"
      "answer 200 ''OK'' (PList []) (models_request (VeniceImageGenerator ''key''))" "PList []"
      example_net_world]
  by (simp add: garbled_env_def answer_def example_net_world_def)

end
