(* ===== verification/Cli.thy ===== *)
theory Cli
  imports Aspect_Ratio Client
begin

text \<open>
  The command-line driver: the function \<open>main\<close> of \<open>src/venice_image_gen.py\<close>.
  What the process is started with is a record: the value of the environment
  variable \<open>VENICE_API_KEY\<close>, the outcome of \<open>parser.parse_args()\<close> on the command
  line (the parsed arguments, or the exit that \<open>argparse\<close> takes by itself for
  \<open>--help\<close> and for arguments it refuses), and the two texts that
  \<open>parser.error\<close> prints. The result of \<open>main\<close> is the way the process ends:
  \<open>Return ()\<close> for a normal end, \<open>SystemExit n\<close> for \<open>sys.exit(n)\<close>, and any other
  exception for a traceback.
\<close>

section \<open>Arguments and the process\<close>

record args =
  list_models_opt :: bool
  verbose :: bool
  prompt :: "string option"
  model :: string
  negative_prompt :: "string option"
  width :: "int option"
  height :: "int option"
  aspect_ratio :: "string option"
  steps :: "int option"
  cfg_scale :: "pyfloat option"
  seed :: "int option"
  style_preset :: "string option"
  format :: string
  output_arg :: "string option"
  safe_mode :: bool

datatype parse_result = ParseExit int | Parsed args

record process =
  environ_key :: "string option"
  parse_args :: parse_result
  prog :: string
  usage :: string

text \<open>The exit status of the process for each way \<open>main\<close> can end.\<close>

definition exit_status :: "'a result \<Rightarrow> int" where
  "exit_status r = (case r of Inr _ \<Rightarrow> 0 | Inl (SystemExit n) \<Rightarrow> n | Inl _ \<Rightarrow> 1)"

section \<open>Sequencing over the world\<close>

definition wbind ::
  "'a result \<times> 'w \<Rightarrow> ('a \<Rightarrow> 'w \<Rightarrow> 'b result \<times> 'w) \<Rightarrow> 'b result \<times> 'w" where
  "wbind m f = (case m of (Inl e, w) \<Rightarrow> (Inl e, w) | (Inr x, w) \<Rightarrow> f x w)"

text \<open>An optional argument as the value the program tests: \<open>None\<close> when absent.\<close>

definition opt_val :: "('a \<Rightarrow> pyval) \<Rightarrow> 'a option \<Rightarrow> pyval" where
  "opt_val f x = (case x of None \<Rightarrow> PNone | Some v \<Rightarrow> f v)"

section \<open>The steps of \<open>main\<close>\<close>

text \<open>\<open>parser.error(message)\<close>: the usage and the message on the standard error, exit 2.\<close>

definition parser_error ::
  "process \<Rightarrow> string \<Rightarrow> 'a world_scheme \<Rightarrow> 'b result \<times> 'a world_scheme" where
  "parser_error pr msg w =
     (Raise (SystemExit 2), print_err (prog pr @ '': error: '' @ msg) (print_err (usage pr) w))"

text \<open>The block \<open>Handle dimensions\<close>: the width and the height that go on.\<close>

definition resolve_dimensions ::
  "process \<Rightarrow> args \<Rightarrow> 'a world_scheme \<Rightarrow> (pyval \<times> pyval) result \<times> 'a world_scheme" where
  "resolve_dimensions pr a w =
     (if truthy (opt_val PStr (aspect_ratio a)) then
        (if truthy (opt_val PInt (width a)) \<or> truthy (opt_val PInt (height a))
         then parser_error pr ''Cannot specify both --ar and --width/--height'' w
         else
           (case parse_aspect_ratio (case aspect_ratio a of Some s \<Rightarrow> s | None \<Rightarrow> []) of
              Inr (wd, ht) \<Rightarrow> (Return (PInt wd, PInt ht), w)
            | Inl e \<Rightarrow>
                if is_ValueError e then parser_error pr (exn_message e) w else (Raise e, w)))
      else (Return (opt_val PInt (width a), opt_val PInt (height a)), w))"

text \<open>One of the seven statements \<open>if x: gen_params[k] = x\<close>.\<close>

definition add_if_truthy :: "pydict \<Rightarrow> string \<times> pyval \<Rightarrow> pydict" where
  "add_if_truthy d kv = (if truthy (snd kv) then dict_set d (fst kv) (snd kv) else d)"

definition gen_params :: "args \<Rightarrow> pyval \<Rightarrow> pyval \<Rightarrow> pydict" where
  "gen_params a wd ht =
     foldl add_if_truthy
       [(''format'', PStr (format a)), (''safe_mode'', PBool (safe_mode a))]
       [(''negative_prompt'', opt_val PStr (negative_prompt a)),
        (''width'', wd),
        (''height'', ht),
        (''steps'', opt_val PInt (steps a)),
        (''cfg_scale'', opt_val PFloat (cfg_scale a)),
        (''seed'', opt_val PInt (seed a)),
        (''style_preset'', opt_val PStr (style_preset a))]"

text \<open>
  \<open>client.save_image(base64_data, args.output, image_id, args.format)\<close> on values
  taken from the decoded answer: the id is inserted into the file name as
  \<open>str\<close> gives it, and data that is no string makes \<open>b64decode\<close> raise a
  \<open>TypeError\<close> inside the \<open>try\<close> block of \<open>save_image\<close>.
\<close>

definition save_image_dyn ::
  "pyenv \<Rightarrow> pyval \<Rightarrow> string option \<Rightarrow> pyval \<Rightarrow> string \<Rightarrow> 'a world_scheme
     \<Rightarrow> string result \<times> 'a world_scheme" where
  "save_image_dyn env base64_data output_path image_id format_ext w =
     (case base64_data of
        PStr s \<Rightarrow> save_image w s output_path (py_str (float_repr env) image_id) format_ext
      | _ \<Rightarrow>
          (Raise (SystemExit 1),
           print_err (''Error saving image: '' @ exn_message TypeError) w))"

text \<open>\<open>timing.get("total", 0) / 1000\<close> and the format \<open>.2f\<close> of the quotient.\<close>

definition div_1000 :: "pyval \<Rightarrow> pyfloat result" where
  "div_1000 v =
     (let int_div = (\<lambda>n :: int. case fl (of_int n / 1000) of
                        Fin r \<Rightarrow> Return (Fin r) | _ \<Rightarrow> Raise OverflowError)
      in case v of
           PInt n \<Rightarrow> int_div n
         | PBool b \<Rightarrow> int_div (if b then 1 else 0)
         | PFloat x \<Rightarrow> float_div x (Fin 1000)
         | _ \<Rightarrow> Raise TypeError)"

definition two_digits :: "nat \<Rightarrow> string" where
  "two_digits n = [digit_char (n div 10 mod 10), digit_char (n mod 10)]"

definition format_2f :: "pyfloat \<Rightarrow> string" where
  "format_2f x =
     (case x of
        Fin r \<Rightarrow>
          (let n = nat (round_even (\<bar>r\<bar> * 100)) in
           (if r < 0 then ''-'' else []) @ str_nat (n div 100) @ ''.'' @ two_digits (n mod 100))
      | PInf \<Rightarrow> ''inf''
      | NInf \<Rightarrow> ''-inf''
      | NaN \<Rightarrow> ''nan'')"

text \<open>The lines after the call of \<open>generate_image\<close>: \<open>Extract and save images\<close>.\<close>

definition report_timing ::
  "pyval \<Rightarrow> 'a world_scheme \<Rightarrow> unit result \<times> 'a world_scheme" where
  "report_timing result w =
     wbind (val_get result ''timing'' (PDict []), w) (\<lambda>timing w.
       if truthy timing then
         wbind (rbind (val_get timing ''total'' (PInt 0)) div_1000, w) (\<lambda>total_time w.
           (Return (),
            print_out (''Generation completed in '' @ format_2f total_time @ '' seconds'') w))
       else (Return (), w))"

definition handle_result ::
  "pyenv \<Rightarrow> args \<Rightarrow> pyval \<Rightarrow> 'a world_scheme \<Rightarrow> unit result \<times> 'a world_scheme" where
  "handle_result env a result w =
     wbind (val_get result ''images'' (PList []), w) (\<lambda>images w.
       if \<not> truthy images
       then (Raise (SystemExit 1), print_err ''No images returned from API'' w)
       else
         wbind (val_get result ''id'' (PStr ''generated_image''), w) (\<lambda>image_id w.
         wbind (val_first images, w) (\<lambda>base64_data w.
         wbind (save_image_dyn env base64_data (output_arg a) image_id (format a) w) (\<lambda>filename w.
           report_timing result (print_out (''Image saved as: '' @ filename) w)))))"

definition generating_line :: "args \<Rightarrow> string" where
  "generating_line a = ''Generating image with model '' @ [CHR 0x27] @ model a @ [CHR 0x27] @ ''...''"

definition main :: "pyenv \<Rightarrow> process \<Rightarrow> 'a net_world_scheme \<Rightarrow> unit result \<times> 'a net_world_scheme" where
  "main env pr w =
     (if \<not> truthy (opt_val PStr (environ_key pr))
      then (Raise (SystemExit 1),
            print_err ''Error: VENICE_API_KEY environment variable is required'' w)
      else
        (case parse_args pr of
           ParseExit n \<Rightarrow> (Raise (SystemExit n), w)
         | Parsed a \<Rightarrow>
             (let client = VeniceImageGenerator (case environ_key pr of Some k \<Rightarrow> k | None \<Rightarrow> [])
              in if list_models_opt a then list_models env client (verbose a) w
                 else if \<not> truthy (opt_val PStr (prompt a))
                 then parser_error pr
                   ''Prompt is required for image generation. Use --list-models to see available models.''
                   w
                 else
                   wbind (resolve_dimensions pr a w) (\<lambda>(wd, ht) w.
                   wbind (generate_image env client
                            (case prompt a of Some p \<Rightarrow> p | None \<Rightarrow> []) (model a)
                            (gen_params a wd ht) (print_out (generating_line a) w))
                     (handle_result env a)))))"

lemmas cli_defs [py_defs] =
  exit_status_def wbind_def opt_val_def parser_error_def resolve_dimensions_def
  add_if_truthy_def gen_params_def save_image_dyn_def div_1000_def two_digits_def
  format_2f_def report_timing_def handle_result_def generating_line_def main_def

section \<open>Sequencing and exit status\<close>

lemma wbind_Raise [simp]: "wbind (Raise e, w) f = (Raise e, w)"
  by (simp add: wbind_def)

lemma wbind_Return [simp]: "wbind (Return x, w) f = f x w"
  by (simp add: wbind_def)

lemma wbind_cases:
  obtains (raised) e w' where "m = (Raise e, w')" "wbind m f = (Raise e, w')"
    | (returned) x w' where "m = (Return x, w')" "wbind m f = f x w'"
  by (cases m; cases "fst m") auto

lemma exit_status_simps [simp]:
  "exit_status (Return x) = 0"
  "exit_status (Raise (SystemExit n)) = n"
  "exit_status (Raise ZeroDivisionError) = 1"
  "exit_status (Raise OverflowError) = 1"
  "exit_status (Raise AttributeError) = 1"
  "exit_status (Raise TypeError) = 1"
  "exit_status (Raise KeyError) = 1"
  by (simp_all add: exit_status_def)

section \<open>Truth values of optional arguments\<close>

lemma opt_val_simps [simp]: "opt_val f None = PNone" "opt_val f (Some x) = f x"
  by (simp_all add: opt_val_def)

lemma truthy_opt_str: "truthy (opt_val PStr x) \<longleftrightarrow> (\<exists>s. x = Some s \<and> s \<noteq> [])"
  by (cases x) simp_all

lemma truthy_opt_int: "truthy (opt_val PInt x) \<longleftrightarrow> (\<exists>n. x = Some n \<and> n \<noteq> 0)"
  by (cases x) simp_all

lemma truthy_opt_float: "truthy (opt_val PFloat x) \<longleftrightarrow> (\<exists>y. x = Some y \<and> y \<noteq> Fin 0)"
  by (cases x) simp_all

section \<open>\<open>parser.error\<close>\<close>

lemma parser_error_simps [simp]:
  "fst (parser_error pr msg w) = Raise (SystemExit 2)"
  "stdout (snd (parser_error pr msg w)) = stdout w"
  "files (snd (parser_error pr msg w)) = files w"
  "stderr (snd (parser_error pr msg w)) = stderr w @ [usage pr, prog pr @ '': error: '' @ msg]"
  by (simp_all add: parser_error_def)

lemma sent_parser_error [simp]: "sent (snd (parser_error pr msg w)) = sent w"
  by (simp add: parser_error_def)

section \<open>The generation parameters\<close>

lemma foldl_add_if_truthy_append:
  assumes "distinct (map fst kvs)" and "fst ` set kvs \<inter> set (dict_keys d) = {}"
  shows "foldl add_if_truthy d kvs = d @ filter (\<lambda>kv. truthy (snd kv)) kvs"
  using assms
proof (induction kvs arbitrary: d)
  case Nil
  then show ?case by simp
next
  case (Cons kv kvs)
  from Cons.prems have fresh: "fst kv \<notin> set (dict_keys d)" by auto
  show ?case
  proof (cases "truthy (snd kv)")
    case True
    with fresh have step: "add_if_truthy d kv = d @ [kv]"
      by (simp add: add_if_truthy_def dict_set_fresh)
    from Cons.prems have "fst ` set kvs \<inter> set (dict_keys (d @ [kv])) = {}"
      by (auto simp: dict_keys_def)
    with Cons.prems Cons.IH [of "d @ [kv]"] step True show ?thesis by simp
  next
    case False
    then have "add_if_truthy d kv = d" by (simp add: add_if_truthy_def)
    with False Cons show ?thesis by simp
  qed
qed

text \<open>
  The generation parameters said without the seven \<open>if\<close> statements: the two
  fixed entries, then the optional arguments whose value is truthy, in the order
  of the statements.
\<close>

definition optional_args :: "args \<Rightarrow> pyval \<Rightarrow> pyval \<Rightarrow> pydict" where
  "optional_args a wd ht =
     [(''negative_prompt'', opt_val PStr (negative_prompt a)),
      (''width'', wd),
      (''height'', ht),
      (''steps'', opt_val PInt (steps a)),
      (''cfg_scale'', opt_val PFloat (cfg_scale a)),
      (''seed'', opt_val PInt (seed a)),
      (''style_preset'', opt_val PStr (style_preset a))]"

lemma distinct_optional_args: "distinct (map fst (optional_args a wd ht))"
  by (simp add: optional_args_def)

definition gen_params_spec :: "args \<Rightarrow> pyval \<Rightarrow> pyval \<Rightarrow> pydict" where
  "gen_params_spec a wd ht =
     [(''format'', PStr (format a)), (''safe_mode'', PBool (safe_mode a))]
     @ filter (\<lambda>kv. truthy (snd kv)) (optional_args a wd ht)"

lemma gen_params_eq: "gen_params a wd ht = gen_params_spec a wd ht"
  unfolding gen_params_def gen_params_spec_def optional_args_def
  by (rule foldl_add_if_truthy_append) (simp_all add: dict_keys_def)

lemma map_of_filter_distinct:
  "distinct (map fst kvs) \<Longrightarrow>
   map_of (filter P kvs) k = (case map_of kvs k of Some v \<Rightarrow> if P (k, v) then Some v else None | None \<Rightarrow> None)"
proof (induction kvs)
  case (Cons kv kvs)
  then show ?case
    by (cases kv) (auto simp: map_of_eq_None_iff image_iff split: option.splits)
qed simp

lemma map_of_gen_params:
  "map_of (gen_params a wd ht) k =
     (case map_of [(''format'', PStr (format a)), (''safe_mode'', PBool (safe_mode a))] k of
        Some v \<Rightarrow> Some v
      | None \<Rightarrow>
          (case map_of (optional_args a wd ht) k of
             Some v \<Rightarrow> if truthy v then Some v else None
           | None \<Rightarrow> None))"
proof -
  have "gen_params a wd ht =
      [(''format'', PStr (format a)), (''safe_mode'', PBool (safe_mode a))]
      @ filter (\<lambda>kv. truthy (snd kv)) (optional_args a wd ht)"
    by (simp only: gen_params_eq gen_params_spec_def)
  moreover have "map_of (filter (\<lambda>kv. truthy (snd kv)) (optional_args a wd ht)) k =
      (case map_of (optional_args a wd ht) k of
         Some v \<Rightarrow> if truthy v then Some v else None | None \<Rightarrow> None)"
    using map_of_filter_distinct [OF distinct_optional_args, of "\<lambda>kv. truthy (snd kv)" a wd ht k]
    by (simp only: snd_conv)
  ultimately show ?thesis
    by (simp only: map_of_append map_add_def split: option.splits)
qed

lemma gen_params_lookup:
  "map_of (gen_params a wd ht) ''format'' = Some (PStr (format a))"
  "map_of (gen_params a wd ht) ''safe_mode'' = Some (PBool (safe_mode a))"
  "map_of (gen_params a wd ht) ''negative_prompt'' =
     (if truthy (opt_val PStr (negative_prompt a)) then Some (opt_val PStr (negative_prompt a)) else None)"
  "map_of (gen_params a wd ht) ''width'' = (if truthy wd then Some wd else None)"
  "map_of (gen_params a wd ht) ''height'' = (if truthy ht then Some ht else None)"
  "map_of (gen_params a wd ht) ''steps'' =
     (if truthy (opt_val PInt (steps a)) then Some (opt_val PInt (steps a)) else None)"
  "map_of (gen_params a wd ht) ''cfg_scale'' =
     (if truthy (opt_val PFloat (cfg_scale a)) then Some (opt_val PFloat (cfg_scale a)) else None)"
  "map_of (gen_params a wd ht) ''seed'' =
     (if truthy (opt_val PInt (seed a)) then Some (opt_val PInt (seed a)) else None)"
  "map_of (gen_params a wd ht) ''style_preset'' =
     (if truthy (opt_val PStr (style_preset a)) then Some (opt_val PStr (style_preset a)) else None)"
  by (simp_all add: map_of_gen_params optional_args_def)

lemma truthy_not_None: "truthy v \<Longrightarrow> v \<noteq> PNone"
  by auto

section \<open>The paths through \<open>main\<close>\<close>

lemma main_no_key:
  assumes "environ_key pr = None \<or> environ_key pr = Some []"
  shows "main env pr w =
     (Raise (SystemExit 1),
      print_err ''Error: VENICE_API_KEY environment variable is required'' w)"
  using assms by (auto simp: main_def)

lemma main_parse_exit:
  assumes "environ_key pr = Some k" and "k \<noteq> []" and "parse_args pr = ParseExit n"
  shows "main env pr w = (Raise (SystemExit n), w)"
  using assms by (simp add: main_def)

lemma main_list_models:
  assumes "environ_key pr = Some k" and "k \<noteq> []" and "parse_args pr = Parsed a"
    and "list_models_opt a"
  shows "main env pr w = list_models env (VeniceImageGenerator k) (verbose a) w"
  using assms by (simp add: main_def)

lemma main_no_prompt:
  assumes "environ_key pr = Some k" and "k \<noteq> []" and "parse_args pr = Parsed a"
    and "\<not> list_models_opt a" and "prompt a = None \<or> prompt a = Some []"
  shows "main env pr w =
     parser_error pr
       ''Prompt is required for image generation. Use --list-models to see available models.'' w"
  using assms by (auto simp: main_def)

lemma main_generation:
  assumes "environ_key pr = Some k" and "k \<noteq> []" and "parse_args pr = Parsed a"
    and "\<not> list_models_opt a" and "prompt a = Some p" and "p \<noteq> []"
  shows "main env pr w =
     wbind (resolve_dimensions pr a w) (\<lambda>(wd, ht) w.
       wbind (generate_image env (VeniceImageGenerator k) p (model a) (gen_params a wd ht)
                (print_out (generating_line a) w))
         (handle_result env a))"
  using assms by (simp add: main_def)

text \<open>The five ways in which \<open>main\<close> proceeds, by the key and the arguments.\<close>

lemma main_cases:
  obtains (no_key) "environ_key pr = None \<or> environ_key pr = Some []"
    | (parse_exit) k n where "environ_key pr = Some k" "k \<noteq> []" "parse_args pr = ParseExit n"
    | (listing) k a where "environ_key pr = Some k" "k \<noteq> []" "parse_args pr = Parsed a"
        "list_models_opt a"
    | (no_prompt) k a where "environ_key pr = Some k" "k \<noteq> []" "parse_args pr = Parsed a"
        "\<not> list_models_opt a" "prompt a = None \<or> prompt a = Some []"
    | (generation) k a p where "environ_key pr = Some k" "k \<noteq> []" "parse_args pr = Parsed a"
        "\<not> list_models_opt a" "prompt a = Some p" "p \<noteq> []"
proof (cases "environ_key pr")
  case None
  then show ?thesis using no_key by simp
next
  case (Some k)
  show ?thesis
  proof (cases "k = []")
    case True
    with Some show ?thesis using no_key by simp
  next
    case False
    show ?thesis
    proof (cases "parse_args pr")
      case (ParseExit n)
      with Some False show ?thesis using parse_exit by simp
    next
      case (Parsed a)
      show ?thesis
      proof (cases "list_models_opt a")
        case True
        with Some False Parsed show ?thesis by (rule listing)
      next
        case no_list: False
        show ?thesis
        proof (cases "prompt a = None \<or> prompt a = Some []")
          case True
          with Some False Parsed no_list show ?thesis by (rule no_prompt)
        next
          case False
          then obtain p where "prompt a = Some p" "p \<noteq> []" by (cases "prompt a") auto
          with Some \<open>k \<noteq> []\<close> Parsed no_list show ?thesis by (rule generation)
        qed
      qed
    qed
  qed
qed

section \<open>The dimensions\<close>

lemma resolve_dimensions_cases:
  obtains (plain) "aspect_ratio a = None \<or> aspect_ratio a = Some []"
      "resolve_dimensions pr a w = (Return (opt_val PInt (width a), opt_val PInt (height a)), w)"
    | (conflict) ar where "aspect_ratio a = Some ar" "ar \<noteq> []"
      "truthy (opt_val PInt (width a)) \<or> truthy (opt_val PInt (height a))"
      "resolve_dimensions pr a w =
         parser_error pr ''Cannot specify both --ar and --width/--height'' w"
    | (resolved) ar wd ht where "aspect_ratio a = Some ar" "ar \<noteq> []"
      "parse_aspect_ratio ar = Return (wd, ht)"
      "resolve_dimensions pr a w = (Return (PInt wd, PInt ht), w)"
    | (invalid) ar where "aspect_ratio a = Some ar" "ar \<noteq> []"
      "parse_aspect_ratio ar = Raise (invalid_aspect_ratio ar)"
      "resolve_dimensions pr a w = parser_error pr (''Invalid aspect ratio: '' @ ar) w"
    | (crash) ar e where "aspect_ratio a = Some ar" "ar \<noteq> []"
      "parse_aspect_ratio ar = Raise e" "e = ZeroDivisionError \<or> e = OverflowError"
      "resolve_dimensions pr a w = (Raise e, w)"
proof (cases "truthy (opt_val PStr (aspect_ratio a))")
  case False
  then show ?thesis using plain
    by (cases "aspect_ratio a") (auto simp: resolve_dimensions_def)
next
  case True
  then obtain ar where ar: "aspect_ratio a = Some ar" "ar \<noteq> []"
    by (auto simp: truthy_opt_str)
  show ?thesis
  proof (cases "truthy (opt_val PInt (width a)) \<or> truthy (opt_val PInt (height a))")
    case True
    with ar show ?thesis using conflict [of ar] by (auto simp: resolve_dimensions_def)
  next
    case False
    with ar have rd: "resolve_dimensions pr a w =
        (case parse_aspect_ratio ar of
           Inr (wd, ht) \<Rightarrow> (Return (PInt wd, PInt ht), w)
         | Inl e \<Rightarrow> if is_ValueError e then parser_error pr (exn_message e) w else (Raise e, w))"
      by (simp add: resolve_dimensions_def)
    show ?thesis
    proof (cases rule: parse_aspect_ratio_cases [of ar])
      case (pair wh)
      with rd ar show ?thesis using resolved [of ar "fst wh" "snd wh"] by (cases wh) simp
    next
      case invalid
      with rd ar show ?thesis using that(4) [of ar]
        by (simp add: invalid_aspect_ratio_def exn_message_def)
    next
      case zero_division
      with rd ar show ?thesis using crash [of ar ZeroDivisionError] by simp
    next
      case overflow
      with rd ar show ?thesis using crash [of ar OverflowError] by simp
    qed
  qed
qed

section \<open>Saving and reporting\<close>

lemma save_image_dyn_raises:
  "fst (save_image_dyn env base64_data output_path image_id format_ext w) = Raise e
   \<Longrightarrow> e = SystemExit 1"
  by (cases base64_data) (auto simp: save_image_dyn_def dest: save_image_raises)

lemma save_image_dyn_raisesD:
  "save_image_dyn env base64_data output_path image_id format_ext w = (Raise e, w')
   \<Longrightarrow> e = SystemExit 1"
  using save_image_dyn_raises [of env base64_data output_path image_id format_ext w e] by simp

lemma save_image_dyn_preserves:
  assumes "map_of (files w) p = Some n"
  shows "map_of (files (snd (save_image_dyn env base64_data output_path image_id format_ext w))) p
     = Some n"
  using assms by (cases base64_data) (simp_all add: save_image_dyn_def save_image_preserves)

lemma stdout_save_image_dyn [simp]:
  "stdout (snd (save_image_dyn env base64_data output_path image_id format_ext w)) = stdout w"
  by (cases base64_data) (simp_all add: save_image_dyn_def)

lemma sent_save_image [simp]:
  "sent (snd (save_image w base64_data output_path image_id format_ext)) = sent w"
  by (rule save_image_cases [of w base64_data output_path image_id format_ext]) simp_all

lemma sent_save_image_dyn [simp]:
  "sent (snd (save_image_dyn env base64_data output_path image_id format_ext w)) = sent w"
  by (cases base64_data) (simp_all add: save_image_dyn_def)

lemma div_1000_raises: "div_1000 v = Raise e \<Longrightarrow> e = OverflowError \<or> e = TypeError"
  by (cases v) (auto simp: div_1000_def split: pyfloat.splits if_splits)

lemma report_timing_cases:
  obtains (raised) e where "report_timing result w = (Raise e, w)"
      "e = AttributeError \<or> e = TypeError \<or> e = OverflowError"
    | (silent) "report_timing result w = (Return (), w)"
    | (printed) line where "report_timing result w = (Return (), print_out line w)"
proof (cases "val_get result ''timing'' (PDict [])")
  case (Inl e)
  then have "e = AttributeError" by (simp add: val_get_Raise_iff)
  with Inl show ?thesis using raised [of e] by (simp add: report_timing_def)
next
  case (Inr timing)
  show ?thesis
  proof (cases "truthy timing")
    case False
    with Inr show ?thesis using silent by (simp add: report_timing_def)
  next
    case True
    show ?thesis
    proof (cases "rbind (val_get timing ''total'' (PInt 0)) div_1000")
      case (Inl e)
      then have "e = AttributeError \<or> e = TypeError \<or> e = OverflowError"
        by (auto simp: rbind_eq_Raise_iff val_get_Raise_iff dest: div_1000_raises)
      with Inl Inr True show ?thesis using raised [of e] by (simp add: report_timing_def)
    next
      case total: (Inr total_time)
      with Inr True show ?thesis using printed by (simp add: report_timing_def)
    qed
  qed
qed

lemma report_timing_keeps [simp]:
  "files (snd (report_timing result w)) = files w"
  "stderr (snd (report_timing result w)) = stderr w"
  by (rule report_timing_cases [of result w]; simp)+

lemma sent_report_timing [simp]: "sent (snd (report_timing result w)) = sent w"
  by (rule report_timing_cases [of result w]; simp)

lemma report_timing_raises:
  "fst (report_timing result w) = Raise e \<Longrightarrow>
   e = AttributeError \<or> e = TypeError \<or> e = OverflowError"
  by (rule report_timing_cases [of result w]; simp)

text \<open>
  The result handling, once the images are there and the first one is taken: the
  call of \<open>save_image\<close>, the line with the file name, the timing.
\<close>

lemma handle_result_eq:
  "handle_result env a result w =
     (case val_get result ''images'' (PList []) of
        Inl e \<Rightarrow> (Raise e, w)
      | Inr images \<Rightarrow>
          if \<not> truthy images
          then (Raise (SystemExit 1), print_err ''No images returned from API'' w)
          else
            (case val_first images of
               Inl e \<Rightarrow> (Raise e, w)
             | Inr base64_data \<Rightarrow>
                 (case save_image_dyn env base64_data (output_arg a)
                         (dict_get (case result of PDict d \<Rightarrow> d | _ \<Rightarrow> []) ''id''
                            (PStr ''generated_image'')) (format a) w of
                    (Inl e, w1) \<Rightarrow> (Raise e, w1)
                  | (Inr filename, w1) \<Rightarrow>
                      report_timing result (print_out (''Image saved as: '' @ filename) w1))))"
  by (cases result)
    (auto simp: handle_result_def val_get_def wbind_def split: sum.splits prod.splits)

lemma handle_result_raises:
  assumes "fst (handle_result env a result w) = Raise e"
  shows "e = SystemExit 1 \<or> e = AttributeError \<or> e = TypeError \<or> e = KeyError
    \<or> e = OverflowError"
  using assms
  by (auto simp: handle_result_eq val_get_Raise_iff
      split: sum.splits prod.splits if_splits
      dest: val_first_raises val_first_truthy_no_IndexError report_timing_raises
        save_image_dyn_raisesD)

lemma handle_result_preserves:
  assumes "map_of (files w) p = Some n"
  shows "map_of (files (snd (handle_result env a result w))) p = Some n"
proof -
  have "map_of (files w1) p = Some n"
    if "save_image_dyn env b (output_arg a) i (format a) w = (r, w1)" for b i r w1
    using save_image_dyn_preserves [OF assms, of env b "output_arg a" i "format a"] that by simp
  with assms show ?thesis
    by (auto simp: handle_result_eq split: sum.splits prod.splits)
qed

lemma sent_handle_result [simp]: "sent (snd (handle_result env a result w)) = sent w"
proof -
  have "sent w1 = sent w"
    if "save_image_dyn env b (output_arg a) i (format a) w = (r, w1)" for b i r w1
    using sent_save_image_dyn [of env b "output_arg a" i "format a" w] that by simp
  then show ?thesis
    by (auto simp: handle_result_eq split: sum.splits prod.splits)
qed

section \<open>Properties of \<open>main\<close>\<close>

lemma resolve_dimensions_keeps [simp]:
  "files (snd (resolve_dimensions pr a w)) = files w"
  "stdout (snd (resolve_dimensions pr a w)) = stdout w"
  by (rule resolve_dimensions_cases [of a pr w]; simp)+

lemma sent_resolve_dimensions [simp]: "sent (snd (resolve_dimensions pr a w)) = sent w"
  by (rule resolve_dimensions_cases [of a pr w]; simp)

lemma resolve_dimensions_raises:
  "fst (resolve_dimensions pr a w) = Raise e \<Longrightarrow>
   e = SystemExit 2 \<or> e = ZeroDivisionError \<or> e = OverflowError"
  by (rule resolve_dimensions_cases [of a pr w]; auto)

lemma resolve_dimensions_returns:
  assumes "resolve_dimensions pr a w = (Return (wd, ht), w')"
  shows "w' = w"
  using assms by (cases rule: resolve_dimensions_cases [of a pr w]) (auto simp: parser_error_def)

lemma wbind_fst_Raise: "fst m = Raise e \<Longrightarrow> wbind m f = (Raise e, snd m)"
  by (cases m) simp

lemma wbind_fst_Return: "fst m = Return x \<Longrightarrow> wbind m f = f x (snd m)"
  by (cases m) simp

text \<open>The generation path after the dimensions are known.\<close>

definition generate_and_save ::
  "pyenv \<Rightarrow> string \<Rightarrow> string \<Rightarrow> args \<Rightarrow> pyval \<Rightarrow> pyval \<Rightarrow> 'a net_world_scheme
     \<Rightarrow> unit result \<times> 'a net_world_scheme" where
  "generate_and_save env k p a wd ht w =
     wbind (generate_image env (VeniceImageGenerator k) p (model a) (gen_params a wd ht)
              (print_out (generating_line a) w))
       (handle_result env a)"

lemma main_generation_cases:
  assumes "environ_key pr = Some k" and "k \<noteq> []" and "parse_args pr = Parsed a"
    and "\<not> list_models_opt a" and "prompt a = Some p" and "p \<noteq> []"
  obtains (stopped) e where "resolve_dimensions pr a w = (Raise e, snd (resolve_dimensions pr a w))"
      "main env pr w = (Raise e, snd (resolve_dimensions pr a w))"
      "e = SystemExit 2 \<or> e = ZeroDivisionError \<or> e = OverflowError"
    | (generated) wd ht where "resolve_dimensions pr a w = (Return (wd, ht), w)"
      "main env pr w = generate_and_save env k p a wd ht w"
proof (cases "fst (resolve_dimensions pr a w)")
  case (Inl e)
  then have rd: "resolve_dimensions pr a w = (Raise e, snd (resolve_dimensions pr a w))"
    by (simp add: prod_eq_iff)
  moreover from Inl have "main env pr w = (Raise e, snd (resolve_dimensions pr a w))"
    by (simp add: main_generation [OF assms] wbind_fst_Raise)
  moreover from Inl have "e = SystemExit 2 \<or> e = ZeroDivisionError \<or> e = OverflowError"
    by (rule resolve_dimensions_raises)
  ultimately show ?thesis using stopped [of e] by simp
next
  case (Inr d)
  obtain wd ht where d: "d = (wd, ht)" by (cases d)
  with Inr have "resolve_dimensions pr a w = (Return (wd, ht), snd (resolve_dimensions pr a w))"
    by (simp add: prod_eq_iff)
  with resolve_dimensions_returns [OF this]
  have rd: "resolve_dimensions pr a w = (Return (wd, ht), w)" by simp
  then have "main env pr w = generate_and_save env k p a wd ht w"
    by (simp add: main_generation [OF assms] generate_and_save_def)
  with rd show ?thesis by (rule generated)
qed

lemma wbind_eq:
  "wbind m f = (case fst m of Inl e \<Rightarrow> (Raise e, snd m) | Inr x \<Rightarrow> f x (snd m))"
  by (cases m; cases "fst m") auto

lemma generate_and_save_raises:
  assumes "fst (generate_and_save env k p a wd ht w) = Raise e"
  shows "e = SystemExit 1 \<or> e = AttributeError \<or> e = TypeError \<or> e = KeyError
    \<or> e = OverflowError"
  using assms
  by (auto simp: generate_and_save_def wbind_eq split: sum.splits
      dest: generate_image_raises handle_result_raises)

lemma generate_and_save_sent:
  "sent (snd (generate_and_save env k p a wd ht w)) =
     sent w @ [image_request (VeniceImageGenerator k) p (model a) (gen_params a wd ht)]"
  by (simp add: generate_and_save_def wbind_eq split: sum.splits)

lemma generate_and_save_preserves:
  assumes "map_of (files w) f = Some n"
  shows "map_of (files (snd (generate_and_save env k p a wd ht w))) f = Some n"
  using assms
  by (simp add: generate_and_save_def wbind_eq handle_result_preserves split: sum.splits)

lemma main_resolved:
  assumes "environ_key pr = Some k" and "k \<noteq> []" and "parse_args pr = Parsed a"
    and "\<not> list_models_opt a" and "prompt a = Some p" and "p \<noteq> []"
    and "fst (resolve_dimensions pr a w) = Return (wd, ht)"
  shows "main env pr w = generate_and_save env k p a wd ht w"
  using assms(1-6)
proof (cases rule: main_generation_cases [where env = env and w = w])
  case (stopped e)
  from stopped(1) have "fst (resolve_dimensions pr a w) = Raise e" by (metis fst_conv)
  with assms(7) show ?thesis by simp
next
  case (generated wd' ht')
  with assms(7) show ?thesis by simp
qed

text \<open>
  C26: Without an API key, that is with \<open>VENICE_API_KEY\<close> unset or empty, \<open>main\<close>
  prints the one line that asks for it on the standard error and ends with exit
  status 1, before the command line is looked at and before anything is sent or
  written.
\<close>

theorem main_requires_key:
  assumes "environ_key pr = None \<or> environ_key pr = Some []"
  shows "main env pr w =
     (Raise (SystemExit 1),
      w\<lparr>stderr := stderr w @ [''Error: VENICE_API_KEY environment variable is required'']\<rparr>)"
  using main_no_key [OF assms] by (simp add: print_err_def)

text \<open>
  C7: Once the command line has been parsed, \<open>main\<close> ends in one of eight ways
  and in no other: normally, with \<open>sys.exit(1)\<close>, with the exit status 2 of
  \<open>parser.error\<close>, or with a traceback of one of five exceptions that no handler
  of the program catches: \<open>ZeroDivisionError\<close> and \<open>OverflowError\<close> from the
  resolver, \<open>AttributeError\<close>, \<open>TypeError\<close> and \<open>KeyError\<close> from an answer of an
  unexpected shape. A \<open>ValueError\<close> never leaves \<open>main\<close>.
\<close>

theorem main_outcomes:
  assumes "parse_args pr = Parsed a"
  shows "fst (main env pr w) \<in>
     {Return (), Raise (SystemExit 1), Raise (SystemExit 2), Raise ZeroDivisionError,
      Raise OverflowError, Raise AttributeError, Raise TypeError, Raise KeyError}"
proof (cases rule: main_cases [of pr])
  case no_key
  then show ?thesis by (simp add: main_no_key)
next
  case (parse_exit k n)
  with assms show ?thesis by simp
next
  case (listing k a')
  then have "main env pr w = list_models env (VeniceImageGenerator k) (verbose a') w"
    by (rule main_list_models)
  then show ?thesis
    by (cases "fst (main env pr w)") (auto dest: list_models_raises)
next
  case (no_prompt k a')
  then show ?thesis by (simp add: main_no_prompt)
next
  case (generation k a' p)
  then show ?thesis
  proof (cases rule: main_generation_cases [where env = env and w = w])
    case (stopped e)
    then show ?thesis by auto
  next
    case (generated wd ht)
    then show ?thesis
      by (cases "fst (main env pr w)") (auto dest: generate_and_save_raises)
  qed
qed

text \<open>
  C12: A configuration error is reported before any network call: whenever
  \<open>main\<close> ends with the exit status 2 of \<open>parser.error\<close>, no request has been
  sent, no file has been written and nothing has been printed on the standard
  output.
\<close>

theorem main_usage_error_sends_nothing:
  assumes "fst (main env pr w) = Raise (SystemExit 2)"
  shows "sent (snd (main env pr w)) = sent w \<and> files (snd (main env pr w)) = files w
    \<and> stdout (snd (main env pr w)) = stdout w"
proof (cases rule: main_cases [of pr])
  case no_key
  with assms show ?thesis by (simp add: main_no_key)
next
  case (parse_exit k n)
  then show ?thesis by (simp add: main_parse_exit)
next
  case (listing k a)
  then have "main env pr w = list_models env (VeniceImageGenerator k) (verbose a) w"
    by (rule main_list_models)
  with assms show ?thesis by (auto dest: list_models_raises)
next
  case (no_prompt k a)
  then show ?thesis by (simp add: main_no_prompt)
next
  case (generation k a p)
  then show ?thesis
  proof (cases rule: main_generation_cases [where env = env and w = w])
    case (stopped e)
    then show ?thesis by simp
  next
    case (generated wd ht)
    with assms show ?thesis by (auto dest: generate_and_save_raises)
  qed
qed

text \<open>
  No run of \<open>main\<close>, whatever the key, the arguments and the answers of the
  server, changes or removes a node that the file system held before: at most a
  new file is added.
\<close>

theorem main_never_overwrites:
  assumes "map_of (files w) f = Some n"
  shows "map_of (files (snd (main env pr w))) f = Some n"
proof (cases rule: main_cases [of pr])
  case no_key
  with assms show ?thesis by (simp add: main_no_key)
next
  case (parse_exit k n)
  with assms show ?thesis by (simp add: main_parse_exit)
next
  case (listing k a)
  with assms show ?thesis by (simp add: main_list_models)
next
  case (no_prompt k a)
  with assms show ?thesis by (simp add: main_no_prompt)
next
  case (generation k a p)
  then show ?thesis
  proof (cases rule: main_generation_cases [where env = env and w = w])
    case (stopped e)
    with assms show ?thesis by simp
  next
    case (generated wd ht)
    with assms show ?thesis by (simp add: generate_and_save_preserves)
  qed
qed

text \<open>
  C17: A run of \<open>main\<close> sends at most one request, and the request it sends
  carries the key of the environment as bearer token: there is no retry and no
  second call.
\<close>

theorem main_at_most_one_request:
  "sent (snd (main env pr w)) = sent w
   \<or> (\<exists>k rq. environ_key pr = Some k
        \<and> req_headers rq =
            [(''Authorization'', ''Bearer '' @ k), (''Content-Type'', ''application/json'')]
        \<and> sent (snd (main env pr w)) = sent w @ [rq])"
proof (cases rule: main_cases [of pr])
  case no_key
  then show ?thesis by (simp add: main_no_key)
next
  case (parse_exit k n)
  then show ?thesis by (simp add: main_parse_exit)
next
  case (listing k a)
  then show ?thesis
    by (simp add: main_list_models models_request_def VeniceImageGenerator_def)
next
  case (no_prompt k a)
  then show ?thesis by (simp add: main_no_prompt)
next
  case (generation k a p)
  then show ?thesis
  proof (cases rule: main_generation_cases [where env = env and w = w])
    case (stopped e)
    then show ?thesis by simp
  next
    case (generated wd ht)
    with generation(1) show ?thesis
      by (simp add: generate_and_save_sent image_request_def VeniceImageGenerator_def)
  qed
qed

section \<open>Configuration errors\<close>

text \<open>
  C27: An aspect ratio together with a width or a height other than 0 is
  refused by \<open>parser.error\<close>: the usage and the message on the standard error and
  exit status 2, not the status 1 of the other fatal conditions; nothing is sent.
\<close>

theorem main_rejects_ar_with_size:
  assumes "environ_key pr = Some k" and "k \<noteq> []" and "parse_args pr = Parsed a"
    and "\<not> list_models_opt a" and "prompt a = Some p" and "p \<noteq> []"
    and "aspect_ratio a = Some ar" and "ar \<noteq> []"
    and "(\<exists>n. width a = Some n \<and> n \<noteq> 0) \<or> (\<exists>n. height a = Some n \<and> n \<noteq> 0)"
  shows "main env pr w =
     (Raise (SystemExit 2),
      w\<lparr>stderr := stderr w @
        [usage pr, prog pr @ '': error: Cannot specify both --ar and --width/--height'']\<rparr>)"
proof -
  from assms(7-9) have "resolve_dimensions pr a w =
      parser_error pr ''Cannot specify both --ar and --width/--height'' w"
    by (auto simp: resolve_dimensions_def truthy_opt_int)
  then show ?thesis
    by (simp add: main_generation [OF assms(1-6)] parser_error_def print_err_def)
qed


text \<open>
  C28: When the resolver refuses the token with its \<open>ValueError\<close>, \<open>main\<close> turns it
  into \<open>parser.error\<close> with the same message: usage and
  \<open>Invalid aspect ratio: <token>\<close> on the standard error, exit status 2.
\<close>

theorem main_invalid_aspect_ratio:
  assumes "environ_key pr = Some k" and "k \<noteq> []" and "parse_args pr = Parsed a"
    and "\<not> list_models_opt a" and "prompt a = Some p" and "p \<noteq> []"
    and "aspect_ratio a = Some ar" and "ar \<noteq> []" and "width a = None" and "height a = None"
    and "parse_aspect_ratio ar = Raise (invalid_aspect_ratio ar)"
  shows "main env pr w =
     (Raise (SystemExit 2),
      w\<lparr>stderr := stderr w @ [usage pr, prog pr @ '': error: Invalid aspect ratio: '' @ ar]\<rparr>)"
proof -
  from assms(7-11) have "resolve_dimensions pr a w =
      parser_error pr (''Invalid aspect ratio: '' @ ar) w"
    by (simp add: resolve_dimensions_def invalid_aspect_ratio_def exn_message_def)
  then show ?thesis
    by (simp add: main_generation [OF assms(1-6)] parser_error_def print_err_def)
qed

text \<open>
  C33: A \<open>ZeroDivisionError\<close> of the resolver is not a \<open>ValueError\<close>, so the
  handler in \<open>main\<close> does not catch it: the run ends with that exception, and
  nothing has been printed by the program, sent or written.
\<close>

theorem main_aspect_ratio_crash:
  assumes "environ_key pr = Some k" and "k \<noteq> []" and "parse_args pr = Parsed a"
    and "\<not> list_models_opt a" and "prompt a = Some p" and "p \<noteq> []"
    and "aspect_ratio a = Some ar" and "ar \<noteq> []" and "width a = None" and "height a = None"
    and "parse_aspect_ratio ar = Raise ZeroDivisionError"
  shows "main env pr w = (Raise ZeroDivisionError, w)"
proof -
  from assms(7-11) have "resolve_dimensions pr a w = (Raise ZeroDivisionError, w)"
    by (simp add: resolve_dimensions_def)
  then show ?thesis by (simp add: main_generation [OF assms(1-6)])
qed

text \<open>
  Without \<open>--list-models\<close> a missing or empty prompt is refused by
  \<open>parser.error\<close>.
\<close>

theorem main_prompt_required:
  assumes "environ_key pr = Some k" and "k \<noteq> []" and "parse_args pr = Parsed a"
    and "\<not> list_models_opt a" and "prompt a = None \<or> prompt a = Some []"
  shows "main env pr w =
     (Raise (SystemExit 2),
      w\<lparr>stderr := stderr w @
        [usage pr,
         prog pr @ '': error: Prompt is required for image generation. Use --list-models to see available models.'']\<rparr>)"
  using main_no_prompt [OF assms] by (simp add: parser_error_def print_err_def)

section \<open>The run that saves an image\<close>

lemma handle_result_saved:
  assumes "map_of d ''images'' = Some (PList (PStr b64 # rest))"
    and "save_image w b64 (output_arg a)
           (py_str (float_repr env) (dict_get d ''id'' (PStr ''generated_image''))) (format a)
         = (Return filename, w')"
  shows "handle_result env a (PDict d) w =
     report_timing (PDict d) (print_out (''Image saved as: '' @ filename) w')"
  using assms by (simp add: handle_result_eq dict_get_def val_first_def save_image_dyn_def)

lemma handle_result_no_images:
  assumes "map_of d ''images'' = None \<or> map_of d ''images'' = Some (PList [])"
  shows "handle_result env a (PDict d) w =
     (Raise (SystemExit 1), print_err ''No images returned from API'' w)"
  using assms by (auto simp: handle_result_eq dict_get_def)

lemma report_timing_absent:
  "map_of d ''timing'' = None \<Longrightarrow> report_timing (PDict d) w = (Return (), w)"
  by (simp add: report_timing_def dict_get_def)

lemma report_timing_total:
  assumes "map_of d ''timing'' = Some (PDict t)" and "t \<noteq> []"
    and "map_of t ''total'' = Some (PInt n)" and "fl (of_int n / 1000) = Fin r"
  shows "report_timing (PDict d) w =
     (Return (), print_out (''Generation completed in '' @ format_2f (Fin r) @ '' seconds'') w)"
  using assms by (simp add: report_timing_def dict_get_def div_1000_def)

text \<open>
  A timing entry that \<open>main\<close> can report: none at all, or a dictionary whose
  \<open>total\<close> is a number of milliseconds from 0 to below 2048000.
\<close>

definition timing_ok :: "pydict \<Rightarrow> bool" where
  "timing_ok d =
     (case map_of d ''timing'' of
        None \<Rightarrow> True
      | Some (PDict t) \<Rightarrow>
          (case map_of t ''total'' of Some (PInt n) \<Rightarrow> 0 \<le> n \<and> n < 2048000 | _ \<Rightarrow> False)
      | Some _ \<Rightarrow> False)"

lemma div_1000_returns:
  assumes "0 \<le> n" and "n < 2048000"
  shows "\<exists>r. div_1000 (PInt n) = Return (Fin r)"
proof -
  from assms fl_quotient [of 1000 n] obtain r where "fl (of_int n / 1000) = Fin r" by auto
  then show ?thesis by (simp add: div_1000_def)
qed

lemma report_timing_returns:
  assumes "timing_ok d"
  shows "fst (report_timing (PDict d) w) = Return ()"
proof (cases "map_of d ''timing''")
  case None
  then show ?thesis by (simp add: report_timing_absent)
next
  case (Some timing)
  with assms obtain t n where t: "timing = PDict t" "map_of t ''total'' = Some (PInt n)"
    and n: "0 \<le> n" "n < 2048000"
    by (auto simp: timing_ok_def split: pyval.splits option.splits)
  from n obtain r where "div_1000 (PInt n) = Return (Fin r)"
    using div_1000_returns by blast
  with Some t show ?thesis
    by (auto simp: report_timing_def dict_get_def)
qed

lemma generate_and_save_answer:
  assumes "transport env (image_request (VeniceImageGenerator k) p (model a) (gen_params a wd ht))
      = Reply resp"
    and "status_code resp < 400 \<or> 600 \<le> status_code resp"
    and "json_value resp = Inr result"
  shows "generate_and_save env k p a wd ht w =
     handle_result env a result
       ((print_out (generating_line a) w)
          \<lparr>sent := sent w @ [image_request (VeniceImageGenerator k) p (model a) (gen_params a wd ht)]\<rparr>)"
proof -
  from assms have "fst (fetch env (image_request (VeniceImageGenerator k) p (model a)
      (gen_params a wd ht)) (print_out (generating_line a) w)) = Inr result"
    by (auto simp: fetch_eq response_json_def)
  then show ?thesis by (simp add: generate_and_save_def generate_image_eq)
qed

text \<open>
  The run with the state it ends in: when \<open>save_image\<close> returns a file name on
  the first image of the answer and the answer has no timing, \<open>main\<close> ends
  normally in the world that \<open>save_image\<close> left, with the line that names the file.
\<close>

theorem main_saves_image:
  assumes "environ_key pr = Some k" and "k \<noteq> []" and "parse_args pr = Parsed a"
    and "\<not> list_models_opt a" and "prompt a = Some p" and "p \<noteq> []"
    and "aspect_ratio a = None"
    and "transport env (image_request (VeniceImageGenerator k) p (model a)
          (gen_params a (opt_val PInt (width a)) (opt_val PInt (height a)))) = Reply resp"
    and "status_code resp < 400 \<or> 600 \<le> status_code resp"
    and "json_value resp = Inr (PDict d)"
    and "map_of d ''images'' = Some (PList (PStr b64 # rest))"
    and "map_of d ''timing'' = None"
    and "save_image
           ((print_out (generating_line a) w)
              \<lparr>sent := sent w @ [image_request (VeniceImageGenerator k) p (model a)
                 (gen_params a (opt_val PInt (width a)) (opt_val PInt (height a)))]\<rparr>)
           b64 (output_arg a)
           (py_str (float_repr env) (dict_get d ''id'' (PStr ''generated_image''))) (format a)
         = (Return filename, w')"
  shows "main env pr w = (Return (), print_out (''Image saved as: '' @ filename) w')"
proof -
  from assms(7) have "resolve_dimensions pr a w =
      (Return (opt_val PInt (width a), opt_val PInt (height a)), w)"
    by (simp add: resolve_dimensions_def)
  then have "main env pr w =
      generate_and_save env k p a (opt_val PInt (width a)) (opt_val PInt (height a)) w"
    by (simp add: main_generation [OF assms(1-6)] generate_and_save_def)
  also note generate_and_save_answer [OF assms(8-10)]
  also note handle_result_saved [OF assms(11,13)]
  also note report_timing_absent [OF assms(12)]
  finally show ?thesis .
qed

text \<open>
  C29: An answer without images, or with an empty list of them, ends the run
  with \<open>No images returned from API\<close> on the standard error and exit status 1;
  no file is written.
\<close>

theorem main_no_images:
  assumes "environ_key pr = Some k" and "k \<noteq> []" and "parse_args pr = Parsed a"
    and "\<not> list_models_opt a" and "prompt a = Some p" and "p \<noteq> []"
    and "aspect_ratio a = None"
    and "transport env (image_request (VeniceImageGenerator k) p (model a)
          (gen_params a (opt_val PInt (width a)) (opt_val PInt (height a)))) = Reply resp"
    and "status_code resp < 400 \<or> 600 \<le> status_code resp"
    and "json_value resp = Inr (PDict d)"
    and "map_of d ''images'' = None \<or> map_of d ''images'' = Some (PList [])"
  shows "fst (main env pr w) = Raise (SystemExit 1)
    \<and> files (snd (main env pr w)) = files w
    \<and> stderr (snd (main env pr w)) = stderr w @ [''No images returned from API'']"
proof -
  from assms(7) have "resolve_dimensions pr a w =
      (Return (opt_val PInt (width a), opt_val PInt (height a)), w)"
    by (simp add: resolve_dimensions_def)
  then have "main env pr w =
      generate_and_save env k p a (opt_val PInt (width a)) (opt_val PInt (height a)) w"
    by (simp add: main_generation [OF assms(1-6)] generate_and_save_def)
  also note generate_and_save_answer [OF assms(8-10)]
  also note handle_result_no_images [OF assms(11)]
  finally show ?thesis by simp
qed

section \<open>Example runs\<close>

definition example_args :: args where
  "example_args =
     \<lparr>list_models_opt = False, verbose = False, prompt = Some ''a cat'',
      model = ''venice-sd35'', negative_prompt = None, width = None, height = None,
      aspect_ratio = None, steps = None, cfg_scale = None, seed = None, style_preset = None,
      format = ''png'', output_arg = None, safe_mode = False\<rparr>"

definition example_process :: process where
  "example_process =
     \<lparr>environ_key = Some ''key'', parse_args = Parsed example_args, prog = ''venice'',
      usage = ''usage: venice [-h] [--list-models] [prompt]''\<rparr>"

definition with_args :: "args \<Rightarrow> process" where
  "with_args a = example_process\<lparr>parse_args := Parsed a\<rparr>"

definition plain_env :: pyenv where
  "plain_env =
     \<lparr>transport = (\<lambda>rq. Reply (answer 200 ''OK''
         (PDict [(''id'', PStr ''img42''), (''images'', PList [PStr ''aGk=''])]) rq)),
      float_repr = (\<lambda>x. []), json_dumps = (\<lambda>v. ''{}'')\<rparr>"

definition garbled_images_env :: pyenv where
  "garbled_images_env =
     \<lparr>transport = (\<lambda>rq. Reply (answer 200 ''OK'' (PDict [(''images'', PList [])]) rq)),
      float_repr = (\<lambda>x. []), json_dumps = (\<lambda>v. ''{}'')\<rparr>"

lemmas example_run_defs = example_args_def example_process_def with_args_def plain_env_def

theorem main_requires_key_witness:
  "main serving_env (example_process\<lparr>environ_key := None\<rparr>) example_net_world =
     (Raise (SystemExit 1),
      example_net_world
        \<lparr>stderr := [''Error: VENICE_API_KEY environment variable is required'']\<rparr>)"
  using main_requires_key [of "example_process\<lparr>environ_key := None\<rparr>" serving_env
      example_net_world]
  by (simp add: example_net_world_def)

theorem main_outcomes_witness:
  "fst (main serving_env example_process example_net_world) \<in>
     {Return (), Raise (SystemExit 1), Raise (SystemExit 2), Raise ZeroDivisionError,
      Raise OverflowError, Raise AttributeError, Raise TypeError, Raise KeyError}"
  using main_outcomes [of example_process example_args serving_env example_net_world]
  by (simp add: example_process_def)

theorem main_usage_error_sends_nothing_witness:
  "fst (main serving_env (with_args (example_args\<lparr>prompt := None\<rparr>)) example_net_world)
     = Raise (SystemExit 2)
   \<and> sent (snd (main serving_env (with_args (example_args\<lparr>prompt := None\<rparr>))
        example_net_world)) = []"
proof -
  let ?pr = "with_args (example_args\<lparr>prompt := None\<rparr>)"
  have "main serving_env ?pr example_net_world =
      parser_error ?pr
        ''Prompt is required for image generation. Use --list-models to see available models.''
        example_net_world"
    by (rule main_no_prompt [of _ "''key''" "example_args\<lparr>prompt := None\<rparr>"])
      (simp_all add: example_run_defs)
  then have 1: "fst (main serving_env ?pr example_net_world) = Raise (SystemExit 2)" by simp
  from 1 main_usage_error_sends_nothing [OF 1] show ?thesis
    by (simp add: example_net_world_def)
qed

theorem main_never_overwrites_witness:
  "map_of (files example_net_world) ''.'' = Some Dir
   \<and> map_of (files (snd (main serving_env example_process example_net_world))) ''.'' = Some Dir"
proof -
  have 1: "map_of (files example_net_world) ''.'' = Some Dir"
    by (simp add: example_net_world_def)
  from 1 main_never_overwrites [OF 1] show ?thesis by simp
qed

theorem main_rejects_ar_with_size_witness:
  "main serving_env
     (with_args (example_args\<lparr>aspect_ratio := Some ''square'', width := Some 512\<rparr>))
     example_net_world =
   (Raise (SystemExit 2),
    example_net_world
      \<lparr>stderr := [''usage: venice [-h] [--list-models] [prompt]'',
                  ''venice: error: Cannot specify both --ar and --width/--height'']\<rparr>)"
  using main_rejects_ar_with_size [of
      "with_args (example_args\<lparr>aspect_ratio := Some ''square'', width := Some 512\<rparr>)"
      "''key''" "example_args\<lparr>aspect_ratio := Some ''square'', width := Some 512\<rparr>"
      "''a cat''" "''square''" serving_env example_net_world]
  by (simp add: example_run_defs example_net_world_def)


theorem main_invalid_aspect_ratio_witness:
  "main serving_env (with_args (example_args\<lparr>aspect_ratio := Some ''wide''\<rparr>))
     example_net_world =
   (Raise (SystemExit 2),
    example_net_world
      \<lparr>stderr := [''usage: venice [-h] [--list-models] [prompt]'',
                  ''venice: error: Invalid aspect ratio: wide'']\<rparr>)"
proof -
  have "parse_aspect_ratio ''wide'' = Raise (invalid_aspect_ratio ''wide'')" by code_simp
  with main_invalid_aspect_ratio [of
      "with_args (example_args\<lparr>aspect_ratio := Some ''wide''\<rparr>)"
      "''key''" "example_args\<lparr>aspect_ratio := Some ''wide''\<rparr>"
      "''a cat''" "''wide''" serving_env example_net_world]
  show ?thesis by (simp add: example_run_defs example_net_world_def)
qed

theorem main_aspect_ratio_crash_witness:
  "main serving_env (with_args (example_args\<lparr>aspect_ratio := Some ''0:0''\<rparr>))
     example_net_world = (Raise ZeroDivisionError, example_net_world)"
proof -
  have "parse_aspect_ratio ''0:0'' = Raise ZeroDivisionError" by code_simp
  with main_aspect_ratio_crash [of
      "with_args (example_args\<lparr>aspect_ratio := Some ''0:0''\<rparr>)"
      "''key''" "example_args\<lparr>aspect_ratio := Some ''0:0''\<rparr>"
      "''a cat''" "''0:0''" serving_env example_net_world]
  show ?thesis by (simp add: example_run_defs)
qed

theorem main_prompt_required_witness:
  "main serving_env (with_args (example_args\<lparr>prompt := None\<rparr>)) example_net_world =
   (Raise (SystemExit 2),
    example_net_world
      \<lparr>stderr := [''usage: venice [-h] [--list-models] [prompt]'',
                  ''venice: error: Prompt is required for image generation. Use --list-models to see available models.'']\<rparr>)"
  using main_prompt_required [of "with_args (example_args\<lparr>prompt := None\<rparr>)" "''key''"
      "example_args\<lparr>prompt := None\<rparr>" serving_env example_net_world]
  by (simp add: example_run_defs example_net_world_def)

definition example_request :: http_request where
  "example_request =
     image_request (VeniceImageGenerator ''key'') ''a cat'' ''venice-sd35''
       (gen_params example_args PNone PNone)"

theorem main_saves_image_witness:
  "main plain_env example_process example_net_world =
     (Return (),
      \<lparr>files = [(''.'', Dir), (''img42.png'', File [104, 105])],
       stdout = [''Generating image with model '' @ [CHR 0x27] @ ''venice-sd35'' @ [CHR 0x27] @ ''...'',
                 ''Image saved as: img42.png''],
       stderr = [], sent = [example_request]\<rparr>)"
proof -
  let ?d = "[(''id'', PStr ''img42''), (''images'', PList [PStr ''aGk=''])]"
  let ?W = "(print_out (generating_line example_args) example_net_world)
      \<lparr>sent := sent example_net_world @ [image_request (VeniceImageGenerator ''key'') ''a cat''
         (model example_args)
         (gen_params example_args (opt_val PInt (width example_args))
            (opt_val PInt (height example_args)))]\<rparr>"
  have save: "save_image ?W ''aGk='' (output_arg example_args)
        (py_str (float_repr plain_env) (dict_get ?d ''id'' (PStr ''generated_image'')))
        (format example_args)
      = (Return ''img42.png'', ?W\<lparr>files := [(''.'', Dir), (''img42.png'', File [104, 105])]\<rparr>)"
    by code_simp
  have "main plain_env example_process example_net_world =
      (Return (), print_out (''Image saved as: '' @ ''img42.png'')
         (?W\<lparr>files := [(''.'', Dir), (''img42.png'', File [104, 105])]\<rparr>))"
    by (rule main_saves_image [where k = "''key''" and a = example_args and p = "''a cat''"
          and d = ?d and ?b64.0 = "''aGk=''" and rest = "[]"
          and resp = "answer 200 ''OK'' (PDict ?d) (image_request (VeniceImageGenerator ''key'')
            ''a cat'' (model example_args)
            (gen_params example_args (opt_val PInt (width example_args))
               (opt_val PInt (height example_args))))", OF _ _ _ _ _ _ _ _ _ _ _ _ save])
      (simp_all add: example_run_defs answer_def)
  then show ?thesis
    by (simp add: example_request_def example_run_defs example_net_world_def print_out_def
        generating_line_def)
qed

theorem main_no_images_witness:
  "fst (main garbled_images_env example_process example_net_world) = Raise (SystemExit 1)
   \<and> files (snd (main garbled_images_env example_process example_net_world)) = [(''.'', Dir)]
   \<and> stderr (snd (main garbled_images_env example_process example_net_world)) =
       [''No images returned from API'']"
  using main_no_images [where pr = example_process and k = "''key''" and a = example_args
      and p = "''a cat''" and env = garbled_images_env and d = "[(''images'', PList [])]"
      and w = example_net_world
      and resp = "answer 200 ''OK'' (PDict [(''images'', PList [])])
        (image_request (VeniceImageGenerator ''key'') ''a cat'' (model example_args)
          (gen_params example_args (opt_val PInt (width example_args))
             (opt_val PInt (height example_args))))"]
  by (simp add: example_run_defs garbled_images_env_def answer_def example_net_world_def)

end
