(* ===== verification/Effects.thy ===== *)
theory Effects
  imports Cli "HOL-Library.Sublist"
begin

text \<open>
  The ways in which the program acts on the world, as a transition relation that
  all components share: a line on the standard output, a line on the standard
  error, a request, and the creation of a file that did not exist. Each operation
  of the client and of the driver is shown to move the world by such steps only;
  what every step keeps then holds of every operation, by induction over the
  steps.
\<close>

section \<open>Steps\<close>

inductive effect :: "'a net_world_scheme \<Rightarrow> 'a net_world_scheme \<Rightarrow> bool" where
  out: "effect w (print_out line w)"
| err: "effect w (print_err line w)"
| request: "effect w (w\<lparr>sent := sent w @ [rq]\<rparr>)"
| create: "map_of (files w) p = None \<Longrightarrow>
     effect w (w\<lparr>files := AList.update p (File data) (files w)\<rparr>)"

inductive_cases effectE: "effect w w'"

abbreviation effects :: "'a net_world_scheme \<Rightarrow> 'a net_world_scheme \<Rightarrow> bool" where
  "effects \<equiv> effect\<^sup>*\<^sup>*"

lemmas effects_trans = rtranclp_trans [of effect]

lemma effects_step [intro]:
  "effects w (print_out line w)"
  "effects w (print_err line w)"
  "effects w (w\<lparr>sent := sent w @ [rq]\<rparr>)"
  by (auto intro: effect.intros)

lemma effects_then:
  "effects w w' \<Longrightarrow> effects w (print_out line w')"
  "effects w w' \<Longrightarrow> effects w (print_err line w')"
  by (auto intro: effect.intros rtranclp.rtrancl_into_rtrancl)

section \<open>What every step keeps\<close>

text \<open>
  The order in which a world extends another: every node of the file system is
  still there, and the two streams and the list of requests have only grown at
  their ends.
\<close>

definition extends :: "'a net_world_scheme \<Rightarrow> 'a net_world_scheme \<Rightarrow> bool" where
  "extends w w' \<longleftrightarrow>
     map_of (files w) \<subseteq>\<^sub>m map_of (files w')
     \<and> prefix (stdout w) (stdout w') \<and> prefix (stderr w) (stderr w')
     \<and> prefix (sent w) (sent w')"

lemma extends_refl [simp]: "extends w w"
  by (simp add: extends_def)

lemma extends_trans: "extends w w' \<Longrightarrow> extends w' w'' \<Longrightarrow> extends w w''"
  by (auto simp: extends_def intro: map_le_trans prefix_order.order_trans)

lemma effect_extends: "effect w w' \<Longrightarrow> extends w w'"
proof (induction rule: effect.induct)
  case (create w p data)
  then show ?case by (auto simp: extends_def map_le_def update_conv)
qed (simp_all add: extends_def)

lemma effects_extends: "effects w w' \<Longrightarrow> extends w w'"
  by (induction rule: rtranclp_induct) (auto intro: extends_trans effect_extends)

section \<open>The operations move by steps\<close>

lemma effects_report_error: "effects w (report_error env e w)"
  by (auto simp: report_error_def Let_def intro: effects_then split: option.splits sum.splits)

lemma effects_fetch: "effects w (snd (fetch env rq w))"
  by auto

lemma effects_generate_image: "effects w (snd (generate_image env self p m kwargs w))"
  by (auto simp: generate_image_eq intro: effects_trans [OF _ effects_report_error]
      split: sum.splits)

lemma effects_print_models: "effects w (snd (print_models env models w))"
proof (induction models arbitrary: w)
  case (Cons model models)
  show ?case
  proof (cases "model_line env model")
    case (Inr line)
    have "effects w (print_out line w)" by (rule effects_step)
    from this Cons [of "print_out line w"] have "effects w (snd (print_models env models (print_out line w)))"
      by (rule effects_trans)
    with Inr show ?thesis by simp
  qed simp
qed simp

lemma effects_list_models: "effects w (snd (list_models env self vb w))"
proof -
  let ?w1 = "w\<lparr>sent := sent w @ [models_request self]\<rparr>"
  have 1: "effects w ?w1" by (rule effects_step)
  then have 2: "effects w (print_out ''Available models:'' ?w1)" by (rule effects_then)
  from 2 effects_print_models
  have "effects w (snd (print_models env models (print_out ''Available models:'' ?w1)))" for models
    by (rule effects_trans)
  with 1 2 show ?thesis
    by (auto simp: list_models_eq intro: effects_then split: sum.splits)
qed

lemma effects_save_image: "effects w (snd (save_image w b64 output_path image_id fmt))"
proof (rule save_image_cases [of w b64 output_path image_id fmt], goal_cases)
  case saved: (1 filename data fs')
  from saved(2) have free: "map_of (files w) (path_str filename) = None"
    using find_free_not_exists [of "files w"] by (simp add: path_exists_def)
  from saved(4) have "fs' = AList.update (path_str filename) (File data) (files w)"
    by (auto simp: write_file_def split: if_splits)
  with free have "effect w (w\<lparr>files := fs'\<rparr>)" by (simp add: effect.create)
  with saved(1) show ?case by simp
next
  case failed: (2 e)
  have "effects w (print_err (''Error saving image: '' @ exn_message e) w)" by (rule effects_step)
  with failed(1) show ?case by (simp add: print_err_def)
qed

lemma effects_save_image_dyn:
  "effects w (snd (save_image_dyn env b64 output_path image_id fmt w))"
  by (cases b64) (auto simp: save_image_dyn_def effects_save_image)

lemma effects_parser_error: "effects w (snd (parser_error pr msg w))"
  by (auto simp: parser_error_def intro: effects_then)

lemma effects_resolve_dimensions: "effects w (snd (resolve_dimensions pr a w))"
  by (rule resolve_dimensions_cases [of a pr w]) (simp_all add: effects_parser_error)

lemma effects_report_timing: "effects w (snd (report_timing result w))"
  by (rule report_timing_cases [of result w]) auto

lemma effects_handle_result: "effects w (snd (handle_result env a result w))"
proof -
  have "effects w (snd (report_timing result (print_out line w1)))"
    if "save_image_dyn env b (output_arg a) i (format a) w = (r, w1)" for b i r w1 line
  proof -
    from that effects_save_image_dyn [of w env b "output_arg a" i "format a"]
    have "effects w w1" by simp
    then have "effects w (print_out line w1)" by (rule effects_then)
    from this effects_report_timing show ?thesis by (rule effects_trans)
  qed
  moreover have "effects w w1"
    if "save_image_dyn env b (output_arg a) i (format a) w = (r, w1)" for b i r w1
    using that effects_save_image_dyn [of w env b "output_arg a" i "format a"] by simp
  ultimately show ?thesis
    by (auto simp: handle_result_eq split: sum.splits prod.splits)
qed

lemma effects_generate_and_save: "effects w (snd (generate_and_save env k p a wd ht w))"
proof -
  let ?g = "generate_image env (VeniceImageGenerator k) p (model a) (gen_params a wd ht)
      (print_out (generating_line a) w)"
  have "effects w (print_out (generating_line a) w)" by (rule effects_step)
  from this effects_generate_image have g: "effects w (snd ?g)" by (rule effects_trans)
  from g effects_handle_result have "effects w (snd (handle_result env a result (snd ?g)))"
    for result by (rule effects_trans)
  with g show ?thesis
    by (simp add: generate_and_save_def wbind_eq split: sum.splits)
qed

lemma effects_main: "effects w (snd (main env pr w))"
proof (cases rule: main_cases [of pr])
  case no_key
  then show ?thesis by (auto simp: main_no_key)
next
  case (parse_exit k n)
  then show ?thesis by (simp add: main_parse_exit)
next
  case (listing k a)
  then show ?thesis by (simp add: main_list_models effects_list_models)
next
  case (no_prompt k a)
  then show ?thesis by (simp add: main_no_prompt effects_parser_error)
next
  case (generation k a p)
  then show ?thesis
  proof (cases rule: main_generation_cases [where env = env and w = w])
    case (stopped e)
    then show ?thesis using effects_resolve_dimensions [of w pr a] by simp
  next
    case (generated wd ht)
    then show ?thesis by (simp add: effects_generate_and_save)
  qed
qed

section \<open>Properties of every run\<close>

text \<open>
  C16: A run of \<open>main\<close> only adds to the world: whatever the key, the arguments
  and the answers of the server, every node of the file system is still there
  unchanged when the run ends, and the standard output, the standard error and
  the list of requests have only grown at their ends.
\<close>

theorem main_only_appends:
  "map_of (files w) \<subseteq>\<^sub>m map_of (files (snd (main env pr w)))
   \<and> prefix (stdout w) (stdout (snd (main env pr w)))
   \<and> prefix (stderr w) (stderr (snd (main env pr w)))
   \<and> prefix (sent w) (sent (snd (main env pr w)))"
  using effects_extends [OF effects_main [of w env pr]] by (simp add: extends_def)

end
