(* ===== verification/Spec2Isabelle.thy ===== *)
theory Spec2Isabelle
  imports Aspect_Ratio Request Persist Client Cli Effects
begin

text \<open>
  A verification development for the Venice image generation command-line client,
  \<open>src/venice_image_gen.py\<close>.

  \<^bold>\<open>The program.\<close> One Python file with a class \<open>VeniceImageGenerator\<close> and two
  functions. \<open>main\<close> reads the API key and the command line, resolves the
  \<open>--ar\<close> token to a pair of pixel dimensions with \<open>parse_aspect_ratio\<close>, collects
  the generation parameters, and calls \<open>generate_image\<close>, which builds the JSON
  payload and posts it. The first image of the answer is passed to \<open>save_image\<close>,
  which picks a file name that is not taken, decodes the base64 text and writes
  the file. \<open>list_models\<close> is a second, independent command.

  \<^bold>\<open>The theories.\<close>
  \<^item> \<open>Py_Prelude\<close>: exceptions as a datatype \<open>exn\<close>, results \<open>exn + 'a\<close> with \<open>rbind\<close>,
    truncation of a rational towards zero, and the collections \<open>py_defs\<close> and
    \<open>py_intros\<close>.
  \<^item> \<open>Py_String\<close>: \<open>str.lower\<close>, \<open>str.split\<close> and the stripping that \<open>float\<close>
    applies, the decimal text of a natural number (\<open>str_nat\<close>) and its inverse.
  \<^item> \<open>Py_Float\<close>: Python's \<open>float\<close>. Finite values are the rationals they denote;
    \<open>fl\<close> rounds an exact result to binary64 (nearest, ties to even, subnormals,
    overflow to an infinity); \<open>float_mul\<close>, \<open>float_div\<close>, \<open>float_ge\<close>,
    \<open>float_to_int\<close> are the operators \<open>*\<close>, \<open>/\<close>, \<open>>=\<close> and \<open>int\<close>; \<open>float_of_str\<close>
    is \<open>float(s)\<close>. The lemmas bound the rounding error by half a spacing
    (\<open>round_to_double_error\<close>), show integers below \<open>2\<^sup>5\<^sup>3\<close> exact (\<open>fl_of_int\<close>) and
    derive \<open>fl_quotient\<close>: the truncated float quotient of two integers is their
    integer quotient.
  \<^item> \<open>Aspect_Ratio\<close>: \<open>ASPECT_RATIOS\<close> and \<open>parse_aspect_ratio\<close> (lines 25--38 and
    141--168), with \<open>custom_ratio\<close> for the \<open>try\<close> block, \<open>scaled_side\<close> for
    \<open>int(base_size * a / b)\<close> and \<open>round_up_8\<close> for \<open>((n + 7) // 8) * 8\<close>.
  \<^item> \<open>Py_Value\<close>: the values of JSON and of keyword arguments (\<open>pyval\<close>), their
    truthiness, dictionaries as association lists in insertion order, and the
    operations that the program applies to a decoded answer without knowing its
    shape: \<open>val_get\<close> for \<open>.get\<close>, \<open>val_iter\<close> for a \<open>for\<close> loop, \<open>val_first\<close>
    for \<open>[0]\<close>, \<open>val_join\<close> for \<open>', '.join\<close>, \<open>py_str\<close> and \<open>py_repr\<close> for the
    text an f-string inserts. Each raises what Python raises on a value of the
    wrong type.
  \<^item> \<open>Request\<close>: the payload construction of \<open>generate_image\<close> (lines 77--95) as
    \<open>build_payload\<close>, a fold of the loop body \<open>add_optional\<close> over
    \<open>optional_params\<close>, and its declarative specification \<open>payload_spec\<close>.
  \<^item> \<open>Py_Path\<close>: the part of \<open>pathlib\<close> that \<open>save_image\<close> uses: \<open>stem\<close>, \<open>suffix\<close>
    and the normal form of a path string.
  \<^item> \<open>Py_Base64\<close>: \<open>base64.b64decode\<close> in its default, non-strict mode, as the
    loop of CPython's \<open>binascii.a2b_base64\<close> over 8-bit words, and the standard
    encoder \<open>b64encode\<close> as the reference for the round trip.
  \<^item> \<open>Persist\<close>: \<open>save_image\<close> (lines 112--138) over a \<open>world\<close> that holds the
    file system, the standard output and the standard error; the \<open>while\<close> loop is
    the recursive function \<open>find_free\<close>.
  \<^item> \<open>Client\<close>: the constructor, \<open>list_models\<close> (lines 48--71) and
    \<open>generate_image\<close> (lines 73--110) over a \<open>net_world\<close>, the world extended by
    the list \<open>sent\<close> of the requests attempted so far. \<open>fetch\<close> is the \<open>try\<close> block
    shared by the two methods (request, \<open>raise_for_status\<close>, \<open>json\<close>),
    \<open>report_error\<close> the \<open>except\<close> block of \<open>generate_image\<close>, \<open>print_models\<close>
    the loop of \<open>list_models\<close>.
  \<^item> \<open>Cli\<close>: \<open>main\<close> (lines 171--291) over a \<open>process\<close>: the value of
    \<open>VENICE_API_KEY\<close>, the outcome of \<open>parse_args\<close> as a record \<open>args\<close> or an
    exit, and the texts of \<open>parser.error\<close>. \<open>resolve_dimensions\<close> is the block
    \<open>Handle dimensions\<close>, \<open>gen_params\<close> the seven \<open>if\<close> statements that collect
    the parameters, \<open>handle_result\<close> and \<open>report_timing\<close> the lines after the
    call of \<open>generate_image\<close>; \<open>wbind\<close> sequences steps that may raise over the
    world.
  \<^item> \<open>Effects\<close>: the four ways in which the program acts on the world (a line
    on either stream, a request, a new file) as an inductive step relation
    \<open>effect\<close>; every operation of the client and the driver moves the world by
    such steps, and what each step keeps holds of every run.
  \<^item> This theory: the properties that span components, from the command line
    to the payload, from the resolver to the request, and the whole run that
    saves an image.

  \<^bold>\<open>The environment.\<close> What the program does not decide is a parameter. The
  record \<open>pyenv\<close> holds \<open>transport\<close>, the answer of the network to a request (a
  response, or a failure of the connection), \<open>float_repr\<close> and \<open>json_dumps\<close>, two
  library functions whose text is only printed. The theorems hold for every
  environment; the example environments \<open>serving_env\<close>, \<open>refusing_env\<close>,
  \<open>garbled_env\<close> and \<open>plain_env\<close> instantiate them.

  \<^bold>\<open>What is proved.\<close>
  \<^item> Resolver: presets resolve case-insensitively to their pairs; on tokens \<open>W:H\<close>
    of natural numbers below \<open>2\<^sup>4\<^sup>3\<close> the two float operations give exactly the
    integer result (\<open>parse_aspect_ratio_integers\<close>), from which the rule of the
    specification follows for \<open>W \<ge> H\<close> and for \<open>W < H\<close>; the outcomes are
    classified (\<open>parse_aspect_ratio_outcomes\<close>), and each error path has its
    theorem: malformed tokens, a zero divisor, NaN, an infinite quotient.
  \<^item> Request builder: \<open>build_payload\<close> refines \<open>payload_spec\<close>; the fixed fields
    are always present; an optional field is present exactly when it was given
    with a value other than \<open>None\<close>.
  \<^item> Base64: the sextets of three bytes recombine to these bytes (bitwise, on
    8-bit words), and so \<open>b64decode (b64encode bs) = Return bs\<close>.
  \<^item> File persister: the collision loop ends and returns a name that does not
    exist; as a transition system on the pairs \<open>(filename, counter)\<close> it has
    \<open>find_free\<close> as its result, every run of it is finite, and its invariant
    (by rule induction over the reachable states) makes the name it ends with
    the first free one; \<open>save_image\<close> changes no existing node; after \<open>k\<close> collisions it writes
    \<open>stem_k.suffix\<close>; a decoding failure writes nothing and ends in \<open>sys.exit(1)\<close>;
    in an existing current directory a name without directory part is always
    saved, with the bytes that were encoded.
  \<^item> Client: \<open>generate_image\<close> attempts one request and returns the decoded
    answer or prints one error line and exits with 1 (\<open>fetch_cases\<close>,
    \<open>generate_image_outcomes\<close>); the request is the POST with the bearer token and
    the payload; \<open>list_models\<close> prints one line per model of a well-shaped
    answer and raises on the others.
  \<^item> Driver: the five paths through \<open>main\<close> (\<open>main_cases\<close>) and the two ends of
    the generation path (\<open>main_generation_cases\<close>); the eight outcomes
    (\<open>main_outcomes\<close>); a usage error sends nothing; no run overwrites a file;
    at most one request is sent; each configuration error has its theorem.
  \<^item> Effects: every run of \<open>main\<close> only adds to the world
    (\<open>main_only_appends\<close>): existing nodes stay, the streams and the list of
    requests grow at their ends.
  \<^item> Across components: every payload that \<open>main\<close> builds is well typed
    (\<open>payload_well_typed\<close>); an optional field is sent exactly when its argument
    is truthy; the dimensions of the resolver are the ones sent; and
    \<open>main_saves_served_image\<close>: a run that the server answers with an image ends
    normally with a new file that holds the decoded bytes.

  \<^bold>\<open>Bounds.\<close> The bound \<open>2\<^sup>4\<^sup>3\<close> in the resolver theorems is what the error
  analysis needs: the product of 1024 and a side is then below \<open>2\<^sup>5\<^sup>3\<close> and exact, the
  quotient is below \<open>2\<^sup>1\<^sup>1\<close>, so the spacing of binary64 values around it is at most
  \<open>2\<^sup>-\<^sup>4\<^sup>2\<close> and the rounding error at most \<open>2\<^sup>-\<^sup>4\<^sup>3\<close>, less than the distance \<open>1/b\<close>
  of a non-integer quotient from the next integer. The same analysis gives the
  bound of \<open>timing_ok\<close>: a total below 2048000 milliseconds has a finite quotient
  by 1000. The collision loop needs no fuel: the file system is a finite
  association list, and the measure of \<open>find_free\<close> is the number of candidate
  names from the counter on that exist. No other definition uses fuel; every
  function of the development is total.

  \<^bold>\<open>Assumptions of the model.\<close> Strings are lists of 8-bit characters and the
  case mapping is the ASCII one. The sign of a float zero is not represented.
  \<open>pathlib\<close> is the POSIX flavour of Python 3.12 and earlier. An exception that the
  interpreter raises carries the empty message. The file system has regular
  files and directories; permissions, links and the current directory's own
  entry are not modelled, a relative path is looked up under its normal form.
  \<open>requests\<close> is version 2.27 or later, where a body that does not decode raises
  a \<open>RequestException\<close>. A response is reduced to its status, reason, URL, text
  and decoded body.

  \<^bold>\<open>Not modelled.\<close> The parsing of the command line by \<open>argparse\<close> (its outcome
  is the field \<open>parse_args\<close> of the process, so the restriction of \<open>--format\<close> to
  three choices and the conversion of \<open>--width\<close> to an integer happen before the
  model starts); the text of \<open>--help\<close> and of a traceback; the inside of the HTTP
  exchange (connection, TLS, redirects, time-outs are one \<open>transport\<close> function);
  \<open>json.dumps\<close> and the \<open>repr\<close> of a float, which are parameters; the escapes
  that \<open>repr\<close> gives to non-printable characters; interruption by a signal.
\<close>

section \<open>From the command line to the payload\<close>

text \<open>
  The type of each field of a generation request, as the specification gives it
  for \<open>GenerationRequest\<close>.
\<close>

definition field_type_ok :: "string \<times> pyval \<Rightarrow> bool" where
  "field_type_ok kv =
     (case kv of (k, v) \<Rightarrow>
        if k \<in> set [''model'', ''prompt'', ''negative_prompt'', ''style_preset'', ''format'']
        then (case v of PStr _ \<Rightarrow> True | _ \<Rightarrow> False)
        else if k \<in> set [''width'', ''height'', ''steps'', ''seed'']
        then (case v of PInt _ \<Rightarrow> True | _ \<Rightarrow> False)
        else if k = ''cfg_scale'' then (case v of PFloat _ \<Rightarrow> True | _ \<Rightarrow> False)
        else if k \<in> set [''safe_mode'', ''hide_watermark'', ''return_binary'']
        then (case v of PBool _ \<Rightarrow> True | _ \<Rightarrow> False)
        else False)"

text \<open>A dimension as \<open>main\<close> passes it on: an integer, or \<open>None\<close>.\<close>

definition is_dim :: "pyval \<Rightarrow> bool" where
  "is_dim v = (case v of PNone \<Rightarrow> True | PInt _ \<Rightarrow> True | _ \<Rightarrow> False)"

lemma is_dim_opt_val [simp]: "is_dim (opt_val PInt x)" "is_dim (PInt n)"
  by (cases x) (simp_all add: is_dim_def)

lemma resolve_dimensions_dims:
  assumes "fst (resolve_dimensions pr a w) = Return (wd, ht)"
  shows "is_dim wd \<and> is_dim ht"
  using assms by (cases rule: resolve_dimensions_cases [of a pr w]) auto

text \<open>The payload of the request, field by field, in terms of the arguments.\<close>

lemma payload_lookup:
  "map_of (build_payload p m (gen_params a wd ht)) ''model'' = Some (PStr m)"
  "map_of (build_payload p m (gen_params a wd ht)) ''prompt'' = Some (PStr p)"
  "map_of (build_payload p m (gen_params a wd ht)) ''hide_watermark'' = Some (PBool True)"
  "map_of (build_payload p m (gen_params a wd ht)) ''return_binary'' = Some (PBool False)"
  "map_of (build_payload p m (gen_params a wd ht)) ''format'' = Some (PStr (format a))"
  "map_of (build_payload p m (gen_params a wd ht)) ''safe_mode'' = Some (PBool (safe_mode a))"
  "map_of (build_payload p m (gen_params a wd ht)) ''negative_prompt'' =
     (if truthy (opt_val PStr (negative_prompt a)) then Some (opt_val PStr (negative_prompt a)) else None)"
  "map_of (build_payload p m (gen_params a wd ht)) ''width'' = (if truthy wd then Some wd else None)"
  "map_of (build_payload p m (gen_params a wd ht)) ''height'' = (if truthy ht then Some ht else None)"
  "map_of (build_payload p m (gen_params a wd ht)) ''steps'' =
     (if truthy (opt_val PInt (steps a)) then Some (opt_val PInt (steps a)) else None)"
  "map_of (build_payload p m (gen_params a wd ht)) ''cfg_scale'' =
     (if truthy (opt_val PFloat (cfg_scale a)) then Some (opt_val PFloat (cfg_scale a)) else None)"
  "map_of (build_payload p m (gen_params a wd ht)) ''seed'' =
     (if truthy (opt_val PInt (seed a)) then Some (opt_val PInt (seed a)) else None)"
  "map_of (build_payload p m (gen_params a wd ht)) ''style_preset'' =
     (if truthy (opt_val PStr (style_preset a)) then Some (opt_val PStr (style_preset a)) else None)"
  by (auto simp: map_of_build_payload optional_params_def base_payload_def dict_get_def
      wanted_def gen_params_lookup)

definition payload_keys :: "string list" where
  "payload_keys =
     [''model'', ''prompt'', ''format'', ''hide_watermark'', ''safe_mode'', ''return_binary'']
     @ optional_params"

lemma build_payload_keys:
  "set (dict_keys (build_payload p m kwargs)) \<subseteq> set payload_keys"
  "distinct (dict_keys (build_payload p m kwargs))"
  by (auto simp: build_payload_def keys_foldl_add_optional distinct_foldl_add_optional
      base_payload_keys payload_keys_def)

lemma build_payload_entry:
  assumes "(k, v) \<in> set (build_payload p m kwargs)"
  shows "k \<in> set payload_keys" and "map_of (build_payload p m kwargs) k = Some v"
proof -
  from assms have "k \<in> set (dict_keys (build_payload p m kwargs))"
    by (force simp: dict_keys_def)
  with build_payload_keys(1) show "k \<in> set payload_keys" by blast
  from build_payload_keys(2) assms show "map_of (build_payload p m kwargs) k = Some v"
    by (simp add: dict_keys_def)
qed

lemma is_dim_truthy: "is_dim v \<Longrightarrow> truthy v \<Longrightarrow> \<exists>n. v = PInt n"
  by (cases v) (simp_all add: is_dim_def)

lemma payload_optional_all:
  "\<forall>k \<in> set optional_params.
     map_of (build_payload p m (gen_params a wd ht)) k =
       (case map_of (optional_args a wd ht) k of
          None \<Rightarrow> None
        | Some v \<Rightarrow> if truthy v then Some v else None)"
  by (simp add: optional_params_def payload_lookup optional_args_def)

lemma payload_fields_typed:
  assumes "is_dim wd" and "is_dim ht"
  shows "\<forall>k \<in> set payload_keys. \<forall>v.
     map_of (build_payload p m (gen_params a wd ht)) k = Some v \<longrightarrow> field_type_ok (k, v)"
  using assms unfolding payload_keys_def optional_params_def
  by (auto simp: payload_lookup field_type_ok_def truthy_opt_str truthy_opt_int
      truthy_opt_float split: if_splits dest: is_dim_truthy)

text \<open>
  C15: An optional field is in the payload that \<open>main\<close> has built exactly when
  its command-line value is truthy, and then with that value: what was not given
  is left out, and so is a value that Python counts as false, such as the seed 0,
  zero steps, a guidance scale of 0.0 or an empty style.
\<close>

theorem payload_optional_from_args:
  assumes "k \<in> set optional_params"
  shows "map_of (build_payload p (model a) (gen_params a wd ht)) k =
     (case map_of (optional_args a wd ht) k of
        None \<Rightarrow> None
      | Some v \<Rightarrow> if truthy v then Some v else None)"
  using assms payload_optional_all [of p "model a" a wd ht] by blast

text \<open>
  C13: Every payload that \<open>main\<close> builds from parsed arguments and resolved
  dimensions is a well-formed generation request: no key occurs twice, every key
  is one of the thirteen fields, and every value has the type of its field.
\<close>

theorem payload_well_typed:
  assumes "fst (resolve_dimensions pr a w) = Return (wd, ht)"
  shows "distinct (dict_keys (build_payload p (model a) (gen_params a wd ht)))
    \<and> list_all field_type_ok (build_payload p (model a) (gen_params a wd ht))"
proof -
  let ?payload = "build_payload p (model a) (gen_params a wd ht)"
  from assms have dims: "is_dim wd" "is_dim ht"
    by (simp_all add: resolve_dimensions_dims)
  have "field_type_ok (k, v)" if "(k, v) \<in> set ?payload" for k v
  proof -
    from that have k: "k \<in> set payload_keys" and v: "map_of ?payload k = Some v"
      by (rule build_payload_entry)+
    with payload_fields_typed [OF dims, of p "model a" a] show ?thesis by blast
  qed
  then show ?thesis by (auto simp: list_all_iff build_payload_keys)
qed

section \<open>From the resolver to the request\<close>

text \<open>A field of the JSON body of a request.\<close>

definition request_field :: "http_request \<Rightarrow> string \<Rightarrow> pyval option" where
  "request_field rq k = (case req_json rq of None \<Rightarrow> None | Some d \<Rightarrow> map_of d k)"

lemma request_field_image_request [simp]:
  "request_field (image_request self p m kwargs) k = map_of (build_payload p m kwargs) k"
  by (simp add: request_field_def image_request_def)

text \<open>
  C14: The dimensions that the resolver returns for the \<open>--ar\<close> token are the
  ones sent: \<open>main\<close> sends one request more, and the \<open>width\<close> and \<open>height\<close> of its
  body are the two numbers of the resolver. A side that the resolver gives as 0
  is not sent at all, so that request carries one dimension without the other.
\<close>

theorem main_sends_resolved_dimensions:
  assumes "environ_key pr = Some k" and "k \<noteq> []" and "parse_args pr = Parsed a"
    and "\<not> list_models_opt a" and "prompt a = Some p" and "p \<noteq> []"
    and "aspect_ratio a = Some ar" and "ar \<noteq> []"
    and "width a = None \<or> width a = Some 0" and "height a = None \<or> height a = Some 0"
    and "parse_aspect_ratio ar = Return (wd, ht)"
  shows "length (sent (snd (main env pr w))) = length (sent w) + 1
    \<and> request_field (last (sent (snd (main env pr w)))) ''width''
        = (if wd = 0 then None else Some (PInt wd))
    \<and> request_field (last (sent (snd (main env pr w)))) ''height''
        = (if ht = 0 then None else Some (PInt ht))"
proof -
  from assms(7-11) have "resolve_dimensions pr a w = (Return (PInt wd, PInt ht), w)"
    by (auto simp: resolve_dimensions_def)
  then have "main env pr w = generate_and_save env k p a (PInt wd) (PInt ht) w"
    by (simp add: main_resolved [OF assms(1-6)])
  then show ?thesis by (simp add: generate_and_save_sent payload_lookup)
qed

section \<open>The run that succeeds\<close>

text \<open>
  C4: A run that the server answers with an image saves it: with a key, a
  prompt and dimensions that resolve, a reply without an error status whose body
  holds the base64 text of some bytes as its first image, an existing current
  directory and a file name without a directory part, \<open>main\<close> ends normally,
  whatever files are there already; a file that did not exist before then holds
  exactly these bytes, and its name is reported on the standard output.
\<close>

theorem main_saves_served_image:
  assumes "environ_key pr = Some k" and "k \<noteq> []" and "parse_args pr = Parsed a"
    and "\<not> list_models_opt a" and "prompt a = Some p" and "p \<noteq> []"
    and "fst (resolve_dimensions pr a w) = Return (wd, ht)"
    and "transport env (image_request (VeniceImageGenerator k) p (model a) (gen_params a wd ht))
          = Reply resp"
    and "status_code resp < 400 \<or> 600 \<le> status_code resp"
    and "json_value resp = Inr (PDict d)"
    and "map_of d ''images'' = Some (PList (PStr (b64encode bs) # rest))"
    and "timing_ok d"
    and "map_of (files w) ''.'' = Some Dir"
    and "CHR ''/'' \<notin> set (initial_filename (output_arg a)
           (py_str (float_repr env) (dict_get d ''id'' (PStr ''generated_image''))) (format a))"
  shows "\<exists>filename.
      fst (main env pr w) = Return ()
    \<and> map_of (files w) filename = None
    \<and> map_of (files (snd (main env pr w))) filename = Some (File bs)
    \<and> ''Image saved as: '' @ filename \<in> set (stdout (snd (main env pr w)))"
proof -
  let ?rq = "image_request (VeniceImageGenerator k) p (model a) (gen_params a wd ht)"
  let ?w1 = "(print_out (generating_line a) w)\<lparr>sent := sent w @ [?rq]\<rparr>"
  let ?id = "py_str (float_repr env) (dict_get d ''id'' (PStr ''generated_image''))"
  from assms(13) have "map_of (files ?w1) ''.'' = Some Dir" by simp
  from this assms(14) b64decode_b64encode [of bs] obtain filename where
    save: "save_image ?w1 (b64encode bs) (output_arg a) ?id (format a) =
       (Return filename, ?w1\<lparr>files := AList.update filename (File bs) (files ?w1)\<rparr>)"
    and free: "\<not> path_exists (files ?w1) filename" "path_str filename = filename"
    by (rule save_image_in_cwd)
  let ?w2 = "print_out (''Image saved as: '' @ filename)
      (?w1\<lparr>files := AList.update filename (File bs) (files ?w1)\<rparr>)"
  have "main env pr w = generate_and_save env k p a wd ht w"
    by (rule main_resolved [OF assms(1-7)])
  also note generate_and_save_answer [OF assms(8-10)]
  also note handle_result_saved [OF assms(11) save]
  finally have main: "main env pr w = report_timing (PDict d) ?w2" .
  from assms(12) have "fst (report_timing (PDict d) ?w2) = Return ()"
    by (rule report_timing_returns)
  moreover have "files (snd (report_timing (PDict d) ?w2)) = files ?w2" by simp
  moreover have "set (stdout ?w2) \<subseteq> set (stdout (snd (report_timing (PDict d) ?w2)))"
    by (rule report_timing_cases [of "PDict d" ?w2]) (auto simp: print_out_def)
  ultimately show ?thesis
    using free unfolding main
    by (intro exI [of _ filename]) (auto simp: path_exists_def update_conv print_out_def)
qed

theorem main_saves_served_image_witness:
  "\<exists>filename.
      fst (main serving_env example_process example_net_world) = Return ()
    \<and> map_of (files example_net_world) filename = None
    \<and> map_of (files (snd (main serving_env example_process example_net_world))) filename
        = Some (File [104, 105])
    \<and> ''Image saved as: '' @ filename
        \<in> set (stdout (snd (main serving_env example_process example_net_world)))"
proof -
  let ?rq = "image_request (VeniceImageGenerator ''key'') ''a cat'' (model example_args)
      (gen_params example_args PNone PNone)"
  have enc: "b64encode [104, 105] = ''aGk=''" by code_simp
  show ?thesis
    by (rule main_saves_served_image [where k = "''key''" and a = example_args and p = "''a cat''"
          and wd = PNone and ht = PNone and rest = "[]" and resp = "answer 200 ''OK'' image_answer ?rq"
          and d = "[(''id'', PStr ''img42''), (''images'', PList [PStr ''aGk='']),
            (''timing'', PDict [(''total'', PInt 1234)])]" and bs = "[104, 105]", unfolded enc])
      (simp_all add: example_run_defs example_defs resolve_dimensions_def timing_ok_def
        initial_filename_def dict_get_def py_str_def image_request_def)
qed

section \<open>Examples\<close>

definition wide_args :: args where
  "wide_args = example_args\<lparr>aspect_ratio := Some ''2000:1''\<rparr>"

definition square_args :: args where
  "square_args = example_args\<lparr>aspect_ratio := Some ''square'', seed := Some 0\<rparr>"

lemma example_ratios:
  "parse_aspect_ratio ''2000:1'' = Return (1024, 0)"
  "parse_aspect_ratio ''square'' = Return (1024, 1024)"
proof -
  have "ratio_text 2000 1 = ''2000:1''" by code_simp
  moreover have "(2000, 1) \<notin> set preset_ratios" by (simp add: preset_ratios_def)
  ultimately show "parse_aspect_ratio ''2000:1'' = Return (1024, 0)"
    using parse_aspect_ratio_nat [of 2000 1] by (simp add: scaled_ratio_def round_up_8_def)
  show "parse_aspect_ratio ''square'' = Return (1024, 1024)" by code_simp
qed

theorem payload_optional_from_args_witness:
  "''seed'' \<in> set optional_params
   \<and> map_of (build_payload ''a cat'' (model square_args)
               (gen_params square_args (PInt 1024) (PInt 1024))) ''seed'' = None"
  using payload_optional_from_args [of "''seed''" "''a cat''" square_args "PInt 1024" "PInt 1024"]
  by (simp add: optional_params_def optional_args_def square_args_def example_args_def)

theorem payload_well_typed_witness:
  "fst (resolve_dimensions (with_args square_args) square_args example_net_world)
     = Return (PInt 1024, PInt 1024)
   \<and> distinct (dict_keys (build_payload ''a cat'' (model square_args)
                  (gen_params square_args (PInt 1024) (PInt 1024))))
   \<and> list_all field_type_ok (build_payload ''a cat'' (model square_args)
         (gen_params square_args (PInt 1024) (PInt 1024)))"
proof -
  have 1: "fst (resolve_dimensions (with_args square_args) square_args example_net_world)
      = Return (PInt 1024, PInt 1024)"
    by (simp add: resolve_dimensions_def square_args_def example_args_def example_ratios)
  from 1 payload_well_typed [OF 1, of "''a cat''"] show ?thesis by simp
qed

theorem main_sends_resolved_dimensions_witness:
  "length (sent (snd (main serving_env (with_args wide_args) example_net_world))) = 1
   \<and> request_field (last (sent (snd (main serving_env (with_args wide_args) example_net_world))))
       ''width'' = Some (PInt 1024)
   \<and> request_field (last (sent (snd (main serving_env (with_args wide_args) example_net_world))))
       ''height'' = None"
  using main_sends_resolved_dimensions [where pr = "with_args wide_args" and k = "''key''"
      and a = wide_args and p = "''a cat''" and ar = "''2000:1''" and wd = 1024 and ht = 0
      and env = serving_env and w = example_net_world]
  by (simp add: example_run_defs wide_args_def example_ratios example_net_world_def)

end
